(* ===== verification/Canvas_Prelude.thy ===== *)
theory Canvas_Prelude
  imports Complex_Main
begin

text \<open>
  Shared vocabulary of the model of \<open>useDomCanvasEvents.ts\<close>: the plain 2D and 3D
  vectors the hook builds (\<open>{x, y}\<close> literals and tldraw's \<open>Vec\<close>), the two numeric
  primitives of TypeScript the hook relies on (the exponent operator \<open>**\<close> and
  \<open>Vec.Dist\<close>), the collections of unfolding rules the component proofs use, and the
  generic lemmas on these that the components share.
  TypeScript numbers are IEEE doubles; the model reads them as \<open>real\<close> (no rounding, no
  \<open>NaN\<close> and no \<open>Infinity\<close>). Where the code can divide by zero the theorems say so in
  their hypotheses, and the root theory records it.
\<close>

named_theorems handler_defs \<open>unfolding equations of the hook's event handlers\<close>
named_theorems geometry_simps \<open>evaluation rules for distances, centres and zoom levels\<close>

subsection \<open>Vectors\<close>

text \<open>
  \<open>{x, y}\<close> object literals (pinch centre and deltas) are \<open>vec2\<close>; tldraw's \<open>Vec\<close>
  and the \<open>{x, y, z}\<close> points of the event infos are \<open>vec3\<close>, the extension of
  \<open>vec2\<close> by \<open>z\<close>, as \<open>Vec\<close> extends \<open>VecLike\<close>.
\<close>

record vec2 =
  vx :: real
  vy :: real

record vec3 = vec2 +
  vz :: real

definition vec2_of :: "real \<Rightarrow> real \<Rightarrow> vec2" where
  "vec2_of x y = \<lparr>vx = x, vy = y\<rparr>"

definition vec3_of :: "real \<Rightarrow> real \<Rightarrow> real \<Rightarrow> vec3" where
  "vec3_of x y z = \<lparr>vx = x, vy = y, vz = z\<rparr>"

text \<open>\<open>Vec.Dist(A, B)\<close>: the Euclidean distance of two points.\<close>

definition vec_dist :: "'a vec2_scheme \<Rightarrow> 'b vec2_scheme \<Rightarrow> real" where
  "vec_dist A B = sqrt ((vy A - vy B)\<^sup>2 + (vx A - vx B)\<^sup>2)"

text \<open>
  The exponent operator \<open>x ** y\<close> of TypeScript. \<open>x ** 0 = 1\<close> for every \<open>x\<close>;
  otherwise it agrees with \<open>powr\<close> on the non-negative bases the hook can produce
  (a ratio of two distances). \<open>0 ** y\<close> with \<open>y < 0\<close> is \<open>Infinity\<close> in
  TypeScript and is outside the model.
\<close>

definition js_pow :: "real \<Rightarrow> real \<Rightarrow> real" where
  "js_pow x y = (if y = 0 then 1 else x powr y)"

subsection \<open>Generic lemmas\<close>

lemma vec_dist_nonneg [simp]: "0 \<le> vec_dist A B"
  by (simp add: vec_dist_def)

lemma vec_dist_self [simp]: "vec_dist A A = 0"
  by (simp add: vec_dist_def)

lemma vec_dist_commute: "vec_dist A B = vec_dist B A"
  by (simp add: vec_dist_def power2_commute)

lemma vec_dist_zero_iff: "vec_dist A B = 0 \<longleftrightarrow> vx A = vx B \<and> vy A = vy B"
  by (auto simp: vec_dist_def)

lemma js_pow_one [simp, geometry_simps]: "0 \<le> x \<Longrightarrow> js_pow x 1 = x"
  by (simp add: js_pow_def)

lemma js_pow_zero_exp [simp, geometry_simps]: "js_pow x 0 = 1"
  by (simp add: js_pow_def)

lemma js_pow_zero_base [geometry_simps]: "y \<noteq> 0 \<Longrightarrow> js_pow 0 y = 0"
  by (simp add: js_pow_def)

lemma js_pow_pos: "0 < x \<Longrightarrow> 0 < js_pow x y"
  by (simp add: js_pow_def)

lemma js_pow_nonneg: "0 \<le> js_pow x y"
  by (simp add: js_pow_def)

lemma js_pow_one_base [simp]: "js_pow 1 y = 1"
  by (simp add: js_pow_def)

lemma js_pow_mono:
  assumes "0 < x" "x \<le> x'" "0 \<le> y"
  shows "js_pow x y \<le> js_pow x' y"
  using assms by (simp add: js_pow_def powr_mono2)

lemma less_sqrt_iff [geometry_simps]: "0 \<le> x \<Longrightarrow> x < sqrt y \<longleftrightarrow> x * x < y"
  by (metis abs_of_nonneg power2_eq_square real_less_rsqrt real_sqrt_abs real_sqrt_less_iff
      real_sqrt_less_mono not_less real_sqrt_le_mono le_less_trans)

lemma sqrt_le_iff [geometry_simps]: "0 \<le> x \<Longrightarrow> sqrt y \<le> x \<longleftrightarrow> y \<le> x * x"
  using less_sqrt_iff [of x y] by linarith

lemma key_in_keys [intro]: "(k, v) \<in> set m \<Longrightarrow> k \<in> fst ` set m"
  by (rule rev_image_eqI) auto

lemma key_notin_keys [dest]: "k \<notin> fst ` set m \<Longrightarrow> (k, v) \<in> set m \<Longrightarrow> False"
  by (auto intro: key_in_keys)

lemmas vec_ctor_defs [geometry_simps] = vec2_of_def vec3_of_def

end
