(* ===== verification/Pointer_Map.thy ===== *)
theory Pointer_Map
  imports Canvas_Prelude
begin

text \<open>
  The contact tracker of the hook is \<open>activePointers\<close>, a JavaScript \<open>Map\<close> from
  pointer id to the latest \<open>PointerEvent\<close> of that pointer. A \<open>Map\<close> iterates in
  insertion order, and \<open>Array.from(activePointers.values())\<close> is how the hook picks the
  two fingers of a pinch, so the order is part of the behaviour: the model is an
  association list in insertion order. \<open>set\<close> on a present key replaces the value in
  place, on an absent key appends; \<open>delete\<close> removes the entry. The abstraction to a
  partial function is \<open>map_of\<close>; the invariant is that keys are distinct.
\<close>

type_synonym ('k, 'v) js_map = "('k \<times> 'v) list"

definition map_empty :: "('k, 'v) js_map" where
  "map_empty = []"

fun map_set :: "'k \<Rightarrow> 'v \<Rightarrow> ('k, 'v) js_map \<Rightarrow> ('k, 'v) js_map" where
  "map_set k v [] = [(k, v)]"
| "map_set k v ((k', v') # m) = (if k = k' then (k, v) # m else (k', v') # map_set k v m)"

fun map_delete :: "'k \<Rightarrow> ('k, 'v) js_map \<Rightarrow> ('k, 'v) js_map" where
  "map_delete k [] = []"
| "map_delete k ((k', v') # m) = (if k = k' then m else (k', v') # map_delete k m)"

definition map_has :: "'k \<Rightarrow> ('k, 'v) js_map \<Rightarrow> bool" where
  "map_has k m \<longleftrightarrow> k \<in> set (map fst m)"

definition map_values :: "('k, 'v) js_map \<Rightarrow> 'v list" where
  "map_values m = map snd m"

definition map_size :: "('k, 'v) js_map \<Rightarrow> nat" where
  "map_size m = length m"

definition map_inv :: "('k, 'v) js_map \<Rightarrow> bool" where
  "map_inv m \<longleftrightarrow> distinct (map fst m)"

lemmas js_map_defs = map_empty_def map_has_def map_values_def map_size_def map_inv_def

subsection \<open>The map contract\<close>

text \<open>
  The operations implement a finite partial function (the contract of a map ADT, here
  without a locale): lookup after \<open>set\<close> and \<open>delete\<close>, invariant preservation, and
  \<open>size\<close> as the number of keys.
\<close>

lemma map_of_map_set: "map_of (map_set k v m) = (map_of m)(k \<mapsto> v)"
  by (induction m) (auto simp: fun_eq_iff)

lemma keys_map_set: "map fst (map_set k v m) = (if k \<in> set (map fst m) then map fst m else map fst m @ [k])"
  by (induction m) auto

lemma set_keys_map_set [simp]: "fst ` set (map_set k v m) = insert k (fst ` set m)"
proof -
  have "fst ` set (map_set k v m) = set (map fst (map_set k v m))" by simp
  also have "\<dots> = insert k (fst ` set m)" by (auto simp: keys_map_set)
  finally show ?thesis .
qed

lemma keys_map_delete: "distinct (map fst m) \<Longrightarrow> map fst (map_delete k m) = removeAll k (map fst m)"
  by (induction m) auto

lemma set_keys_map_delete [simp]: "distinct (map fst m) \<Longrightarrow> fst ` set (map_delete k m) = fst ` set m - {k}"
  by (metis keys_map_delete set_map set_removeAll)

lemma map_delete_absent: "k \<notin> set (map fst m) \<Longrightarrow> map_delete k m = m"
  by (induction m) auto

lemma map_of_map_delete: "map_inv m \<Longrightarrow> map_of (map_delete k m) = (map_of m)(k := None)"
  by (induction m) (auto simp: map_inv_def fun_eq_iff map_of_eq_None_iff)

lemma map_inv_empty [simp]: "map_inv map_empty"
  by (simp add: js_map_defs)

lemma map_inv_set [simp]: "map_inv m \<Longrightarrow> map_inv (map_set k v m)"
  by (simp add: map_inv_def keys_map_set)

lemma map_inv_delete [simp]: "map_inv m \<Longrightarrow> map_inv (map_delete k m)"
  by (simp add: map_inv_def keys_map_delete distinct_removeAll)

lemma map_has_map_of: "map_has k m \<longleftrightarrow> map_of m k \<noteq> None"
  by (simp add: map_has_def map_of_eq_None_iff)

lemma map_has_set [simp]: "map_has k' (map_set k v m) \<longleftrightarrow> k' = k \<or> map_has k' m"
  by (auto simp: map_has_def)

lemma map_has_delete [simp]: "map_inv m \<Longrightarrow> map_has k' (map_delete k m) \<longleftrightarrow> k' \<noteq> k \<and> map_has k' m"
  by (auto simp: map_has_def map_inv_def)

lemma map_size_set: "map_size (map_set k v m) = (if map_has k m then map_size m else Suc (map_size m))"
proof -
  have "length (map_set k v m) = length (map fst (map_set k v m))" by simp
  then show ?thesis by (simp add: map_size_def map_has_def keys_map_set)
qed

lemma map_size_delete:
  assumes "map_inv m"
  shows "map_size (map_delete k m) = (if map_has k m then map_size m - 1 else map_size m)"
proof -
  from assms have d: "distinct (map fst m)" by (simp add: map_inv_def)
  have "map_size (map_delete k m) = length (removeAll k (map fst m))"
    by (metis keys_map_delete [OF d] length_map map_size_def)
  also have "\<dots> = length (remove1 k (map fst m))"
    using d by (simp add: distinct_remove1_removeAll)
  finally show ?thesis by (simp add: length_remove1 map_has_def map_size_def)
qed

lemma card_keys [simp]: "map_inv m \<Longrightarrow> card (fst ` set m) = map_size m"
  by (metis distinct_card length_map list.set_map map_inv_def map_size_def)

lemma map_size_card: "map_inv m \<Longrightarrow> map_size m = card (dom (map_of m))"
  unfolding map_size_def map_inv_def dom_map_of_conv_image_fst
  by (metis distinct_card length_map set_map)

subsection \<open>Iteration order\<close>

text \<open>
  Updating a present key keeps its position among the values; a new key goes last.
  \<open>Array.from(values())\<close> therefore lists the pointers in the order their
  \<open>pointerdown\<close> arrived, whatever moves happened since.
\<close>

lemma map_snd_update_absent:
  "k \<notin> fst ` set m \<Longrightarrow> map (\<lambda>(k', v'). if k' = k then v else v') m = map snd m"
  by (induction m) auto

lemma values_map_set_present:
  "map_has k m \<Longrightarrow> map_inv m \<Longrightarrow> map_values (map_set k v m) = map (\<lambda>(k', v'). if k' = k then v else v') m"
proof (induction m)
  case Nil
  then show ?case by (simp add: map_has_def)
next
  case (Cons p m)
  obtain a b where p: "p = (a, b)" by fastforce
  show ?case
  proof (cases "k = a")
    case True
    with Cons.prems p have "k \<notin> fst ` set m" by (simp add: map_inv_def)
    with True p show ?thesis by (simp add: map_values_def map_snd_update_absent)
  next
    case False
    with Cons.prems p have "map_has k m" "map_inv m" by (simp_all add: map_has_def map_inv_def)
    with Cons.IH False p show ?thesis by (simp add: map_values_def)
  qed
qed

lemma map_set_absent: "\<not> map_has k m \<Longrightarrow> map_set k v m = m @ [(k, v)]"
  by (induction m) (auto simp: map_has_def)

lemma map_set_present_keys: "map_has k m \<Longrightarrow> map fst (map_set k v m) = map fst m"
  by (simp add: keys_map_set map_has_def)

lemma map_delete_set_absent: "\<not> map_has k m \<Longrightarrow> map_delete k (map_set k v m) = m"
  by (induction m) (auto simp: map_has_def)

lemma map_delete_idem [simp]: "map_inv m \<Longrightarrow> map_delete k (map_delete k m) = map_delete k m"
  by (simp add: map_delete_absent map_inv_def)

lemma list_all_map_set: "list_all P m \<Longrightarrow> P (k, v) \<Longrightarrow> list_all P (map_set k v m)"
  by (induction m) auto

lemma list_all_map_delete: "list_all P m \<Longrightarrow> list_all P (map_delete k m)"
  by (induction m) auto

lemma map_size_delete_ge: "map_inv m \<Longrightarrow> map_size m - 1 \<le> map_size (map_delete k m)"
  by (simp add: map_size_delete)

lemma map_size_set_ge: "map_size m \<le> map_size (map_set k v m)"
  by (simp add: map_size_set)

lemmas js_map_simps = map_size_set map_size_delete map_set_absent

subsection \<open>Refinement of a finite map\<close>

text \<open>
  On a well-formed map, \<open>set\<close> and \<open>delete\<close> keep the invariant and act on the
  abstract partial function as update and removal; \<open>has\<close> is membership in its domain
  and \<open>size\<close> the size of that domain.
\<close>

lemma js_map_refines_map:
  assumes "map_inv m"
  shows "map_inv (map_set k v m) \<and> map_of (map_set k v m) = (map_of m)(k \<mapsto> v) \<and>
         map_inv (map_delete k m) \<and> map_of (map_delete k m) = (map_of m)(k := None) \<and>
         (map_has k m \<longleftrightarrow> k \<in> dom (map_of m)) \<and> map_size m = card (dom (map_of m))"
  using assms by (simp add: map_of_map_set map_of_map_delete map_has_map_of map_size_card domIff)

text \<open>
  \<open>set\<close> of a present key keeps the key order and replaces the value in its slot;
  \<open>set\<close> of an absent key appends. Hence \<open>Array.from(values())\<close> lists pointers in
  the order of their \<open>pointerdown\<close>, unchanged by moves.
\<close>

lemma map_set_insertion_order:
  assumes "map_inv m"
  shows "(map_has k m \<longrightarrow> map fst (map_set k v m) = map fst m \<and>
            map_values (map_set k v m) = map (\<lambda>(k', v'). if k' = k then v else v') m) \<and>
         (\<not> map_has k m \<longrightarrow> map_set k v m = m @ [(k, v)])"
  using assms by (simp add: map_set_present_keys values_map_set_present map_set_absent)

end
