(* ===== verification/Canvas_Interface.thy ===== *)
theory Canvas_Interface
  imports Canvas_Prelude
begin

text \<open>
  The interfaces of the hook with its two collaborators. Inputs are DOM events
  (\<open>PointerEvent\<close>, \<open>WheelEvent\<close>), with only the fields the hook reads. Outputs are
  tldraw's \<open>TLPinchEventInfo\<close> and \<open>TLWheelEventInfo\<close> handed to
  \<open>editor.dispatch\<close>. The editor is read, never written, by the hook:
  \<open>editor_view\<close> collects what it queries (zoom level, camera options, focus, the
  editing shape and its scrollability and bounds, the input point, the platform flag
  \<open>isAccelKey\<close> reads). The record hierarchy follows the DOM's: a pointer event and a
  wheel event are mouse events, and a mouse event carries the modifier keys.
\<close>

subsection \<open>DOM events\<close>

record key_state =
  shiftKey :: bool
  altKey :: bool
  ctrlKey :: bool
  metaKey :: bool

record mouse_event = key_state +
  clientX :: real
  clientY :: real

record pointer_event = mouse_event +
  pointerId :: int

record wheel_event = mouse_event +
  deltaX :: real
  deltaY :: real
  deltaZ :: real
  deltaMode :: nat

subsection \<open>Canonical events\<close>

text \<open>
  The five key flags of every event info: the DOM's four, with \<open>ctrlKey\<close> set when
  either control or meta is held, and \<open>accelKey\<close> from \<open>isAccelKey\<close>.
\<close>

record info_keys = key_state +
  accelKey :: bool

datatype pinch_name = Pinch_start | Pinch | Pinch_end

text \<open>
  \<open>PinchInfo name point delta keys\<close> is a \<open>TLPinchEventInfo\<close> (\<open>type: 'pinch'\<close>);
  \<open>WheelInfo delta point keys\<close> is a \<open>TLWheelEventInfo\<close> (\<open>type: 'wheel'\<close>,
  \<open>name: 'wheel'\<close>).
\<close>

datatype canvas_event =
    PinchInfo pinch_name vec3 vec2 info_keys
  | WheelInfo vec3 vec3 info_keys

fun pinch_name_of :: "canvas_event \<Rightarrow> pinch_name option" where
  "pinch_name_of (PinchInfo n _ _ _) = Some n"
| "pinch_name_of (WheelInfo _ _ _) = None"

definition count_pinch :: "pinch_name \<Rightarrow> canvas_event list \<Rightarrow> nat" where
  "count_pinch n evs = length (filter (\<lambda>ev. pinch_name_of ev = Some n) evs)"

subsection \<open>The editor as the hook sees it\<close>

type_synonym shape_id = string

record tl_shape =
  shapeId :: shape_id
  shapeType :: string

text \<open>tldraw's \<open>Box\<close>: corner \<open>(x, y)\<close>, width and height.\<close>

record box =
  boxX :: real
  boxY :: real
  boxW :: real
  boxH :: real

record editor_view =
  getZoomLevel :: real
  zoomSpeed :: real
  isFocused :: bool
  editingShapeId :: "shape_id option"
  getShape :: "shape_id \<Rightarrow> tl_shape option"
  canScroll :: "tl_shape \<Rightarrow> bool"
  getShapePageBounds :: "shape_id \<Rightarrow> box option"
  currentPagePoint :: vec2
  isDarwin :: bool

text \<open>
  \<open>isAccelKey(e)\<close> of \<open>utils/keyboard\<close>: the command key on Apple platforms, control
  or command elsewhere.
\<close>

definition isAccelKey :: "editor_view \<Rightarrow> 'a key_state_scheme \<Rightarrow> bool" where
  "isAccelKey ed e = (if isDarwin ed then metaKey e else ctrlKey e \<or> metaKey e)"

text \<open>The key block that every event info of the hook builds from its DOM event.\<close>

definition event_keys :: "editor_view \<Rightarrow> 'a key_state_scheme \<Rightarrow> info_keys" where
  "event_keys ed e =
     \<lparr>shiftKey = shiftKey e, altKey = altKey e, ctrlKey = metaKey e \<or> ctrlKey e,
      metaKey = metaKey e, accelKey = isAccelKey ed e\<rparr>"

text \<open>A pointer event with no modifier held, as the examples below build them.\<close>

definition pointer_at :: "int \<Rightarrow> real \<Rightarrow> real \<Rightarrow> pointer_event" where
  "pointer_at i x y =
     \<lparr>shiftKey = False, altKey = False, ctrlKey = False, metaKey = False,
      clientX = x, clientY = y, pointerId = i\<rparr>"

text \<open>An editor on an Apple platform, idle, as the examples below use it.\<close>

definition mac_editor :: editor_view where
  "mac_editor =
     \<lparr>getZoomLevel = 1, zoomSpeed = 1, isFocused = True, editingShapeId = None,
      getShape = (\<lambda>_. None), canScroll = (\<lambda>_. False), getShapePageBounds = (\<lambda>_. None),
      currentPagePoint = vec2_of 0 0, isDarwin = True\<rparr>"

text \<open>What one DOM event does besides updating the hook's state.\<close>

record reaction =
  dispatched :: "canvas_event list"
  defaultPrevented :: bool

definition no_reaction :: reaction where
  "no_reaction = \<lparr>dispatched = [], defaultPrevented = False\<rparr>"

definition emits :: "canvas_event list \<Rightarrow> reaction" where
  "emits evs = \<lparr>dispatched = evs, defaultPrevented = False\<rparr>"

lemma count_pinch_simps [simp]:
  "count_pinch n [] = 0"
  "count_pinch n (ev # evs) = (if pinch_name_of ev = Some n then Suc (count_pinch n evs) else count_pinch n evs)"
  "count_pinch n (evs @ evs') = count_pinch n evs + count_pinch n evs'"
  by (simp_all add: count_pinch_def)

lemma reaction_simps [simp]:
  "dispatched no_reaction = []" "defaultPrevented no_reaction = False"
  "dispatched (emits evs) = evs" "defaultPrevented (emits evs) = False"
  by (simp_all add: no_reaction_def emits_def)

lemma pointer_at_fields [simp]:
  "pointerId (pointer_at i x y) = i" "clientX (pointer_at i x y) = x" "clientY (pointer_at i x y) = y"
  "shiftKey (pointer_at i x y) = False" "altKey (pointer_at i x y) = False"
  "ctrlKey (pointer_at i x y) = False" "metaKey (pointer_at i x y) = False"
  by (simp_all add: pointer_at_def)

lemma event_keys_ctrl: "ctrlKey (event_keys ed e) \<longleftrightarrow> ctrlKey e \<or> metaKey e"
  by (auto simp: event_keys_def)

lemma event_keys_accel_implies_ctrl: "accelKey (event_keys ed e) \<Longrightarrow> ctrlKey (event_keys ed e)"
  by (auto simp: event_keys_def isAccelKey_def split: if_splits)

end
