(* ===== verification/Pinch.thy ===== *)
theory Pinch
  imports Canvas_Interface
begin

text \<open>
  The pinch classifier of the hook: the closure variables \<open>pinchState\<close>,
  \<open>initDistanceBetweenFingers\<close>, \<open>initZoom\<close>, \<open>currDistanceBetweenFingers\<close>,
  \<open>initPointBetweenFingers\<close> and \<open>prevPointBetweenFingers\<close> (lines 31--36) as the
  record \<open>pinch_vars\<close>, the two geometry helpers \<open>getPointerDistance\<close> and
  \<open>getPointerCenter\<close>, the classification step \<open>updatePinchState\<close>, and the zoom
  level \<open>initZoom * scale ** zoomSpeed\<close> that the move and up handlers compute.
  The modes are ordered by commitment, \<open>Not_sure < Panning < Zooming\<close>; the
  classification step never moves down this order.
\<close>

datatype pinch_state = Not_sure | Zooming | Panning

fun pinch_rank :: "pinch_state \<Rightarrow> nat" where
  "pinch_rank Not_sure = 0"
| "pinch_rank Panning = 1"
| "pinch_rank Zooming = 2"

instantiation pinch_state :: linorder
begin

definition less_eq_pinch_state :: "pinch_state \<Rightarrow> pinch_state \<Rightarrow> bool" where
  "m \<le> m' \<longleftrightarrow> pinch_rank m \<le> pinch_rank m'"

definition less_pinch_state :: "pinch_state \<Rightarrow> pinch_state \<Rightarrow> bool" where
  "m < m' \<longleftrightarrow> pinch_rank m < pinch_rank m'"

instance
proof
  fix m m' m'' :: pinch_state
  show "m < m' \<longleftrightarrow> m \<le> m' \<and> \<not> m' \<le> m"
    by (auto simp: less_eq_pinch_state_def less_pinch_state_def)
  show "m \<le> m" by (simp add: less_eq_pinch_state_def)
  show "m \<le> m' \<Longrightarrow> m' \<le> m'' \<Longrightarrow> m \<le> m''"
    by (simp add: less_eq_pinch_state_def)
  show "m \<le> m' \<Longrightarrow> m' \<le> m \<Longrightarrow> m = m'"
    by (cases m; cases m') (simp_all add: less_eq_pinch_state_def)
  show "m \<le> m' \<or> m' \<le> m"
    by (auto simp: less_eq_pinch_state_def)
qed

end

record pinch_vars =
  pinchState :: pinch_state
  initDistanceBetweenFingers :: real
  initZoom :: real
  currDistanceBetweenFingers :: real
  initPointBetweenFingers :: vec2
  prevPointBetweenFingers :: vec2

text \<open>The values the closure variables start with when the effect runs.\<close>

definition pinch_vars_init :: pinch_vars where
  "pinch_vars_init =
     \<lparr>pinchState = Not_sure, initDistanceBetweenFingers = 1, initZoom = 1,
      currDistanceBetweenFingers = 0, initPointBetweenFingers = vec2_of 0 0,
      prevPointBetweenFingers = vec2_of 0 0\<rparr>"

definition getPointerDistance :: "'a mouse_event_scheme \<Rightarrow> 'b mouse_event_scheme \<Rightarrow> real" where
  "getPointerDistance p1 p2 =
     (let dx = clientX p1 - clientX p2; dy = clientY p1 - clientY p2 in sqrt (dx * dx + dy * dy))"

definition getPointerCenter :: "'a mouse_event_scheme \<Rightarrow> 'b mouse_event_scheme \<Rightarrow> vec2" where
  "getPointerCenter p1 p2 =
     \<lparr>vx = (clientX p1 + clientX p2) / 2, vy = (clientY p1 + clientY p2) / 2\<rparr>"

definition updatePinchState :: "'a pinch_vars_scheme \<Rightarrow> 'a pinch_vars_scheme" where
  "updatePinchState s =
     (if pinchState s = Zooming then s
      else
        let touchDistance = \<bar>currDistanceBetweenFingers s - initDistanceBetweenFingers s\<bar>;
            originDistance = vec_dist (initPointBetweenFingers s) (prevPointBetweenFingers s)
        in case pinchState s of
             Not_sure \<Rightarrow>
               if touchDistance > 24 then s\<lparr>pinchState := Zooming\<rparr>
               else if originDistance > 16 then s\<lparr>pinchState := Panning\<rparr>
               else s
           | Panning \<Rightarrow> if touchDistance > 64 then s\<lparr>pinchState := Zooming\<rparr> else s
           | Zooming \<Rightarrow> s)"

text \<open>
  \<open>initZoom * (currDistanceBetweenFingers / initDistanceBetweenFingers) ** zoomSpeed\<close>,
  computed for a zooming \<open>pointermove\<close> (lines 128--129) and for \<open>pinch_end\<close>
  (lines 167--168).
\<close>

definition pinchZoom :: "editor_view \<Rightarrow> 'a pinch_vars_scheme \<Rightarrow> real" where
  "pinchZoom ed s =
     initZoom s * js_pow (currDistanceBetweenFingers s / initDistanceBetweenFingers s) (zoomSpeed ed)"

text \<open>The two signals of the classification, named as the spec names them.\<close>

abbreviation touch_spread :: "'a pinch_vars_scheme \<Rightarrow> real" where
  "touch_spread s \<equiv> \<bar>currDistanceBetweenFingers s - initDistanceBetweenFingers s\<bar>"

abbreviation origin_drift :: "'a pinch_vars_scheme \<Rightarrow> real" where
  "origin_drift s \<equiv> vec_dist (initPointBetweenFingers s) (prevPointBetweenFingers s)"

subsection \<open>Geometry\<close>

lemma getPointerDistance_nonneg [simp]: "0 \<le> getPointerDistance p1 p2"
  by (simp add: getPointerDistance_def Let_def)

lemma getPointerDistance_sqrt [geometry_simps]:
  "getPointerDistance p1 p2 = sqrt ((clientX p1 - clientX p2)\<^sup>2 + (clientY p1 - clientY p2)\<^sup>2)"
  by (simp add: getPointerDistance_def Let_def power2_eq_square)

lemma getPointerDistance_zero_iff:
  "getPointerDistance p1 p2 = 0 \<longleftrightarrow> clientX p1 = clientX p2 \<and> clientY p1 = clientY p2"
  by (auto simp: getPointerDistance_sqrt)

lemmas pinch_geometry [geometry_simps] = getPointerCenter_def pinchZoom_def

subsection \<open>The classification step\<close>

lemma pinch_rank_le_iff [simp]: "pinch_rank m \<le> pinch_rank m' \<longleftrightarrow> m \<le> m'"
  by (simp add: less_eq_pinch_state_def)

lemma pinch_state_le_Zooming [simp]: "m \<le> Zooming"
  by (cases m) (simp_all add: less_eq_pinch_state_def)

lemma Zooming_le_iff [simp]: "Zooming \<le> m \<longleftrightarrow> m = Zooming"
  by (cases m) (simp_all add: less_eq_pinch_state_def)

lemma Not_sure_le [simp]: "Not_sure \<le> m"
  by (cases m) (simp_all add: less_eq_pinch_state_def)

text \<open>\<open>updatePinchState\<close> writes \<open>pinchState\<close> and nothing else.\<close>

lemma updatePinchState_frame:
  "updatePinchState s = s\<lparr>pinchState := pinchState (updatePinchState s)\<rparr>"
  by (simp add: updatePinchState_def Let_def split: pinch_state.split)

lemma updatePinchState_fields [simp]:
  "initDistanceBetweenFingers (updatePinchState s) = initDistanceBetweenFingers s"
  "initZoom (updatePinchState s) = initZoom s"
  "currDistanceBetweenFingers (updatePinchState s) = currDistanceBetweenFingers s"
  "initPointBetweenFingers (updatePinchState s) = initPointBetweenFingers s"
  "prevPointBetweenFingers (updatePinchState s) = prevPointBetweenFingers s"
  by (simp_all add: updatePinchState_def Let_def split: pinch_state.split)

text \<open>The table of \<open>updatePinchState\<close>, one equation per mode it starts in.\<close>

lemma updatePinchState_Not_sure:
  "pinchState s = Not_sure \<Longrightarrow>
   pinchState (updatePinchState s) =
     (if touch_spread s > 24 then Zooming else if origin_drift s > 16 then Panning else Not_sure)"
  by (simp add: updatePinchState_def)

lemma updatePinchState_Panning:
  "pinchState s = Panning \<Longrightarrow>
   pinchState (updatePinchState s) = (if touch_spread s > 64 then Zooming else Panning)"
  by (simp add: updatePinchState_def)

lemma updatePinchState_Zooming: "pinchState s = Zooming \<Longrightarrow> updatePinchState s = s"
  by (simp add: updatePinchState_def)

lemmas updatePinchState_table =
  updatePinchState_Not_sure updatePinchState_Panning updatePinchState_Zooming

lemma updatePinchState_mono: "pinchState s \<le> pinchState (updatePinchState s)"
  by (cases "pinchState s") (simp_all add: updatePinchState_table)

lemma updatePinchState_keeps_Zooming:
  "pinchState s = Zooming \<Longrightarrow> pinchState (updatePinchState s) = Zooming"
  by (simp add: updatePinchState_Zooming)

subsection \<open>Zoom level\<close>

lemma pinchZoom_pos_ratio:
  "0 < initDistanceBetweenFingers s \<Longrightarrow> 0 < currDistanceBetweenFingers s \<Longrightarrow>
   pinchZoom ed s = initZoom s * (currDistanceBetweenFingers s / initDistanceBetweenFingers s) powr zoomSpeed ed"
  by (simp add: pinchZoom_def js_pow_def)

lemma pinchZoom_unscaled:
  "currDistanceBetweenFingers s = initDistanceBetweenFingers s \<Longrightarrow> 0 < initDistanceBetweenFingers s \<Longrightarrow>
   pinchZoom ed s = initZoom s"
  by (simp add: pinchZoom_def)

subsection \<open>Properties of the classifier\<close>

text \<open>
  C20: one classification step never lowers the mode in the order
  \<open>Not_sure < Panning < Zooming\<close>: from panning only zooming is reachable, and
  nothing leaves zooming.
\<close>

theorem updatePinchState_monotone:
  "pinchState s \<le> pinchState (updatePinchState s) \<and>
   (pinchState s = Zooming \<longrightarrow> updatePinchState s = s)"
  by (simp add: updatePinchState_mono updatePinchState_Zooming)

lemma updatePinchState_monotone_witness:
  "updatePinchState (pinch_vars_init\<lparr>pinchState := Zooming\<rparr>) = pinch_vars_init\<lparr>pinchState := Zooming\<rparr>"
proof -
  have "pinchState (pinch_vars_init\<lparr>pinchState := Zooming\<rparr>) = Zooming" by simp
  with updatePinchState_monotone [of "pinch_vars_init\<lparr>pinchState := Zooming\<rparr>"] show ?thesis by blast
qed

lemma powr_ge_one_iff:
  assumes "0 < (r::real)" "0 < z"
  shows "1 \<le> r powr z \<longleftrightarrow> 1 \<le> r"
proof
  assume "1 \<le> r powr z"
  show "1 \<le> r"
  proof (rule ccontr)
    assume "\<not> 1 \<le> r"
    with assms have "r powr z < 1 powr z" by (intro powr_less_mono2) simp_all
    with \<open>1 \<le> r powr z\<close> show False by simp
  qed
next
  assume "1 \<le> r"
  with assms have "1 powr z \<le> r powr z" by (intro powr_mono2) simp_all
  then show "1 \<le> r powr z" by simp
qed

text \<open>
  C23: with a positive initial zoom, positive distances and a positive zoom speed, the
  zoom a pinch reports is positive, at least the initial zoom exactly when the fingers
  have spread (the span is at least the initial one), and grows with the span.
\<close>

theorem pinchZoom_bounds:
  assumes "0 < initZoom s" "0 < initDistanceBetweenFingers s" "0 < currDistanceBetweenFingers s"
      and "0 < zoomSpeed ed"
  shows "0 < pinchZoom ed s \<and>
         (initZoom s \<le> pinchZoom ed s \<longleftrightarrow> initDistanceBetweenFingers s \<le> currDistanceBetweenFingers s) \<and>
         (\<forall>c. currDistanceBetweenFingers s \<le> c \<longrightarrow>
              pinchZoom ed s \<le> pinchZoom ed (s\<lparr>currDistanceBetweenFingers := c\<rparr>))"
proof (intro conjI allI impI)
  let ?i = "initDistanceBetweenFingers s" and ?c = "currDistanceBetweenFingers s"
  have r: "0 < ?c / ?i" using assms(2,3) by simp
  show "0 < pinchZoom ed s" using assms(1) r by (simp add: pinchZoom_def js_pow_pos)
  have "initZoom s \<le> pinchZoom ed s \<longleftrightarrow> 1 \<le> (?c / ?i) powr zoomSpeed ed"
    using assms(1,4) by (simp add: pinchZoom_def js_pow_def)
  also have "\<dots> \<longleftrightarrow> 1 \<le> ?c / ?i" using r assms(4) by (rule powr_ge_one_iff)
  also have "\<dots> \<longleftrightarrow> ?i \<le> ?c" using assms(2) by simp
  finally show "initZoom s \<le> pinchZoom ed s \<longleftrightarrow> ?i \<le> ?c" .
  fix c assume "?c \<le> c"
  with assms(2) have "?c / ?i \<le> c / ?i" by (simp add: divide_right_mono)
  with r assms(4) have "js_pow (?c / ?i) (zoomSpeed ed) \<le> js_pow (c / ?i) (zoomSpeed ed)"
    by (intro js_pow_mono) simp_all
  with assms(1) show "pinchZoom ed s \<le> pinchZoom ed (s\<lparr>currDistanceBetweenFingers := c\<rparr>)"
    by (simp add: pinchZoom_def)
qed

lemma pinchZoom_bounds_witness:
  "0 < pinchZoom mac_editor (pinch_vars_init\<lparr>initDistanceBetweenFingers := 100, currDistanceBetweenFingers := 150\<rparr>) \<and>
   1 \<le> pinchZoom mac_editor (pinch_vars_init\<lparr>initDistanceBetweenFingers := 100, currDistanceBetweenFingers := 150\<rparr>)"
  using pinchZoom_bounds [of "pinch_vars_init\<lparr>initDistanceBetweenFingers := 100, currDistanceBetweenFingers := 150\<rparr>"
      mac_editor]
  by (simp add: pinch_vars_init_def mac_editor_def)

end
