(* ===== verification/Wheel.thy ===== *)
theory Wheel
  imports Pinch
begin

text \<open>
  The \<open>wheel\<close> listener of the hook (\<open>onWheel\<close>, lines 192--230). It reads the
  editor (focus, the editing shape, whether its util lets it scroll, its page bounds, the
  current page point), resets the pinch mode, decides whether the browser keeps the
  event (scroll inside a scrollable editing shape), and otherwise suppresses the
  browser's default and dispatches a \<open>wheel\<close> info with the normalised delta.
  \<open>normalizeWheel\<close> lives in \<open>utils/normalizeWheel\<close>, outside the sources: the model
  takes it as a parameter, and every theorem here holds for any normaliser.
  \<open>onWheel\<close> is stated over any record extending \<open>pinch_vars\<close>: the only hook state
  it touches is \<open>pinchState\<close>.
\<close>

type_synonym wheel_normalizer = "wheel_event \<Rightarrow> vec3"

text \<open>\<open>Box.containsPoint(point)\<close> (margin 0): the closed rectangle.\<close>

definition containsPoint :: "box \<Rightarrow> 'a vec2_scheme \<Rightarrow> bool" where
  "containsPoint b p \<longleftrightarrow>
     \<not> (vx p < boxX b \<or> vy p < boxY b \<or> vx p > boxX b + boxW b \<or> vy p > boxY b + boxH b)"

text \<open>Lines 198--210: the wheel belongs to the editing shape when it may scroll.\<close>

definition scrollExempt :: "editor_view \<Rightarrow> bool" where
  "scrollExempt ed =
     (case editingShapeId ed of
        None \<Rightarrow> False
      | Some sid \<Rightarrow>
          (case getShape ed sid of
             None \<Rightarrow> False
           | Some shape \<Rightarrow>
               canScroll ed shape \<and>
               (case getShapePageBounds ed sid of
                  None \<Rightarrow> False
                | Some bounds \<Rightarrow> containsPoint bounds (currentPagePoint ed))))"

definition onWheel ::
  "wheel_normalizer \<Rightarrow> editor_view \<Rightarrow> wheel_event \<Rightarrow> 'a pinch_vars_scheme \<Rightarrow> 'a pinch_vars_scheme \<times> reaction" where
  "onWheel normalizeWheel ed e s =
     (if \<not> isFocused ed then (s, no_reaction)
      else
        let s1 = s\<lparr>pinchState := Not_sure\<rparr>
        in if scrollExempt ed then (s1, no_reaction)
           else
             let delta = normalizeWheel e
             in if vx delta = 0 \<and> vy delta = 0
                then (s1, \<lparr>dispatched = [], defaultPrevented = True\<rparr>)
                else (s1, \<lparr>dispatched = [WheelInfo delta (vec3_of (clientX e) (clientY e) 1) (event_keys ed e)],
                           defaultPrevented = True\<rparr>))"

text \<open>
  An editor, focused and at zoom 1, editing a scrollable text shape whose page bounds are
  the square from \<open>(0, 0)\<close> to \<open>(100, 100)\<close>, with the page point at \<open>p\<close>.
\<close>

definition scroll_editor_example :: "vec2 \<Rightarrow> editor_view" where
  "scroll_editor_example p =
     \<lparr>getZoomLevel = 1, zoomSpeed = 1, isFocused = True, editingShapeId = Some ''shape:text'',
      getShape = (\<lambda>_. Some \<lparr>shapeId = ''shape:text'', shapeType = ''text''\<rparr>),
      canScroll = (\<lambda>_. True),
      getShapePageBounds = (\<lambda>_. Some \<lparr>boxX = 0, boxY = 0, boxW = 100, boxH = 100\<rparr>),
      currentPagePoint = p, isDarwin = False\<rparr>"

text \<open>A wheel tick of 10 downwards, no modifier held, as the examples use it.\<close>

definition wheel_example :: wheel_event where
  "wheel_example = \<lparr>shiftKey = False, altKey = False, ctrlKey = False, metaKey = False,
     clientX = 0, clientY = 0, deltaX = 0, deltaY = 10, deltaZ = 0, deltaMode = 0\<rparr>"

declare onWheel_def [handler_defs]

subsection \<open>Behaviour of the wheel handler\<close>

lemma scrollExempt_iff:
  "scrollExempt ed \<longleftrightarrow>
     (\<exists>sid shape bounds. editingShapeId ed = Some sid \<and> getShape ed sid = Some shape \<and>
        canScroll ed shape \<and> getShapePageBounds ed sid = Some bounds \<and>
        containsPoint bounds (currentPagePoint ed))"
  by (auto simp: scrollExempt_def split: option.splits)

lemma onWheel_unfocused: "\<not> isFocused ed \<Longrightarrow> onWheel nw ed e s = (s, no_reaction)"
  by (simp add: onWheel_def)

lemma onWheel_state:
  "fst (onWheel nw ed e s) = (if isFocused ed then s\<lparr>pinchState := Not_sure\<rparr> else s)"
  by (simp add: onWheel_def Let_def)

lemma onWheel_no_pinch_event:
  "ev \<in> set (dispatched (snd (onWheel nw ed e s))) \<Longrightarrow> pinch_name_of ev = None"
  by (auto simp: onWheel_def Let_def split: if_splits)

lemma onWheel_exempt:
  "isFocused ed \<Longrightarrow> scrollExempt ed \<Longrightarrow>
   onWheel nw ed e s = (s\<lparr>pinchState := Not_sure\<rparr>, no_reaction)"
  by (simp add: onWheel_def)

lemma onWheel_dispatch:
  "isFocused ed \<Longrightarrow> \<not> scrollExempt ed \<Longrightarrow> \<not> (vx (nw e) = 0 \<and> vy (nw e) = 0) \<Longrightarrow>
   onWheel nw ed e s =
     (s\<lparr>pinchState := Not_sure\<rparr>,
      \<lparr>dispatched = [WheelInfo (nw e) (vec3_of (clientX e) (clientY e) 1) (event_keys ed e)],
       defaultPrevented = True\<rparr>)"
  by (simp add: onWheel_def Let_def)

lemma onWheel_zero_delta:
  "isFocused ed \<Longrightarrow> \<not> scrollExempt ed \<Longrightarrow> vx (nw e) = 0 \<Longrightarrow> vy (nw e) = 0 \<Longrightarrow>
   onWheel nw ed e s = (s\<lparr>pinchState := Not_sure\<rparr>, \<lparr>dispatched = [], defaultPrevented = True\<rparr>)"
  by (simp add: onWheel_def Let_def)

lemma containsPoint_corners:
  "0 \<le> boxW b \<Longrightarrow> 0 \<le> boxH b \<Longrightarrow>
   containsPoint b (vec2_of (boxX b) (boxY b)) \<and>
   containsPoint b (vec2_of (boxX b + boxW b) (boxY b + boxH b))"
  by (simp add: containsPoint_def vec2_of_def)

text \<open>
  C15: while a scrollable shape is being edited, a wheel event whose page point lies in
  the shape's bounds is left to the browser (nothing dispatched, default not prevented);
  outside the bounds the default is prevented and, for a non-zero delta, one \<open>wheel\<close>
  info is dispatched with the normalised delta and the client point.
\<close>

theorem wheel_exemption:
  assumes "isFocused ed" "editingShapeId ed = Some sid" "getShape ed sid = Some shape"
      and "canScroll ed shape" "getShapePageBounds ed sid = Some bounds"
  shows "(containsPoint bounds (currentPagePoint ed) \<longrightarrow> snd (onWheel nw ed e s) = no_reaction) \<and>
         (\<not> containsPoint bounds (currentPagePoint ed) \<longrightarrow>
            defaultPrevented (snd (onWheel nw ed e s)) \<and>
            (\<not> (vx (nw e) = 0 \<and> vy (nw e) = 0) \<longrightarrow>
               dispatched (snd (onWheel nw ed e s)) =
                 [WheelInfo (nw e) (vec3_of (clientX e) (clientY e) 1) (event_keys ed e)]))"
  using assms by (simp add: onWheel_def scrollExempt_def Let_def)

lemma wheel_exemption_witness:
  "snd (onWheel (\<lambda>_. vec3_of 0 5 0) (scroll_editor_example (vec2_of 50 50)) wheel_example pinch_vars_init) =
     no_reaction \<and>
   defaultPrevented (snd (onWheel (\<lambda>_. vec3_of 0 5 0) (scroll_editor_example (vec2_of 150 50)) wheel_example
     pinch_vars_init))"
  using wheel_exemption [of "scroll_editor_example (vec2_of 50 50)" "''shape:text''"
      "\<lparr>shapeId = ''shape:text'', shapeType = ''text''\<rparr>" "\<lparr>boxX = 0, boxY = 0, boxW = 100, boxH = 100\<rparr>"
      "\<lambda>_. vec3_of 0 5 0" wheel_example pinch_vars_init]
    wheel_exemption [of "scroll_editor_example (vec2_of 150 50)" "''shape:text''"
      "\<lparr>shapeId = ''shape:text'', shapeType = ''text''\<rparr>" "\<lparr>boxX = 0, boxY = 0, boxW = 100, boxH = 100\<rparr>"
      "\<lambda>_. vec3_of 0 5 0" wheel_example pinch_vars_init]
  by (simp add: scroll_editor_example_def containsPoint_def vec2_of_def)

end
