(* ===== verification/Canvas_Events.thy ===== *)
theory Canvas_Events
  imports Pointer_Map Wheel
begin

text \<open>
  The hook as a whole: the state its effect closes over (\<open>activePointers\<close> and the pinch
  variables), the queue of animation-frame callbacks it has handed to
  \<open>editor.timers.requestAnimationFrame\<close>, whether its listeners are attached, and the
  three pointer listeners \<open>onPointerDown\<close>, \<open>onPointerMove\<close>, \<open>onPointerUp\<close>
  (which also serves \<open>pointercancel\<close>). \<open>canvas_step\<close> dispatches one DOM input to
  its listener, \<open>canvas_run\<close> runs a sequence of inputs, each with the editor as it is
  when that input arrives, and \<open>canvas_reachable\<close> is the set of states some run
  reaches from mounting.
\<close>

text \<open>
  A callback queued by \<open>onPointerUp\<close> (lines 172--185). It captures \<open>finalZoom\<close>
  and the event \<open>e\<close>; \<open>prevPointBetweenFingers\<close> is a mutable \<open>Vec\<close> that the
  callback reads only when the frame fires.
\<close>

record frame_callback =
  cbFinalZoom :: real
  cbEvent :: pointer_event

record canvas_state = pinch_vars +
  activePointers :: "(int, pointer_event) js_map"
  pendingFrames :: "frame_callback list"
  listening :: bool
  touchActionNone :: bool

text \<open>
  The effect body (lines 20--36, 233--237): without a container nothing is attached;
  with one, the container's \<open>touchAction\<close> becomes \<open>'none'\<close>, the closure variables
  take their initial values and the five listeners are attached.
\<close>

definition useDomCanvasEvents_mount :: "bool \<Rightarrow> canvas_state" where
  "useDomCanvasEvents_mount hasContainer =
     pinch_vars.extend pinch_vars_init
       \<lparr>activePointers = map_empty, pendingFrames = [], listening = hasContainer,
        touchActionNone = hasContainer\<rparr>"

text \<open>\<open>const [p1, p2] = Array.from(activePointers.values())\<close>, read when the size is 2.\<close>

definition activePair :: "(int, pointer_event) js_map \<Rightarrow> pointer_event \<times> pointer_event" where
  "activePair m = (let vs = map_values m in (vs ! 0, vs ! 1))"

definition onPointerDown :: "editor_view \<Rightarrow> pointer_event \<Rightarrow> canvas_state \<Rightarrow> canvas_state \<times> reaction" where
  "onPointerDown ed e s =
     (let s1 = s\<lparr>activePointers := map_set (pointerId e) e (activePointers s)\<rparr>
      in if map_size (activePointers s1) = 2 then
           let (p1, p2) = activePair (activePointers s1);
               center = getPointerCenter p1 p2;
               s2 = s1\<lparr>pinchState := Not_sure,
                       prevPointBetweenFingers := center,
                       initPointBetweenFingers := center,
                       initDistanceBetweenFingers := getPointerDistance p1 p2,
                       initZoom := getZoomLevel ed\<rparr>
           in (s2, emits [PinchInfo Pinch_start (vec3_of (vx center) (vy center) (getZoomLevel ed))
                            (vec2_of 0 0) (event_keys ed e)])
         else (s1, no_reaction))"

definition onPointerMove :: "editor_view \<Rightarrow> pointer_event \<Rightarrow> canvas_state \<Rightarrow> canvas_state \<times> reaction" where
  "onPointerMove ed e s =
     (if \<not> map_has (pointerId e) (activePointers s) then (s, no_reaction)
      else
        let s1 = s\<lparr>activePointers := map_set (pointerId e) e (activePointers s)\<rparr>
        in if map_size (activePointers s1) = 2 then
             let (p1, p2) = activePair (activePointers s1);
                 center = getPointerCenter p1 p2;
                 s2 = s1\<lparr>currDistanceBetweenFingers := getPointerDistance p1 p2\<rparr>;
                 dx = vx center - vx (prevPointBetweenFingers s2);
                 dy = vy center - vy (prevPointBetweenFingers s2);
                 s3 = updatePinchState (s2\<lparr>prevPointBetweenFingers := center\<rparr>)
             in case pinchState s3 of
                  Zooming \<Rightarrow>
                    (s3, emits [PinchInfo Pinch (vec3_of (vx center) (vy center) (pinchZoom ed s3))
                                  (vec2_of dx dy) (event_keys ed e)])
                | Panning \<Rightarrow>
                    (s3, emits [PinchInfo Pinch (vec3_of (vx center) (vy center) (initZoom s3))
                                  (vec2_of dx dy) (event_keys ed e)])
                | Not_sure \<Rightarrow> (s3, no_reaction)
           else (s1, no_reaction))"

definition onPointerUp :: "editor_view \<Rightarrow> pointer_event \<Rightarrow> canvas_state \<Rightarrow> canvas_state \<times> reaction" where
  "onPointerUp ed e s =
     (let s1 = (if map_size (activePointers s) = 2 then
                  s\<lparr>pinchState := Not_sure,
                    pendingFrames := pendingFrames s @ [\<lparr>cbFinalZoom = pinchZoom ed s, cbEvent = e\<rparr>]\<rparr>
                else s)
      in (s1\<lparr>activePointers := map_delete (pointerId e) (activePointers s1)\<rparr>, no_reaction))"

text \<open>The body of the queued callback, run when the frame fires.\<close>

definition pinchEndInfo :: "editor_view \<Rightarrow> canvas_state \<Rightarrow> frame_callback \<Rightarrow> canvas_event" where
  "pinchEndInfo ed s cb =
     (let p = prevPointBetweenFingers s
      in PinchInfo Pinch_end (vec3_of (vx p) (vy p) (cbFinalZoom cb)) (vec2_of (vx p) (vy p))
           (event_keys ed (cbEvent cb)))"

definition onAnimationFrame :: "editor_view \<Rightarrow> canvas_state \<Rightarrow> canvas_state \<times> reaction" where
  "onAnimationFrame ed s = (s\<lparr>pendingFrames := []\<rparr>, emits (map (pinchEndInfo ed s) (pendingFrames s)))"

text \<open>The effect's cleanup (lines 239--245): the five listeners are removed.\<close>

definition useDomCanvasEvents_cleanup :: "canvas_state \<Rightarrow> canvas_state" where
  "useDomCanvasEvents_cleanup s = s\<lparr>listening := False\<rparr>"

datatype dom_input =
    PointerDown pointer_event
  | PointerMove pointer_event
  | PointerUp pointer_event
  | PointerCancel pointer_event
  | WheelInput wheel_event
  | AnimationFrame
  | Unmount

fun canvas_step ::
  "wheel_normalizer \<Rightarrow> editor_view \<Rightarrow> dom_input \<Rightarrow> canvas_state \<Rightarrow> canvas_state \<times> reaction" where
  "canvas_step nw ed (PointerDown e) s = (if listening s then onPointerDown ed e s else (s, no_reaction))"
| "canvas_step nw ed (PointerMove e) s = (if listening s then onPointerMove ed e s else (s, no_reaction))"
| "canvas_step nw ed (PointerUp e) s = (if listening s then onPointerUp ed e s else (s, no_reaction))"
| "canvas_step nw ed (PointerCancel e) s = (if listening s then onPointerUp ed e s else (s, no_reaction))"
| "canvas_step nw ed (WheelInput e) s = (if listening s then onWheel nw ed e s else (s, no_reaction))"
| "canvas_step nw ed AnimationFrame s = onAnimationFrame ed s"
| "canvas_step nw ed Unmount s = (useDomCanvasEvents_cleanup s, no_reaction)"

fun canvas_run ::
  "wheel_normalizer \<Rightarrow> (editor_view \<times> dom_input) list \<Rightarrow> canvas_state \<Rightarrow> canvas_state \<times> canvas_event list" where
  "canvas_run nw [] s = (s, [])"
| "canvas_run nw ((ed, i) # is) s =
     (let (s1, r) = canvas_step nw ed i s; (s2, evs) = canvas_run nw is s1 in (s2, dispatched r @ evs))"

inductive canvas_reachable :: "wheel_normalizer \<Rightarrow> canvas_state \<Rightarrow> bool" for nw where
  mount: "canvas_reachable nw (useDomCanvasEvents_mount c)"
| step: "canvas_reachable nw s \<Longrightarrow> canvas_reachable nw (fst (canvas_step nw ed i s))"

text \<open>
  The invariant of the hook's state: the tracker is a well-formed map whose entries are
  keyed by their own pointer id, distances are non-negative, and with fewer than two
  contacts no classification is in progress.
\<close>

definition canvas_inv :: "canvas_state \<Rightarrow> bool" where
  "canvas_inv s \<longleftrightarrow>
     map_inv (activePointers s) \<and>
     list_all (\<lambda>(k, e). pointerId e = k) (activePointers s) \<and>
     0 \<le> initDistanceBetweenFingers s \<and> 0 \<le> currDistanceBetweenFingers s \<and>
     (map_size (activePointers s) < 2 \<longrightarrow> pinchState s = Not_sure)"

text \<open>
  Concrete inputs for the examples that instantiate the theorems: an editor at zoom 1
  with zoom speed 1, focused, not editing; and the state two fingers at \<open>(0, 0)\<close>
  (id 1) and \<open>(100, 0)\<close> (id 2) leave, in a given mode.
\<close>

definition ed_example :: editor_view where
  "ed_example =
     \<lparr>getZoomLevel = 1, zoomSpeed = 1, isFocused = True, editingShapeId = None,
      getShape = (\<lambda>_. None), canScroll = (\<lambda>_. False), getShapePageBounds = (\<lambda>_. None),
      currentPagePoint = vec2_of 0 0, isDarwin = False\<rparr>"

definition session_example :: "pinch_state \<Rightarrow> canvas_state" where
  "session_example m =
     (useDomCanvasEvents_mount True)\<lparr>pinchState := m,
        activePointers := [(1, pointer_at 1 0 0), (2, pointer_at 2 100 0)],
        initDistanceBetweenFingers := 100, currDistanceBetweenFingers := 100,
        initPointBetweenFingers := vec2_of 50 0, prevPointBetweenFingers := vec2_of 50 0\<rparr>"

declare onPointerDown_def [handler_defs] onPointerMove_def [handler_defs]
  onPointerUp_def [handler_defs] onAnimationFrame_def [handler_defs]
  useDomCanvasEvents_cleanup_def [handler_defs]

subsection \<open>Mounting and field frames\<close>

lemma mount_fields [simp]:
  "activePointers (useDomCanvasEvents_mount c) = map_empty"
  "pendingFrames (useDomCanvasEvents_mount c) = []"
  "listening (useDomCanvasEvents_mount c) = c"
  "touchActionNone (useDomCanvasEvents_mount c) = c"
  "pinchState (useDomCanvasEvents_mount c) = Not_sure"
  "initDistanceBetweenFingers (useDomCanvasEvents_mount c) = 1"
  "initZoom (useDomCanvasEvents_mount c) = 1"
  "currDistanceBetweenFingers (useDomCanvasEvents_mount c) = 0"
  "initPointBetweenFingers (useDomCanvasEvents_mount c) = vec2_of 0 0"
  "prevPointBetweenFingers (useDomCanvasEvents_mount c) = vec2_of 0 0"
  by (simp_all add: useDomCanvasEvents_mount_def pinch_vars.defs pinch_vars_init_def)

lemma updatePinchState_canvas_fields [simp]:
  "activePointers (updatePinchState s) = activePointers s"
  "pendingFrames (updatePinchState s) = pendingFrames s"
  "listening (updatePinchState s) = listening s"
  "touchActionNone (updatePinchState s) = touchActionNone s"
  by (simp_all add: updatePinchState_def Let_def split: pinch_state.split)

lemma onWheel_canvas_fields [simp]:
  "activePointers (fst (onWheel nw ed e s)) = activePointers s"
  "pendingFrames (fst (onWheel nw ed e s)) = pendingFrames s"
  "listening (fst (onWheel nw ed e s)) = listening s"
  by (simp_all add: onWheel_state)

lemma activePair_two [simp]: "activePair [(a, p1), (b, p2)] = (p1, p2)"
  by (simp add: activePair_def map_values_def)

lemma count_pinch_end_frames [simp]: "count_pinch Pinch_end (map (pinchEndInfo ed s) cbs) = length cbs"
  by (induction cbs) (simp_all add: pinchEndInfo_def Let_def)

lemma canvas_run_append:
  "canvas_run nw (xs @ ys) s =
     (let (s1, evs1) = canvas_run nw xs s; (s2, evs2) = canvas_run nw ys s1 in (s2, evs1 @ evs2))"
  by (induction xs arbitrary: s) (auto split: prod.splits)

lemma canvas_run_Cons:
  "canvas_run nw ((ed, i) # is) s =
     (fst (canvas_run nw is (fst (canvas_step nw ed i s))),
      dispatched (snd (canvas_step nw ed i s)) @ snd (canvas_run nw is (fst (canvas_step nw ed i s))))"
  by (simp split: prod.splits)

subsection \<open>The invariant\<close>

lemma canvas_inv_mount: "canvas_inv (useDomCanvasEvents_mount c)"
  by (simp add: canvas_inv_def map_size_def map_empty_def map_inv_def)

lemma onPointerDown_inv:
  assumes inv: "canvas_inv s"
  shows "canvas_inv (fst (onPointerDown ed e s))"
proof -
  let ?m = "map_set (pointerId e) e (activePointers s)"
  from inv have m: "map_inv ?m" "list_all (\<lambda>(k, e). pointerId e = k) ?m"
    by (auto simp: canvas_inv_def intro: list_all_map_set)
  from inv have mode: "map_size ?m < 2 \<Longrightarrow> pinchState s = Not_sure"
    using map_size_set_ge [of "activePointers s" "pointerId e" e] by (auto simp: canvas_inv_def)
  from inv m mode show ?thesis
    by (auto simp: canvas_inv_def onPointerDown_def Let_def split: prod.splits)
qed

lemma onPointerMove_inv:
  assumes inv: "canvas_inv s"
  shows "canvas_inv (fst (onPointerMove ed e s))"
proof (cases "map_has (pointerId e) (activePointers s)")
  case False
  with inv show ?thesis by (simp add: onPointerMove_def)
next
  case True
  let ?m = "map_set (pointerId e) e (activePointers s)"
  from inv have m: "map_inv ?m" "list_all (\<lambda>(k, e). pointerId e = k) ?m"
    by (auto simp: canvas_inv_def intro: list_all_map_set)
  from True have size: "map_size ?m = map_size (activePointers s)"
    by (simp add: map_size_set)
  from inv m size True show ?thesis
    by (auto simp: canvas_inv_def onPointerMove_def Let_def split: prod.splits pinch_state.splits)
qed

lemma onPointerUp_inv:
  assumes inv: "canvas_inv s"
  shows "canvas_inv (fst (onPointerUp ed e s))"
proof -
  let ?m = "map_delete (pointerId e) (activePointers s)"
  from inv have m: "map_inv ?m" "list_all (\<lambda>(k, e). pointerId e = k) ?m"
    by (auto simp: canvas_inv_def intro: list_all_map_delete)
  from inv have size: "map_size (activePointers s) - 1 \<le> map_size ?m"
    using map_size_delete_ge [of "activePointers s"] by (simp add: canvas_inv_def)
  from inv m size show ?thesis
    by (auto simp: canvas_inv_def onPointerUp_def Let_def)
qed

lemma onWheel_inv: "canvas_inv s \<Longrightarrow> canvas_inv (fst (onWheel nw ed e s))"
  by (simp add: canvas_inv_def onWheel_state)

lemma canvas_step_inv: "canvas_inv s \<Longrightarrow> canvas_inv (fst (canvas_step nw ed i s))"
  by (cases i)
     (simp_all add: onPointerDown_inv onPointerMove_inv onPointerUp_inv onWheel_inv,
      simp_all add: canvas_inv_def onAnimationFrame_def useDomCanvasEvents_cleanup_def)

text \<open>C1: every state the hook can reach satisfies the invariant.\<close>

theorem canvas_reachable_inv: "canvas_reachable nw s \<Longrightarrow> canvas_inv s"
proof (induction rule: canvas_reachable.induct)
  case (mount c)
  show ?case by (rule canvas_inv_mount)
next
  case (step s ed i)
  from step.IH show ?case by (rule canvas_step_inv)
qed

subsection \<open>A move inside a two-finger session\<close>

text \<open>
  With two contacts and a move of one of them, the handler recomputes distance and
  centre from the pair \<open>Array.from(values())\<close> yields, classifies, and emits by the
  resulting mode. The pair is given by its value so that the statements below read as
  geometry of the two fingers.
\<close>

lemma onPointerMove_two:
  assumes has: "map_has (pointerId e) (activePointers s)"
      and two: "map_size (activePointers s) = 2"
      and pair: "activePair (map_set (pointerId e) e (activePointers s)) = (p1, p2)"
  defines "c \<equiv> getPointerCenter p1 p2"
      and "s3 \<equiv> updatePinchState (s\<lparr>activePointers := map_set (pointerId e) e (activePointers s),
                   currDistanceBetweenFingers := getPointerDistance p1 p2,
                   prevPointBetweenFingers := getPointerCenter p1 p2\<rparr>)"
      and "d \<equiv> vec2_of (vx (getPointerCenter p1 p2) - vx (prevPointBetweenFingers s))
                       (vy (getPointerCenter p1 p2) - vy (prevPointBetweenFingers s))"
  shows "onPointerMove ed e s =
           (case pinchState s3 of
              Zooming \<Rightarrow> (s3, emits [PinchInfo Pinch (vec3_of (vx c) (vy c) (pinchZoom ed s3)) d (event_keys ed e)])
            | Panning \<Rightarrow> (s3, emits [PinchInfo Pinch (vec3_of (vx c) (vy c) (initZoom s3)) d (event_keys ed e)])
            | Not_sure \<Rightarrow> (s3, no_reaction))"
proof -
  from has two have "map_size (map_set (pointerId e) e (activePointers s)) = 2"
    by (simp add: map_size_set)
  with has pair show ?thesis
    by (simp add: onPointerMove_def Let_def c_def s3_def d_def split: pinch_state.split)
qed

lemma onPointerMove_two_state:
  assumes "map_has (pointerId e) (activePointers s)" "map_size (activePointers s) = 2"
      and "activePair (map_set (pointerId e) e (activePointers s)) = (p1, p2)"
  shows "pinchState (fst (onPointerMove ed e s)) =
           pinchState (updatePinchState (s\<lparr>currDistanceBetweenFingers := getPointerDistance p1 p2,
                         prevPointBetweenFingers := getPointerCenter p1 p2\<rparr>))"
  using assms by (simp add: onPointerMove_two updatePinchState_def Let_def split: pinch_state.split)

text \<open>The two signals after a move, in terms of the pair the move leaves.\<close>

lemma onPointerMove_two_mode:
  assumes "map_has (pointerId e) (activePointers s)" "map_size (activePointers s) = 2"
      and "activePair (map_set (pointerId e) e (activePointers s)) = (p1, p2)"
  shows "pinchState (fst (onPointerMove ed e s)) =
           (case pinchState s of
              Not_sure \<Rightarrow>
                if \<bar>getPointerDistance p1 p2 - initDistanceBetweenFingers s\<bar> > 24 then Zooming
                else if vec_dist (initPointBetweenFingers s) (getPointerCenter p1 p2) > 16 then Panning
                else Not_sure
            | Panning \<Rightarrow>
                if \<bar>getPointerDistance p1 p2 - initDistanceBetweenFingers s\<bar> > 64 then Zooming else Panning
            | Zooming \<Rightarrow> Zooming)"
  using assms by (simp add: onPointerMove_two_state updatePinchState_def Let_def split: pinch_state.split)

lemma session_example_fields [simp]:
  "activePointers (session_example m) = [(1, pointer_at 1 0 0), (2, pointer_at 2 100 0)]"
  "pinchState (session_example m) = m"
  "initDistanceBetweenFingers (session_example m) = 100"
  "currDistanceBetweenFingers (session_example m) = 100"
  "initPointBetweenFingers (session_example m) = vec2_of 50 0"
  "prevPointBetweenFingers (session_example m) = vec2_of 50 0"
  "initZoom (session_example m) = 1"
  "pendingFrames (session_example m) = []"
  "listening (session_example m) = True"
  by (simp_all add: session_example_def)

lemma ed_example_fields [simp]:
  "getZoomLevel ed_example = 1" "zoomSpeed ed_example = 1" "isFocused ed_example"
  "editingShapeId ed_example = None" "isDarwin ed_example = False"
  by (simp_all add: ed_example_def)

lemmas example_simps = map_has_def map_size_def activePair_def map_values_def
  getPointerDistance_def getPointerCenter_def vec_dist_def vec2_of_def vec3_of_def

text \<open>
  C2: an undecided session stays undecided, and the move emits nothing, while the finger
  span has changed by at most 24 and the centre has drifted by at most 16 since the start.
\<close>

theorem move_undecided_stays:
  assumes "map_has (pointerId e) (activePointers s)" "map_size (activePointers s) = 2"
      and "activePair (map_set (pointerId e) e (activePointers s)) = (p1, p2)"
      and "pinchState s = Not_sure"
      and "\<bar>getPointerDistance p1 p2 - initDistanceBetweenFingers s\<bar> \<le> 24"
      and "vec_dist (initPointBetweenFingers s) (getPointerCenter p1 p2) \<le> 16"
  shows "pinchState (fst (onPointerMove ed e s)) = Not_sure \<and> dispatched (snd (onPointerMove ed e s)) = []"
proof -
  from assms have "pinchState (fst (onPointerMove ed e s)) = Not_sure"
    by (simp add: onPointerMove_two_mode)
  with assms(1-3) show ?thesis
    by (simp add: onPointerMove_two split: pinch_state.splits)
qed

lemma move_undecided_stays_witness:
  "pinchState (fst (onPointerMove ed_example (pointer_at 2 110 0) (session_example Not_sure))) = Not_sure \<and>
   dispatched (snd (onPointerMove ed_example (pointer_at 2 110 0) (session_example Not_sure))) = []"
  using move_undecided_stays [of "pointer_at 2 110 0" "session_example Not_sure"
      "pointer_at 1 0 0" "pointer_at 2 110 0" ed_example]
  by (simp add: example_simps)

text \<open>
  C3: an undecided session whose finger span has changed by more than 24 becomes a zoom,
  and the move emits a \<open>pinch\<close> at the new centre whose \<open>z\<close> is
  \<open>initZoom * (distance / initDistance) ** zoomSpeed\<close> and whose delta is the centre's
  motion since the previous move. The initial distance is positive and the zoom speed
  not negative: there the real-valued zoom is the value TypeScript computes (theory
  \<open>Js_Number\<close>), while at a zero initial distance the code's zoom is \<open>Infinity\<close> or
  \<open>NaN\<close>.
\<close>

theorem move_undecided_zooms:
  assumes "map_has (pointerId e) (activePointers s)" "map_size (activePointers s) = 2"
      and "activePair (map_set (pointerId e) e (activePointers s)) = (p1, p2)"
      and "pinchState s = Not_sure"
      and "\<bar>getPointerDistance p1 p2 - initDistanceBetweenFingers s\<bar> > 24"
      and "0 < initDistanceBetweenFingers s" "0 \<le> zoomSpeed ed"
  shows "pinchState (fst (onPointerMove ed e s)) = Zooming \<and>
         dispatched (snd (onPointerMove ed e s)) =
           [PinchInfo Pinch
              (vec3_of (vx (getPointerCenter p1 p2)) (vy (getPointerCenter p1 p2))
                 (initZoom s * js_pow (getPointerDistance p1 p2 / initDistanceBetweenFingers s) (zoomSpeed ed)))
              (vec2_of (vx (getPointerCenter p1 p2) - vx (prevPointBetweenFingers s))
                       (vy (getPointerCenter p1 p2) - vy (prevPointBetweenFingers s)))
              (event_keys ed e)]"
proof -
  from assms have z: "pinchState (fst (onPointerMove ed e s)) = Zooming"
    by (simp add: onPointerMove_two_mode)
  with assms(1-3) show ?thesis
    by (simp add: onPointerMove_two pinchZoom_def split: pinch_state.splits)
qed

text \<open>Spec example: initial zoom 1, distance 100 to 150, zoom speed 1: zoom 1.5.\<close>

lemma move_undecided_zooms_witness:
  "dispatched (snd (onPointerMove ed_example (pointer_at 2 150 0) (session_example Not_sure))) =
     [PinchInfo Pinch (vec3_of 75 0 (3 / 2)) (vec2_of 25 0) (event_keys ed_example (pointer_at 2 150 0))]"
  using move_undecided_zooms [of "pointer_at 2 150 0" "session_example Not_sure"
      "pointer_at 1 0 0" "pointer_at 2 150 0" ed_example]
  by (simp add: example_simps)

text \<open>
  C4: an undecided session whose span has changed by at most 24 but whose centre has
  drifted by more than 16 becomes a pan; the move emits a \<open>pinch\<close> with the zoom
  frozen at \<open>initZoom\<close>.
\<close>

theorem move_undecided_pans:
  assumes "map_has (pointerId e) (activePointers s)" "map_size (activePointers s) = 2"
      and "activePair (map_set (pointerId e) e (activePointers s)) = (p1, p2)"
      and "pinchState s = Not_sure"
      and "\<bar>getPointerDistance p1 p2 - initDistanceBetweenFingers s\<bar> \<le> 24"
      and "vec_dist (initPointBetweenFingers s) (getPointerCenter p1 p2) > 16"
  shows "pinchState (fst (onPointerMove ed e s)) = Panning \<and>
         dispatched (snd (onPointerMove ed e s)) =
           [PinchInfo Pinch
              (vec3_of (vx (getPointerCenter p1 p2)) (vy (getPointerCenter p1 p2)) (initZoom s))
              (vec2_of (vx (getPointerCenter p1 p2) - vx (prevPointBetweenFingers s))
                       (vy (getPointerCenter p1 p2) - vy (prevPointBetweenFingers s)))
              (event_keys ed e)]"
proof -
  from assms have "pinchState (fst (onPointerMove ed e s)) = Panning"
    by (simp add: onPointerMove_two_mode)
  with assms(1-3) show ?thesis
    by (simp add: onPointerMove_two split: pinch_state.splits)
qed

lemma move_undecided_pans_witness:
  "pinchState (fst (onPointerMove ed_example (pointer_at 2 80 60) (session_example Not_sure))) = Panning"
  using move_undecided_pans [of "pointer_at 2 80 60" "session_example Not_sure"
      "pointer_at 1 0 0" "pointer_at 2 80 60" ed_example]
  by (simp add: example_simps geometry_simps)

text \<open>
  C5: a pan stays a pan while the span has changed by at most 64 (the higher bar), with
  the zoom frozen at \<open>initZoom\<close>; beyond 64 it becomes a zoom.
\<close>

theorem move_panning:
  assumes "map_has (pointerId e) (activePointers s)" "map_size (activePointers s) = 2"
      and "activePair (map_set (pointerId e) e (activePointers s)) = (p1, p2)"
      and "pinchState s = Panning"
  shows "pinchState (fst (onPointerMove ed e s)) =
           (if \<bar>getPointerDistance p1 p2 - initDistanceBetweenFingers s\<bar> > 64 then Zooming else Panning) \<and>
         (\<bar>getPointerDistance p1 p2 - initDistanceBetweenFingers s\<bar> \<le> 64 \<longrightarrow>
            dispatched (snd (onPointerMove ed e s)) =
              [PinchInfo Pinch
                 (vec3_of (vx (getPointerCenter p1 p2)) (vy (getPointerCenter p1 p2)) (initZoom s))
                 (vec2_of (vx (getPointerCenter p1 p2) - vx (prevPointBetweenFingers s))
                          (vy (getPointerCenter p1 p2) - vy (prevPointBetweenFingers s)))
                 (event_keys ed e)])"
proof -
  from assms have m: "pinchState (fst (onPointerMove ed e s)) =
      (if \<bar>getPointerDistance p1 p2 - initDistanceBetweenFingers s\<bar> > 64 then Zooming else Panning)"
    by (simp add: onPointerMove_two_mode)
  with assms(1-3) show ?thesis
    by (simp add: onPointerMove_two split: pinch_state.splits if_splits)
qed

lemma move_panning_witness:
  "pinchState (fst (onPointerMove ed_example (pointer_at 2 150 0) (session_example Panning))) = Panning \<and>
   pinchState (fst (onPointerMove ed_example (pointer_at 2 180 0) (session_example Panning))) = Zooming"
  using move_panning [of "pointer_at 2 150 0" "session_example Panning"
      "pointer_at 1 0 0" "pointer_at 2 150 0" ed_example]
    move_panning [of "pointer_at 2 180 0" "session_example Panning"
      "pointer_at 1 0 0" "pointer_at 2 180 0" ed_example]
  by (simp add: example_simps)

lemma canvas_reachable_inv_witness:
  "canvas_inv (fst (canvas_step (\<lambda>_. vec3_of 0 0 0) ed_example (PointerDown (pointer_at 1 0 0))
                     (useDomCanvasEvents_mount True)))"
  by (rule canvas_reachable_inv [OF canvas_reachable.step [OF canvas_reachable.mount]])

subsection \<open>The mode across steps\<close>

lemma onPointerMove_outside_session:
  "\<not> (map_has (pointerId e) (activePointers s) \<and> map_size (activePointers s) = 2) \<Longrightarrow>
   fst (onPointerMove ed e s) =
     (if map_has (pointerId e) (activePointers s)
      then s\<lparr>activePointers := map_set (pointerId e) e (activePointers s)\<rparr> else s)"
  by (auto simp: onPointerMove_def Let_def map_size_set)

lemma onPointerMove_mode_mono: "pinchState s \<le> pinchState (fst (onPointerMove ed e s))"
proof (cases "map_has (pointerId e) (activePointers s) \<and> map_size (activePointers s) = 2")
  case True
  obtain p1 p2 where pair: "activePair (map_set (pointerId e) e (activePointers s)) = (p1, p2)"
    by fastforce
  let ?s' = "s\<lparr>currDistanceBetweenFingers := getPointerDistance p1 p2,
               prevPointBetweenFingers := getPointerCenter p1 p2\<rparr>"
  from True pair have "pinchState (fst (onPointerMove ed e s)) = pinchState (updatePinchState ?s')"
    by (simp add: onPointerMove_two_state)
  moreover have "pinchState ?s' \<le> pinchState (updatePinchState ?s')"
    by (rule updatePinchState_mono)
  ultimately show ?thesis by simp
next
  case False
  then show ?thesis by (simp add: onPointerMove_outside_session)
qed

text \<open>
  C6: the mode only ever falls back (in the order not sure < panning < zooming) to
  \<open>Not_sure\<close>, and only at a session boundary: a \<open>pointerdown\<close> that brings the map to
  two pointers, a \<open>pointerup\<close>/\<open>pointercancel\<close> while it holds two, or a
  \<open>wheel\<close> while the editor is focused.
\<close>

theorem mode_falls_back_only_at_reset:
  assumes "pinchState (fst (canvas_step nw ed i s)) < pinchState s"
  shows "pinchState (fst (canvas_step nw ed i s)) = Not_sure \<and> listening s \<and>
         ((\<exists>e. i = PointerDown e \<and> map_size (map_set (pointerId e) e (activePointers s)) = 2) \<or>
          (\<exists>e. (i = PointerUp e \<or> i = PointerCancel e) \<and> map_size (activePointers s) = 2) \<or>
          (\<exists>e. i = WheelInput e \<and> isFocused ed))"
  using assms
proof (cases i)
  case (PointerMove e)
  with assms onPointerMove_mode_mono [of s ed e] show ?thesis
    by (auto split: if_splits)
qed (auto simp: onPointerDown_def onPointerUp_def onWheel_state onAnimationFrame_def
        useDomCanvasEvents_cleanup_def Let_def split: if_splits prod.splits)

lemma mode_falls_back_only_at_reset_witness:
  "pinchState (fst (canvas_step (\<lambda>_. vec3_of 0 0 0) ed_example (PointerUp (pointer_at 2 100 0))
      (session_example Panning))) = Not_sure \<and> map_size (activePointers (session_example Panning)) = 2"
  using mode_falls_back_only_at_reset [of "\<lambda>_. vec3_of 0 0 0" ed_example "PointerUp (pointer_at 2 100 0)"
      "session_example Panning"]
  by (simp add: onPointerUp_def Let_def less_pinch_state_def map_size_def)

subsection \<open>The tracker through the listeners\<close>

text \<open>
  C24: a \<open>pointerdown\<close> of a new pointer followed by its \<open>pointerup\<close> gives the tracker
  back exactly as it was; when the down did not complete a pair (the map did not hold
  exactly one pointer), the two events leave the whole state unchanged and emit nothing.
\<close>

theorem down_up_roundtrip:
  assumes fresh: "\<not> map_has (pointerId e) (activePointers s)" and same: "pointerId e' = pointerId e"
  shows "activePointers (fst (onPointerUp ed' e' (fst (onPointerDown ed e s)))) = activePointers s \<and>
         (map_size (activePointers s) \<noteq> 1 \<longrightarrow>
            fst (onPointerUp ed' e' (fst (onPointerDown ed e s))) = s \<and>
            dispatched (snd (onPointerDown ed e s)) = [] \<and>
            dispatched (snd (onPointerUp ed' e' (fst (onPointerDown ed e s)))) = [])"
proof -
  let ?m = "activePointers s" and ?k = "pointerId e"
  have undo: "map_delete ?k (map_set ?k e ?m) = ?m" using fresh by (rule map_delete_set_absent)
  have size: "map_size (map_set ?k e ?m) = Suc (map_size ?m)" using fresh by (simp add: map_size_set)
  show ?thesis
  proof (cases "map_size ?m = 1")
    case True
    with size undo same show ?thesis
      by (simp add: onPointerDown_def onPointerUp_def Let_def split: prod.split)
  next
    case False
    with size have "onPointerDown ed e s = (s\<lparr>activePointers := map_set ?k e ?m\<rparr>, no_reaction)"
      by (simp add: onPointerDown_def Let_def)
    with False size undo same show ?thesis by (simp add: onPointerUp_def)
  qed
qed

lemma down_up_roundtrip_witness:
  "fst (onPointerUp ed_example (pointer_at 7 5 5) (fst (onPointerDown ed_example (pointer_at 7 1 1)
      (useDomCanvasEvents_mount True)))) = useDomCanvasEvents_mount True"
  using down_up_roundtrip [of "pointer_at 7 1 1" "useDomCanvasEvents_mount True" "pointer_at 7 5 5"
      ed_example ed_example]
  by (simp add: map_has_def map_empty_def map_size_def)

end
