(* ===== verification/Pinch_Session.thy ===== *)
theory Pinch_Session
  imports Canvas_Events
begin

text \<open>
  Properties of whole runs of the hook: the protocol of one two-finger session (one
  \<open>pinch_start\<close>, then updates, then one \<open>pinch_end\<close> on the next animation frame),
  and what runs show about the deferred \<open>pinch_end\<close>, the reuse of stale session data,
  and the interaction of the wheel with a session. Inputs in the middle of a session are
  moves of any pointer and wheel events; \<open>session_input\<close> names them.
\<close>

fun session_input :: "dom_input \<Rightarrow> bool" where
  "session_input (PointerMove _) = True"
| "session_input (WheelInput _) = True"
| "session_input _ = False"

subsection \<open>Runs\<close>

lemma onPointerMove_names:
  "ev \<in> set (dispatched (snd (onPointerMove ed e s))) \<Longrightarrow> pinch_name_of ev = Some Pinch"
  by (auto simp: onPointerMove_def Let_def split: if_splits prod.splits pinch_state.splits)

lemma onPointerMove_frame:
  "pendingFrames (fst (onPointerMove ed e s)) = pendingFrames s"
  "listening (fst (onPointerMove ed e s)) = listening s"
  "map fst (activePointers (fst (onPointerMove ed e s))) = map fst (activePointers s)"
  by (auto simp: onPointerMove_def Let_def map_set_present_keys split: prod.splits pinch_state.splits)

lemma count_pinch_no_names:
  "(\<And>ev. ev \<in> set evs \<Longrightarrow> pinch_name_of ev \<noteq> Some n) \<Longrightarrow> count_pinch n evs = 0"
  by (induction evs) auto

text \<open>
  Inside a session, moves and wheel events keep the two tracked pointers, queue no frame,
  and dispatch neither a start nor an end.
\<close>

lemma session_inputs_run:
  assumes "list_all (session_input \<circ> snd) is" "listening s" "pendingFrames s = []"
  shows "map fst (activePointers (fst (canvas_run nw is s))) = map fst (activePointers s) \<and>
         listening (fst (canvas_run nw is s)) \<and> pendingFrames (fst (canvas_run nw is s)) = [] \<and>
         count_pinch Pinch_start (snd (canvas_run nw is s)) = 0 \<and>
         count_pinch Pinch_end (snd (canvas_run nw is s)) = 0"
  using assms
proof (induction "is" arbitrary: s)
  case Nil
  then show ?case by simp
next
  case (Cons x xs)
  obtain ed i where x: "x = (ed, i)" by fastforce
  let ?s1 = "fst (canvas_step nw ed i s)"
  have step: "map fst (activePointers ?s1) = map fst (activePointers s) \<and> listening ?s1 \<and>
              pendingFrames ?s1 = [] \<and> count_pinch Pinch_start (dispatched (snd (canvas_step nw ed i s))) = 0 \<and>
              count_pinch Pinch_end (dispatched (snd (canvas_step nw ed i s))) = 0"
  proof (cases i)
    case (PointerMove e)
    with Cons.prems show ?thesis
      by (auto simp: onPointerMove_frame intro!: count_pinch_no_names dest: onPointerMove_names)
  next
    case (WheelInput e)
    with Cons.prems show ?thesis
      by (auto intro!: count_pinch_no_names dest: onWheel_no_pinch_event)
  qed (use Cons.prems x in auto)
  from Cons.prems x step have "map fst (activePointers (fst (canvas_run nw xs ?s1))) = map fst (activePointers ?s1) \<and>
      listening (fst (canvas_run nw xs ?s1)) \<and> pendingFrames (fst (canvas_run nw xs ?s1)) = [] \<and>
      count_pinch Pinch_start (snd (canvas_run nw xs ?s1)) = 0 \<and>
      count_pinch Pinch_end (snd (canvas_run nw xs ?s1)) = 0"
    by (intro Cons.IH) auto
  with step x show ?case by (simp del: canvas_run.simps add: canvas_run_Cons)
qed

subsection \<open>The protocol of one session\<close>

lemma first_down:
  "activePointers s = [] \<Longrightarrow> listening s \<Longrightarrow>
   canvas_step nw ed (PointerDown e) s = (s\<lparr>activePointers := [(pointerId e, e)]\<rparr>, no_reaction)"
  by (simp add: onPointerDown_def Let_def map_size_def)

lemma second_down:
  assumes "activePointers s = [(a, p)]" "pointerId e \<noteq> a" "listening s"
  shows "map fst (activePointers (fst (canvas_step nw ed (PointerDown e) s))) = [a, pointerId e] \<and>
         listening (fst (canvas_step nw ed (PointerDown e) s)) \<and>
         pendingFrames (fst (canvas_step nw ed (PointerDown e) s)) = pendingFrames s \<and>
         map pinch_name_of (dispatched (snd (canvas_step nw ed (PointerDown e) s))) = [Some Pinch_start]"
  using assms by (simp add: onPointerDown_def Let_def map_size_def activePair_def map_values_def)

lemma up_in_session:
  assumes "map_size (activePointers s) = 2" "listening s"
  shows "pendingFrames (fst (canvas_step nw ed (PointerUp e) s)) =
           pendingFrames s @ [\<lparr>cbFinalZoom = pinchZoom ed s, cbEvent = e\<rparr>] \<and>
         dispatched (snd (canvas_step nw ed (PointerUp e) s)) = []"
  using assms by (simp add: onPointerUp_def Let_def)

lemma frame_names:
  "map pinch_name_of (dispatched (snd (canvas_step nw ed AnimationFrame s))) =
     map (\<lambda>_. Some Pinch_end) (pendingFrames s)"
  by (simp add: onAnimationFrame_def pinchEndInfo_def Let_def)

lemma single_pinch_event: "map pinch_name_of evs = [Some n] \<Longrightarrow> \<exists>ev. evs = [ev] \<and> pinch_name_of ev = Some n"
  by (cases evs) auto

text \<open>The release that ends a session with no frame queued, and the frame after it.\<close>

lemma up_then_frame:
  assumes "map_size (activePointers s) = 2" "listening s" "pendingFrames s = []"
  shows "dispatched (snd (canvas_step nw ed (PointerUp e) s)) = [] \<and>
         (\<exists>ev. dispatched (snd (canvas_step nw ed' AnimationFrame (fst (canvas_step nw ed (PointerUp e) s)))) = [ev] \<and>
               pinch_name_of ev = Some Pinch_end)"
proof -
  from assms have u: "pendingFrames (fst (canvas_step nw ed (PointerUp e) s)) = [\<lparr>cbFinalZoom = pinchZoom ed s, cbEvent = e\<rparr>]"
      "dispatched (snd (canvas_step nw ed (PointerUp e) s)) = []"
    using up_in_session [of s nw ed e] by simp_all
  then have "map pinch_name_of (dispatched (snd (canvas_step nw ed' AnimationFrame (fst (canvas_step nw ed (PointerUp e) s)))))
      = [Some Pinch_end]"
    using frame_names [of nw ed' "fst (canvas_step nw ed (PointerUp e) s)"] by simp
  with u(2) show ?thesis using single_pinch_event by blast
qed

text \<open>The events of a run made of two steps, a middle run and two more steps.\<close>

lemma canvas_run_session_shape:
  assumes "canvas_step nw ed1 i1 s = (sA, rA)" "canvas_step nw ed2 i2 sA = (sB, rB)"
      and "canvas_run nw mids sB = (sC, evm)" "canvas_step nw ed3 i3 sC = (sD, rD)"
      and "canvas_step nw ed4 i4 sD = (sE, rE)"
  shows "snd (canvas_run nw ([(ed1, i1), (ed2, i2)] @ mids @ [(ed3, i3), (ed4, i4)]) s) =
           dispatched rA @ dispatched rB @ evm @ dispatched rD @ dispatched rE"
  by (simp only: canvas_run_append canvas_run_Cons canvas_run.simps(1) assms
      fst_conv snd_conv Let_def prod.case append_Nil2 append_assoc)

text \<open>
  C7: a session of two fingers (two \<open>pointerdown\<close>s of distinct ids), any moves and
  wheel events, a \<open>pointerup\<close> and the next animation frame dispatches exactly one
  \<open>pinch_start\<close>, first, and exactly one \<open>pinch_end\<close>, last.
\<close>

theorem pinch_session_protocol:
  fixes nw :: wheel_normalizer and ed1 ed2 ed3 ed4 :: editor_view and e3 :: pointer_event
  assumes start: "listening s" "activePointers s = []" "pendingFrames s = []"
      and ids: "pointerId e1 \<noteq> pointerId e2"
      and mids: "list_all (session_input \<circ> snd) mids"
  defines "evs \<equiv> snd (canvas_run nw ([(ed1, PointerDown e1), (ed2, PointerDown e2)] @ mids @
                                      [(ed3, PointerUp e3), (ed4, AnimationFrame)]) s)"
  shows "count_pinch Pinch_start evs = 1 \<and> count_pinch Pinch_end evs = 1 \<and>
         pinch_name_of (hd evs) = Some Pinch_start \<and> pinch_name_of (last evs) = Some Pinch_end"
proof -
  define s1 where "s1 = fst (canvas_step nw ed1 (PointerDown e1) s)"
  define s2 where "s2 = fst (canvas_step nw ed2 (PointerDown e2) s1)"
  define s3 where "s3 = fst (canvas_run nw mids s2)"
  define s4 where "s4 = fst (canvas_step nw ed3 (PointerUp e3) s3)"
  have d1': "canvas_step nw ed1 (PointerDown e1) s = (s\<lparr>activePointers := [(pointerId e1, e1)]\<rparr>, no_reaction)"
    by (rule first_down [OF start(2,1)])
  have d1: "canvas_step nw ed1 (PointerDown e1) s = (s1, no_reaction)"
    unfolding s1_def d1' by simp
  have p1: "activePointers s1 = [(pointerId e1, e1)]" "listening s1" "pendingFrames s1 = []"
    unfolding s1_def d1' using start by simp_all
  from p1 ids have d2: "map fst (activePointers s2) = [pointerId e1, pointerId e2]" "listening s2"
      "pendingFrames s2 = []"
      "map pinch_name_of (dispatched (snd (canvas_step nw ed2 (PointerDown e2) s1))) = [Some Pinch_start]"
    using second_down [of s1 "pointerId e1" e1 e2 nw ed2] by (simp_all add: s2_def)
  from session_inputs_run [OF mids d2(2,3), of nw] d2(1)
  have m: "map fst (activePointers s3) = [pointerId e1, pointerId e2]" "listening s3" "pendingFrames s3 = []"
      "count_pinch Pinch_start (snd (canvas_run nw mids s2)) = 0"
      "count_pinch Pinch_end (snd (canvas_run nw mids s2)) = 0"
    by (simp_all add: s3_def)
  have "map_size (activePointers s3) = 2" using arg_cong [OF m(1), of length] by (simp add: map_size_def)
  with m(2,3) obtain ev_end where u: "dispatched (snd (canvas_step nw ed3 (PointerUp e3) s3)) = []"
      and en: "dispatched (snd (canvas_step nw ed4 AnimationFrame s4)) = [ev_end]"
      "pinch_name_of ev_end = Some Pinch_end"
    using up_then_frame [of s3 nw ed3 e3 ed4] by (auto simp: s4_def)
  obtain ev_start where st: "dispatched (snd (canvas_step nw ed2 (PointerDown e2) s1)) = [ev_start]"
      "pinch_name_of ev_start = Some Pinch_start"
    using single_pinch_event [OF d2(4)] by blast
  have "evs = dispatched no_reaction @ dispatched (snd (canvas_step nw ed2 (PointerDown e2) s1)) @
              snd (canvas_run nw mids s2) @ dispatched (snd (canvas_step nw ed3 (PointerUp e3) s3)) @
              dispatched (snd (canvas_step nw ed4 AnimationFrame s4))"
    unfolding evs_def
    by (rule canvas_run_session_shape [where sB = s2 and sC = s3 and sD = s4
          and sE = "fst (canvas_step nw ed4 AnimationFrame s4)", OF d1])
       (simp_all add: s2_def s3_def s4_def)
  then show ?thesis using st en u m(4,5) by simp
qed

lemma pinch_session_protocol_witness:
  "count_pinch Pinch_start
     (snd (canvas_run (\<lambda>_. vec3_of 0 0 0)
        ([(ed_example, PointerDown (pointer_at 1 0 0)), (ed_example, PointerDown (pointer_at 2 100 0))] @
         [(ed_example, PointerMove (pointer_at 2 150 0))] @
         [(ed_example, PointerUp (pointer_at 2 150 0)), (ed_example, AnimationFrame)])
        (useDomCanvasEvents_mount True))) = 1"
  using pinch_session_protocol [of "useDomCanvasEvents_mount True" "pointer_at 1 0 0" "pointer_at 2 100 0"
      "[(ed_example, PointerMove (pointer_at 2 150 0))]" "\<lambda>_. vec3_of 0 0 0" ed_example ed_example
      ed_example "pointer_at 2 150 0" ed_example]
  by (simp add: map_empty_def del: canvas_run.simps)

subsection \<open>Untracked pointers\<close>

text \<open>
  C8: a \<open>pointermove\<close> of a pointer the map does not hold changes nothing and
  dispatches nothing; so does a \<open>pointerup\<close> or \<open>pointercancel\<close> of such a pointer
  unless exactly two pointers are held. Releasing the same pointer twice is therefore a
  no-op the second time outside a session.
\<close>

theorem untracked_pointer_noop:
  assumes "\<not> map_has (pointerId e) (activePointers s)"
  shows "canvas_step nw ed (PointerMove e) s = (s, no_reaction) \<and>
         (map_size (activePointers s) \<noteq> 2 \<longrightarrow>
            canvas_step nw ed (PointerUp e) s = (s, no_reaction) \<and>
            canvas_step nw ed (PointerCancel e) s = (s, no_reaction))"
proof -
  from assms have "map_delete (pointerId e) (activePointers s) = activePointers s"
    by (simp add: map_delete_absent map_has_def)
  with assms show ?thesis
    by (simp add: onPointerMove_def onPointerUp_def Let_def)
qed

lemma untracked_pointer_noop_witness:
  "canvas_step (\<lambda>_. vec3_of 0 0 0) ed_example (PointerMove (pointer_at 7 5 5)) (useDomCanvasEvents_mount True) =
     (useDomCanvasEvents_mount True, no_reaction) \<and>
   canvas_step (\<lambda>_. vec3_of 0 0 0) ed_example (PointerUp (pointer_at 7 5 5)) (useDomCanvasEvents_mount True) =
     (useDomCanvasEvents_mount True, no_reaction)"
  using untracked_pointer_noop [of "pointer_at 7 5 5" "useDomCanvasEvents_mount True"
      "\<lambda>_. vec3_of 0 0 0" ed_example]
  by (simp add: map_has_def map_size_def map_empty_def del: canvas_step.simps)

text \<open>
  C9: during a two-finger session, a \<open>pointerup\<close> of a pointer the map does not hold
  still ends the pinch: the mode is reset and a \<open>pinch_end\<close> is queued for the next
  frame, while both fingers stay tracked and the session goes on.
\<close>

theorem untracked_up_ends_pinch:
  assumes "map_size (activePointers s) = 2" "\<not> map_has (pointerId e) (activePointers s)" "listening s"
  shows "activePointers (fst (canvas_step nw ed (PointerUp e) s)) = activePointers s \<and>
         pinchState (fst (canvas_step nw ed (PointerUp e) s)) = Not_sure \<and>
         map pinch_name_of (dispatched (snd (canvas_step nw ed' AnimationFrame (fst (canvas_step nw ed (PointerUp e) s))))) =
           map (\<lambda>_. Some Pinch_end) (pendingFrames s) @ [Some Pinch_end]"
proof -
  from assms(2) have "map_delete (pointerId e) (activePointers s) = activePointers s"
    by (simp add: map_delete_absent map_has_def)
  with assms show ?thesis
    by (simp add: onPointerUp_def onAnimationFrame_def pinchEndInfo_def Let_def)
qed

lemma untracked_up_ends_pinch_witness:
  "pinchState (fst (canvas_step (\<lambda>_. vec3_of 0 0 0) ed_example (PointerUp (pointer_at 3 0 0))
      (session_example Panning))) = Not_sure"
  using untracked_up_ends_pinch [of "session_example Panning" "pointer_at 3 0 0" "\<lambda>_. vec3_of 0 0 0"
      ed_example ed_example]
  by (simp add: map_has_def map_size_def del: canvas_step.simps)

subsection \<open>Teardown\<close>

text \<open>
  C10: after the effect's cleanup every DOM input is ignored, but a \<open>pinch_end\<close>
  already queued on the animation frame is still dispatched: the cleanup does not cancel
  it.
\<close>

theorem cleanup_keeps_pending_pinch_end:
  "(\<forall>i. i \<noteq> AnimationFrame \<longrightarrow>
      canvas_step nw ed' i (fst (canvas_step nw ed Unmount s)) = (fst (canvas_step nw ed Unmount s), no_reaction)) \<and>
   map pinch_name_of (dispatched (snd (canvas_step nw ed'' AnimationFrame (fst (canvas_step nw ed Unmount s))))) =
     map (\<lambda>_. Some Pinch_end) (pendingFrames s)"
proof -
  have "i \<noteq> AnimationFrame \<Longrightarrow>
        canvas_step nw ed' i (useDomCanvasEvents_cleanup s) = (useDomCanvasEvents_cleanup s, no_reaction)" for i
    by (cases i) (simp_all add: useDomCanvasEvents_cleanup_def)
  then show ?thesis
    by (simp add: onAnimationFrame_def pinchEndInfo_def useDomCanvasEvents_cleanup_def Let_def)
qed

lemma cleanup_keeps_pending_pinch_end_witness:
  "map pinch_name_of (dispatched (snd (canvas_step (\<lambda>_. vec3_of 0 0 0) ed_example AnimationFrame
      (fst (canvas_step (\<lambda>_. vec3_of 0 0 0) ed_example Unmount
        ((session_example Panning)\<lparr>pendingFrames := [\<lparr>cbFinalZoom = 1, cbEvent = pointer_at 2 100 0\<rparr>]\<rparr>)))))) =
   [Some Pinch_end]"
  using cleanup_keeps_pending_pinch_end [of "\<lambda>_. vec3_of 0 0 0" ed_example ed_example
      "(session_example Panning)\<lparr>pendingFrames := [\<lparr>cbFinalZoom = 1, cbEvent = pointer_at 2 100 0\<rparr>]\<rparr>" ed_example]
  by (simp del: canvas_step.simps)

subsection \<open>Stale data in the deferred \<open>pinch_end\<close>\<close>

text \<open>
  C11: \<open>currDistanceBetweenFingers\<close> is only written by \<open>pointermove\<close>. When a
  session ends without a move, \<open>pinch_end\<close> is computed from the distance of the
  previous session, or from its initial value 0: right after mounting, two fingers put
  down and one lifted report a final zoom of 0 (for any positive zoom speed, where
  TypeScript's \<open>0 ** zoomSpeed\<close> is 0 as well), not the zoom the session started at.
\<close>

theorem pinch_end_zoom_without_move:
  assumes "pointerId e1 \<noteq> pointerId e2" "getPointerDistance e1 e2 \<noteq> 0" "0 < zoomSpeed ed3"
  shows "snd (canvas_run nw [(ed1, PointerDown e1), (ed2, PointerDown e2), (ed3, PointerUp e3),
              (ed4, AnimationFrame)] (useDomCanvasEvents_mount True)) =
         [PinchInfo Pinch_start (vec3_of (vx (getPointerCenter e1 e2)) (vy (getPointerCenter e1 e2)) (getZoomLevel ed2))
             (vec2_of 0 0) (event_keys ed2 e2),
          PinchInfo Pinch_end (vec3_of (vx (getPointerCenter e1 e2)) (vy (getPointerCenter e1 e2)) 0)
             (vec2_of (vx (getPointerCenter e1 e2)) (vy (getPointerCenter e1 e2))) (event_keys ed4 e3)]"
  using assms
  by (simp add: onPointerDown_def onPointerUp_def onAnimationFrame_def pinchEndInfo_def pinchZoom_def
      Let_def map_size_def map_empty_def activePair_def map_values_def js_pow_zero_base)

lemma pinch_end_zoom_without_move_witness:
  "snd (canvas_run (\<lambda>_. vec3_of 0 0 0) [(ed_example, PointerDown (pointer_at 1 0 0)),
      (ed_example, PointerDown (pointer_at 2 100 0)), (ed_example, PointerUp (pointer_at 2 100 0)),
      (ed_example, AnimationFrame)] (useDomCanvasEvents_mount True)) =
   [PinchInfo Pinch_start (vec3_of 50 0 1) (vec2_of 0 0) (event_keys ed_example (pointer_at 2 100 0)),
    PinchInfo Pinch_end (vec3_of 50 0 0) (vec2_of 50 0) (event_keys ed_example (pointer_at 2 100 0))]"
  using pinch_end_zoom_without_move [of "pointer_at 1 0 0" "pointer_at 2 100 0" ed_example
      "\<lambda>_. vec3_of 0 0 0" ed_example ed_example "pointer_at 2 100 0" ed_example]
  by (simp add: getPointerDistance_def getPointerCenter_def vec2_of_def vec3_of_def del: canvas_run.simps)

text \<open>
  C12: the queued \<open>pinch_end\<close> reads \<open>prevPointBetweenFingers\<close> when the frame
  fires. If a finger is lifted and another put down before that frame, the old session's
  \<open>pinch_end\<close> is dispatched after the new \<open>pinch_start\<close> and carries the new
  session's centre, as point and as delta. Its zoom is the one captured at release, stated
  where the real-valued zoom is the code's: positive initial distance, non-negative
  current distance and zoom speed.
\<close>

theorem stale_pinch_end_centre:
  assumes "activePointers s = [(a, p1), (b, p2)]" "a \<noteq> b" "listening s" "pendingFrames s = []"
      and "pointerId u = b" "pointerId d \<noteq> a"
      and "0 < initDistanceBetweenFingers s" "0 \<le> currDistanceBetweenFingers s" "0 \<le> zoomSpeed ed1"
  shows "snd (canvas_run nw [(ed1, PointerUp u), (ed2, PointerDown d), (ed3, AnimationFrame)] s) =
         [PinchInfo Pinch_start (vec3_of (vx (getPointerCenter p1 d)) (vy (getPointerCenter p1 d)) (getZoomLevel ed2))
             (vec2_of 0 0) (event_keys ed2 d),
          PinchInfo Pinch_end (vec3_of (vx (getPointerCenter p1 d)) (vy (getPointerCenter p1 d)) (pinchZoom ed1 s))
             (vec2_of (vx (getPointerCenter p1 d)) (vy (getPointerCenter p1 d))) (event_keys ed3 u)]"
  using assms
  by (simp add: onPointerDown_def onPointerUp_def onAnimationFrame_def pinchEndInfo_def
      Let_def map_size_def activePair_def map_values_def)

lemma stale_pinch_end_centre_witness:
  "snd (canvas_run (\<lambda>_. vec3_of 0 0 0) [(ed_example, PointerUp (pointer_at 2 100 0)),
      (ed_example, PointerDown (pointer_at 3 0 200)), (ed_example, AnimationFrame)] (session_example Panning)) =
   [PinchInfo Pinch_start (vec3_of 0 100 1) (vec2_of 0 0) (event_keys ed_example (pointer_at 3 0 200)),
    PinchInfo Pinch_end (vec3_of 0 100 1) (vec2_of 0 100) (event_keys ed_example (pointer_at 2 100 0))]"
  using stale_pinch_end_centre [of "session_example Panning" 1 "pointer_at 1 0 0" 2 "pointer_at 2 100 0"
      "pointer_at 2 100 0" "pointer_at 3 0 200" ed_example "\<lambda>_. vec3_of 0 0 0" ed_example ed_example]
  by (simp add: getPointerCenter_def pinchZoom_def vec2_of_def vec3_of_def del: canvas_run.simps)

subsection \<open>The wheel inside a session\<close>

text \<open>
  C13: a wheel tick resets the mode to \<open>Not_sure\<close> inside a session, and the next
  move is classified afresh against the session's start with the lower thresholds. So
  a zooming session whose next move changes the span by at most 24 and moves the centre
  more than 16 from where the session started keeps zooming without the wheel tick. With
  the tick it turns into a pan: the move is dispatched as a \<open>pinch\<close> at the frozen zoom
  \<open>initZoom\<close>. Within one session a zoom is followed by a pan.
\<close>

theorem wheel_turns_zoom_into_pan:
  assumes "listening s" "isFocused edw" "pinchState s = Zooming"
      and "map_has (pointerId e) (activePointers s)" "map_size (activePointers s) = 2"
      and "activePair (map_set (pointerId e) e (activePointers s)) = (p1, p2)"
      and "\<bar>getPointerDistance p1 p2 - initDistanceBetweenFingers s\<bar> \<le> 24"
      and "16 < vec_dist (initPointBetweenFingers s) (getPointerCenter p1 p2)"
  shows "pinchState (fst (canvas_step nw ed (PointerMove e) s)) = Zooming \<and>
         pinchState (fst (canvas_run nw [(edw, WheelInput w), (ed, PointerMove e)] s)) = Panning \<and>
         snd (canvas_run nw [(edw, WheelInput w), (ed, PointerMove e)] s) =
           dispatched (snd (onWheel nw edw w s)) @
           [PinchInfo Pinch
              (vec3_of (vx (getPointerCenter p1 p2)) (vy (getPointerCenter p1 p2)) (initZoom s))
              (vec2_of (vx (getPointerCenter p1 p2) - vx (prevPointBetweenFingers s))
                       (vy (getPointerCenter p1 p2) - vy (prevPointBetweenFingers s)))
              (event_keys ed e)]"
proof -
  let ?s1 = "s\<lparr>pinchState := Not_sure\<rparr>"
  have w: "fst (onWheel nw edw w s) = ?s1" using assms(2) by (simp add: onWheel_state)
  have keep: "pinchState (fst (onPointerMove ed e s)) = Zooming"
    using assms(3-6) by (simp add: onPointerMove_two_mode)
  have pan: "pinchState (fst (onPointerMove ed e ?s1)) = Panning"
    using assms(4-8) onPointerMove_two_mode [of e ?s1 p1 p2 ed] by simp
  have ev: "dispatched (snd (onPointerMove ed e ?s1)) =
      [PinchInfo Pinch (vec3_of (vx (getPointerCenter p1 p2)) (vy (getPointerCenter p1 p2)) (initZoom s))
        (vec2_of (vx (getPointerCenter p1 p2) - vx (prevPointBetweenFingers s))
                 (vy (getPointerCenter p1 p2) - vy (prevPointBetweenFingers s))) (event_keys ed e)]"
  proof -
    have "pinchState (updatePinchState (?s1\<lparr>activePointers := map_set (pointerId e) e (activePointers s),
        currDistanceBetweenFingers := getPointerDistance p1 p2,
        prevPointBetweenFingers := getPointerCenter p1 p2\<rparr>)) = Panning"
      using assms(7,8) by (simp add: updatePinchState_def Let_def)
    with assms(4-6) onPointerMove_two [of e ?s1 p1 p2 ed] show ?thesis
      by (simp add: updatePinchState_def Let_def split: if_splits)
  qed
  obtain r where wh: "onWheel nw edw w s = (?s1, r)" using w by (metis prod.collapse)
  have "canvas_run nw [(edw, WheelInput w), (ed, PointerMove e)] s =
      (fst (onPointerMove ed e ?s1), dispatched r @ dispatched (snd (onPointerMove ed e ?s1)))"
    using assms(1) wh by (simp split: prod.split)
  with ev pan keep wh assms(1) show ?thesis by simp
qed

lemma wheel_turns_zoom_into_pan_witness:
  "pinchState (fst (canvas_run (\<lambda>e. vec3_of (- deltaX e) (- deltaY e) 0)
     [(ed_example, WheelInput wheel_example), (ed_example, PointerMove (pointer_at 2 80 60))]
     (session_example Zooming))) = Panning"
  using wheel_turns_zoom_into_pan [of "session_example Zooming" ed_example "pointer_at 2 80 60"
      "pointer_at 1 0 0" "pointer_at 2 80 60" "\<lambda>e. vec3_of (- deltaX e) (- deltaY e) 0" ed_example wheel_example]
  by (simp add: example_simps geometry_simps del: canvas_run.simps canvas_step.simps)

subsection \<open>Division by a zero initial distance\<close>

text \<open>
  C14: two fingers put down at the same point give \<open>initDistanceBetweenFingers = 0\<close>,
  and a later spread of more than 24 reaches the zooming mode, where every update divides
  by that distance (in TypeScript the zoom becomes \<open>Infinity\<close>).
\<close>

theorem zero_init_distance_reachable:
  "\<exists>s. canvas_reachable nw s \<and> pinchState s = Zooming \<and> initDistanceBetweenFingers s = 0"
proof -
  let ?s0 = "useDomCanvasEvents_mount True"
  let ?s1 = "fst (canvas_step nw ed_example (PointerDown (pointer_at 1 0 0)) ?s0)"
  let ?s2 = "fst (canvas_step nw ed_example (PointerDown (pointer_at 2 0 0)) ?s1)"
  let ?s3 = "fst (canvas_step nw ed_example (PointerMove (pointer_at 2 30 0)) ?s2)"
  have "canvas_reachable nw ?s3"
    by (intro canvas_reachable.step canvas_reachable.mount)
  moreover have "pinchState ?s3 = Zooming \<and> initDistanceBetweenFingers ?s3 = 0"
    by (simp add: onPointerDown_def onPointerMove_def updatePinchState_def Let_def map_empty_def
        example_simps)
  ultimately show ?thesis by blast
qed

lemma zero_init_distance_reachable_witness:
  "\<exists>s. canvas_reachable (\<lambda>_. vec3_of 0 0 0) s \<and> pinchState s = Zooming \<and> initDistanceBetweenFingers s = 0"
  by (rule zero_init_distance_reachable)

subsection \<open>Session start and end\<close>

text \<open>
  C16: the \<open>pointerdown\<close> that brings the map to two pointers starts a session: the
  mode is reset, both centre points are the centre of the pair, the initial distance is
  their distance and the initial zoom the editor's; a \<open>pinch_start\<close> is dispatched at
  the centre with the current zoom and a zero delta.
\<close>

theorem session_start:
  assumes "listening s" "map_size (map_set (pointerId e) e (activePointers s)) = 2"
      and "activePair (map_set (pointerId e) e (activePointers s)) = (p1, p2)"
  shows "canvas_step nw ed (PointerDown e) s =
           (s\<lparr>activePointers := map_set (pointerId e) e (activePointers s), pinchState := Not_sure,
               prevPointBetweenFingers := getPointerCenter p1 p2,
               initPointBetweenFingers := getPointerCenter p1 p2,
               initDistanceBetweenFingers := getPointerDistance p1 p2, initZoom := getZoomLevel ed\<rparr>,
            emits [PinchInfo Pinch_start
                     (vec3_of (vx (getPointerCenter p1 p2)) (vy (getPointerCenter p1 p2)) (getZoomLevel ed))
                     (vec2_of 0 0) (event_keys ed e)])"
  using assms by (simp add: onPointerDown_def Let_def)

lemma session_start_witness:
  "dispatched (snd (canvas_step (\<lambda>_. vec3_of 0 0 0) ed_example (PointerDown (pointer_at 2 100 0))
      ((useDomCanvasEvents_mount True)\<lparr>activePointers := [(1, pointer_at 1 0 0)]\<rparr>))) =
   [PinchInfo Pinch_start (vec3_of 50 0 1) (vec2_of 0 0) (event_keys ed_example (pointer_at 2 100 0))]"
  using session_start [of "(useDomCanvasEvents_mount True)\<lparr>activePointers := [(1, pointer_at 1 0 0)]\<rparr>"
      "pointer_at 2 100 0" "pointer_at 1 0 0" "pointer_at 2 100 0" "\<lambda>_. vec3_of 0 0 0" ed_example]
  by (simp add: example_simps del: canvas_step.simps)

text \<open>
  C17: a \<open>pointerup\<close> (or \<open>pointercancel\<close>) while two pointers are held dispatches
  nothing at once, resets the mode and queues one callback; at the next frame it
  dispatches a \<open>pinch_end\<close> whose point is the last centre with \<open>z\<close> the zoom
  \<open>initZoom * (currDistance / initDistance) ** zoomSpeed\<close> computed at release, and
  whose delta is the last centre itself, not a motion. The zoom is stated where the
  real-valued zoom is the code's: positive initial distance, non-negative current
  distance and zoom speed.
\<close>

theorem session_end:
  assumes "listening s" "map_size (activePointers s) = 2" "pendingFrames s = []"
      and "0 < initDistanceBetweenFingers s" "0 \<le> currDistanceBetweenFingers s" "0 \<le> zoomSpeed ed"
  shows "dispatched (snd (canvas_step nw ed (PointerUp e) s)) = [] \<and>
         pinchState (fst (canvas_step nw ed (PointerUp e) s)) = Not_sure \<and>
         dispatched (snd (canvas_step nw ed' AnimationFrame (fst (canvas_step nw ed (PointerUp e) s)))) =
           [PinchInfo Pinch_end
              (vec3_of (vx (prevPointBetweenFingers s)) (vy (prevPointBetweenFingers s)) (pinchZoom ed s))
              (vec2_of (vx (prevPointBetweenFingers s)) (vy (prevPointBetweenFingers s)))
              (event_keys ed' e)]"
  using assms by (simp add: onPointerUp_def onAnimationFrame_def pinchEndInfo_def Let_def)

lemma session_end_witness:
  "dispatched (snd (canvas_step (\<lambda>_. vec3_of 0 0 0) ed_example AnimationFrame
      (fst (canvas_step (\<lambda>_. vec3_of 0 0 0) ed_example (PointerUp (pointer_at 2 100 0)) (session_example Panning))))) =
   [PinchInfo Pinch_end (vec3_of 50 0 1) (vec2_of 50 0) (event_keys ed_example (pointer_at 2 100 0))]"
  using session_end [of "session_example Panning" ed_example "\<lambda>_. vec3_of 0 0 0" "pointer_at 2 100 0" ed_example]
  by (simp add: map_size_def pinchZoom_def vec2_of_def vec3_of_def del: canvas_step.simps)

subsection \<open>The wheel interrupts the classification\<close>

text \<open>
  C18: a \<open>wheel\<close> event on a focused editor resets the mode to \<open>Not_sure\<close> without
  touching the tracked pointers or the queued frames and without dispatching any pinch
  event; on an unfocused editor it does nothing at all.
\<close>

theorem wheel_interrupts_pinch:
  assumes "listening s"
  shows "(isFocused ed \<longrightarrow>
            pinchState (fst (canvas_step nw ed (WheelInput w) s)) = Not_sure \<and>
            activePointers (fst (canvas_step nw ed (WheelInput w) s)) = activePointers s \<and>
            pendingFrames (fst (canvas_step nw ed (WheelInput w) s)) = pendingFrames s \<and>
            (\<forall>ev \<in> set (dispatched (snd (canvas_step nw ed (WheelInput w) s))). pinch_name_of ev = None)) \<and>
         (\<not> isFocused ed \<longrightarrow> canvas_step nw ed (WheelInput w) s = (s, no_reaction))"
  using assms onWheel_no_pinch_event [of _ nw ed w s]
  by (simp add: onWheel_state onWheel_unfocused)

lemma wheel_interrupts_pinch_witness:
  "pinchState (fst (canvas_step (\<lambda>e. vec3_of (- deltaX e) (- deltaY e) 0) ed_example (WheelInput wheel_example)
      (session_example Panning))) = Not_sure"
  using wheel_interrupts_pinch [of "session_example Panning" ed_example "\<lambda>e. vec3_of (- deltaX e) (- deltaY e) 0"
      wheel_example]
  by (simp del: canvas_step.simps)

subsection \<open>A third finger\<close>

text \<open>
  C19: with two fingers down, a third finger and the release of the first produce no
  event at all: the map never passes through a \<open>pointerdown\<close> to size two, and the
  release happens at size three. Afterwards the tracker holds the second and the third
  finger, and every other variable (mode, initial distance, centres, initial zoom, queued
  frames) is still the first pair's. The new pair drives the session against the old
  pair's baseline with no \<open>pinch_start\<close> of its own.
\<close>

theorem third_finger_takes_over:
  assumes "listening s" "activePointers s = [(a, p1), (b, p2)]" "a \<noteq> b" "c \<noteq> a" "c \<noteq> b"
      and "pointerId d = c" "pointerId u = a"
  shows "canvas_run nw [(ed1, PointerDown d), (ed2, PointerUp u)] s =
           (s\<lparr>activePointers := [(b, p2), (c, d)]\<rparr>, [])"
  using assms by (simp add: onPointerDown_def onPointerUp_def Let_def map_size_def)

lemma third_finger_takes_over_witness:
  "snd (canvas_run (\<lambda>_. vec3_of 0 0 0)
     [(ed_example, PointerDown (pointer_at 3 100 100)), (ed_example, PointerUp (pointer_at 1 0 0))]
     (session_example Not_sure)) = []"
  using third_finger_takes_over [of "session_example Not_sure" 1 "pointer_at 1 0 0" 2 "pointer_at 2 100 0" 3
      "pointer_at 3 100 100" "pointer_at 1 0 0" "\<lambda>_. vec3_of 0 0 0" ed_example ed_example]
  by (simp del: canvas_run.simps)

end
