(* ===== verification/Session_Spec.thy ===== *)
theory Session_Spec
  imports Canvas_Events
begin

text \<open>
  The abstract pinch-session automaton of the design (sections 3, 4.1, 4.2 and 5 of the
  spec) and the simulation of it by the hook. The abstract state keeps what the contract
  talks about: the set of tracked contact identities, the session's mode, the number of
  \<open>pinch-end\<close> emissions scheduled for the next frame, and whether the surface is live.
  Its transitions are the contract's, one rule per case: a session starts when the
  contact set goes from fewer than two contacts to two, a move of a tracked contact in a
  session may only raise the mode, a release of a tracked contact in a session ends it and
  schedules a \<open>pinch-end\<close>, untracked moves and releases are no-ops, a focused wheel
  resets the mode, a frame emits the scheduled ends, and teardown releases the contacts
  and cancels pending ends. \<open>abs_session\<close> maps the hook's state to it, and
  \<open>abs_input\<close> maps a DOM input to the contract's label; the listeners' outputs are
  compared by the names of the pinch events they dispatch. The hook simulates the
  automaton on every step except the three named by \<open>spec_divergent\<close>, and on those it
  provably does not.
\<close>

record session_abs =
  contacts :: "int set"
  amode :: pinch_state
  pendingEnds :: nat
  attached :: bool

datatype gesture_input = Start int | Move int | End int | Wheel bool | Frame | Teardown

fun surface_input :: "gesture_input \<Rightarrow> bool" where
  "surface_input Frame = False"
| "surface_input Teardown = False"
| "surface_input _ = True"

inductive spec_step :: "session_abs \<Rightarrow> gesture_input \<Rightarrow> pinch_name list \<Rightarrow> session_abs \<Rightarrow> bool" where
  detached: "\<not> attached a \<Longrightarrow> surface_input l \<Longrightarrow> spec_step a l [] a"
| start_session: "attached a \<Longrightarrow> card (contacts a) < 2 \<Longrightarrow> card (insert i (contacts a)) = 2 \<Longrightarrow>
    spec_step a (Start i) [Pinch_start] (a\<lparr>contacts := insert i (contacts a), amode := Not_sure\<rparr>)"
| start_other: "attached a \<Longrightarrow> \<not> (card (contacts a) < 2 \<and> card (insert i (contacts a)) = 2) \<Longrightarrow>
    spec_step a (Start i) [] (a\<lparr>contacts := insert i (contacts a)\<rparr>)"
| move_untracked: "attached a \<Longrightarrow> i \<notin> contacts a \<Longrightarrow> spec_step a (Move i) [] a"
| move_session: "attached a \<Longrightarrow> i \<in> contacts a \<Longrightarrow> card (contacts a) = 2 \<Longrightarrow> amode a \<le> m \<Longrightarrow>
    spec_step a (Move i) (if m = Not_sure then [] else [Pinch]) (a\<lparr>amode := m\<rparr>)"
| move_other: "attached a \<Longrightarrow> i \<in> contacts a \<Longrightarrow> card (contacts a) \<noteq> 2 \<Longrightarrow> spec_step a (Move i) [] a"
| end_session: "attached a \<Longrightarrow> i \<in> contacts a \<Longrightarrow> card (contacts a) = 2 \<Longrightarrow>
    spec_step a (End i) []
      (a\<lparr>contacts := contacts a - {i}, amode := Not_sure, pendingEnds := Suc (pendingEnds a)\<rparr>)"
| end_other: "attached a \<Longrightarrow> i \<in> contacts a \<Longrightarrow> card (contacts a) \<noteq> 2 \<Longrightarrow>
    spec_step a (End i) [] (a\<lparr>contacts := contacts a - {i}\<rparr>)"
| end_untracked: "attached a \<Longrightarrow> i \<notin> contacts a \<Longrightarrow> spec_step a (End i) [] a"
| wheel: "attached a \<Longrightarrow> spec_step a (Wheel True) [] (a\<lparr>amode := Not_sure\<rparr>)"
| wheel_unfocused: "attached a \<Longrightarrow> spec_step a (Wheel False) [] a"
| frame: "spec_step a Frame (replicate (pendingEnds a) Pinch_end) (a\<lparr>pendingEnds := 0\<rparr>)"
| teardown: "spec_step a Teardown [] (a\<lparr>contacts := {}, pendingEnds := 0, attached := False\<rparr>)"

inductive spec_steps :: "session_abs \<Rightarrow> gesture_input list \<Rightarrow> pinch_name list \<Rightarrow> session_abs \<Rightarrow> bool" where
  refl: "spec_steps a [] [] a"
| step: "spec_step a l out a' \<Longrightarrow> spec_steps a' ls outs a'' \<Longrightarrow> spec_steps a (l # ls) (out @ outs) a''"

text \<open>The abstraction of the hook's state, of its inputs and of its output.\<close>

definition abs_session :: "canvas_state \<Rightarrow> session_abs" where
  "abs_session s =
     \<lparr>contacts = (if listening s then fst ` set (activePointers s) else {}), amode = pinchState s,
      pendingEnds = length (pendingFrames s), attached = listening s\<rparr>"

fun abs_input :: "editor_view \<Rightarrow> dom_input \<Rightarrow> gesture_input" where
  "abs_input ed (PointerDown e) = Start (pointerId e)"
| "abs_input ed (PointerMove e) = Move (pointerId e)"
| "abs_input ed (PointerUp e) = End (pointerId e)"
| "abs_input ed (PointerCancel e) = End (pointerId e)"
| "abs_input ed (WheelInput e) = Wheel (isFocused ed)"
| "abs_input ed AnimationFrame = Frame"
| "abs_input ed Unmount = Teardown"

fun pinch_names :: "canvas_event list \<Rightarrow> pinch_name list" where
  "pinch_names [] = []"
| "pinch_names (ev # evs) = (case pinch_name_of ev of None \<Rightarrow> pinch_names evs | Some n \<Rightarrow> n # pinch_names evs)"

text \<open>
  The steps where the hook departs from the contract, found in modelling it: a
  \<open>pointerdown\<close> for a contact already tracked in a session, a \<open>pointerup\<close> or
  \<open>pointercancel\<close> of an untracked pointer during a session, and a teardown with a
  \<open>pinch_end\<close> still queued.
\<close>

fun spec_divergent :: "canvas_state \<Rightarrow> dom_input \<Rightarrow> bool" where
  "spec_divergent s (PointerDown e) =
     (listening s \<and> map_has (pointerId e) (activePointers s) \<and> map_size (activePointers s) = 2)"
| "spec_divergent s (PointerUp e) =
     (listening s \<and> \<not> map_has (pointerId e) (activePointers s) \<and> map_size (activePointers s) = 2)"
| "spec_divergent s (PointerCancel e) =
     (listening s \<and> \<not> map_has (pointerId e) (activePointers s) \<and> map_size (activePointers s) = 2)"
| "spec_divergent s Unmount = (pendingFrames s \<noteq> [])"
| "spec_divergent s _ = False"

fun run_conforms :: "wheel_normalizer \<Rightarrow> (editor_view \<times> dom_input) list \<Rightarrow> canvas_state \<Rightarrow> bool" where
  "run_conforms nw [] s = True"
| "run_conforms nw ((ed, i) # is) s =
     (\<not> spec_divergent s i \<and> run_conforms nw is (fst (canvas_step nw ed i s)))"

subsection \<open>The abstraction\<close>

inductive_cases spec_step_StartE: "spec_step a (Start i) out a'"
inductive_cases spec_step_EndE: "spec_step a (End i) out a'"
inductive_cases spec_step_TeardownE: "spec_step a Teardown out a'"

lemma abs_session_fields [simp]:
  "contacts (abs_session s) = (if listening s then fst ` set (activePointers s) else {})"
  "amode (abs_session s) = pinchState s"
  "pendingEnds (abs_session s) = length (pendingFrames s)"
  "attached (abs_session s) = listening s"
  by (simp_all add: abs_session_def)

lemma pinch_names_append [simp]: "pinch_names (evs @ evs') = pinch_names evs @ pinch_names evs'"
  by (induction evs) (auto split: option.split)

lemma pinch_names_pinch_end [simp]: "pinch_names (map (pinchEndInfo ed s) cbs) = replicate (length cbs) Pinch_end"
  by (induction cbs) (simp_all add: pinchEndInfo_def Let_def)

lemma pinch_names_none: "(\<And>ev. ev \<in> set evs \<Longrightarrow> pinch_name_of ev = None) \<Longrightarrow> pinch_names evs = []"
  by (induction evs) auto

subsection \<open>One step of each listener\<close>

lemma card_insert_two_cases:
  assumes "finite C" "card (insert k C) = 2" "\<not> card C < 2"
  shows "k \<in> C \<and> card C = 2"
proof -
  from assms(1) have "card (insert k C) = (if k \<in> C then card C else Suc (card C))"
    by (simp add: card_insert_if)
  with assms(2,3) show ?thesis by (auto split: if_splits)
qed

lemma sim_down:
  assumes inv: "canvas_inv s" and l: "listening s"
      and nd: "\<not> (map_has (pointerId e) (activePointers s) \<and> map_size (activePointers s) = 2)"
  shows "spec_step (abs_session s) (Start (pointerId e)) (pinch_names (dispatched (snd (onPointerDown ed e s))))
           (abs_session (fst (onPointerDown ed e s)))"
proof -
  let ?m = "activePointers s" and ?k = "pointerId e"
  let ?C = "fst ` set ?m"
  from inv have mi: "map_inv ?m" by (simp add: canvas_inv_def)
  have size': "map_size (map_set ?k e ?m) = card (insert ?k ?C)"
    using card_keys [OF map_inv_set [OF mi, of ?k e]] by simp
  have cs: "card ?C = map_size ?m" using mi by simp
  show ?thesis
  proof (cases "card ?C < 2 \<and> card (insert ?k ?C) = 2")
    case True
    with size' have two: "map_size (map_set ?k e ?m) = 2" by simp
    have "abs_session (fst (onPointerDown ed e s)) =
            (abs_session s)\<lparr>contacts := insert ?k (contacts (abs_session s)), amode := Not_sure\<rparr>"
     and "pinch_names (dispatched (snd (onPointerDown ed e s))) = [Pinch_start]"
      using two l by (simp_all add: onPointerDown_def Let_def abs_session_def split: prod.split)
    with True l spec_step.start_session [of "abs_session s" ?k] show ?thesis by simp
  next
    case False
    have "map_size (map_set ?k e ?m) \<noteq> 2"
    proof
      assume "map_size (map_set ?k e ?m) = 2"
      with size' False card_insert_two_cases [of ?C ?k] have "?k \<in> ?C" "card ?C = 2" by auto
      with cs nd show False by (simp add: map_has_def)
    qed
    then have "abs_session (fst (onPointerDown ed e s)) =
            (abs_session s)\<lparr>contacts := insert ?k (contacts (abs_session s))\<rparr>"
     and "pinch_names (dispatched (snd (onPointerDown ed e s))) = []"
      using l by (simp_all add: onPointerDown_def Let_def abs_session_def)
    with False l spec_step.start_other [of "abs_session s" ?k] show ?thesis by simp
  qed
qed

lemma onPointerMove_session_names:
  assumes "map_has (pointerId e) (activePointers s)" "map_size (activePointers s) = 2"
  shows "pinch_names (dispatched (snd (onPointerMove ed e s))) =
           (if pinchState (fst (onPointerMove ed e s)) = Not_sure then [] else [Pinch])"
proof -
  obtain p1 p2 where "activePair (map_set (pointerId e) e (activePointers s)) = (p1, p2)"
    by fastforce
  with assms show ?thesis by (simp add: onPointerMove_two split: pinch_state.split)
qed

lemma sim_move:
  assumes inv: "canvas_inv s" and l: "listening s"
  shows "spec_step (abs_session s) (Move (pointerId e)) (pinch_names (dispatched (snd (onPointerMove ed e s))))
           (abs_session (fst (onPointerMove ed e s)))"
proof -
  let ?m = "activePointers s" and ?k = "pointerId e"
  from inv have mi: "map_inv ?m" by (simp add: canvas_inv_def)
  show ?thesis
  proof (cases "map_has ?k ?m")
    case False
    then have "onPointerMove ed e s = (s, no_reaction)" by (simp add: onPointerMove_def)
    with False l spec_step.move_untracked [of "abs_session s" ?k] show ?thesis
      by (simp add: map_has_def)
  next
    case has: True
    show ?thesis
    proof (cases "map_size ?m = 2")
      case True
      have "abs_session (fst (onPointerMove ed e s)) =
              (abs_session s)\<lparr>amode := pinchState (fst (onPointerMove ed e s))\<rparr>"
      proof -
        from has have "fst ` set (map_set ?k e ?m) = fst ` set ?m" by (auto simp: map_has_def)
        with has True l show ?thesis
          by (auto simp: onPointerMove_def Let_def abs_session_def split: prod.split pinch_state.split)
      qed
      with has True l mi onPointerMove_mode_mono [of s ed e] onPointerMove_session_names [OF has True]
        spec_step.move_session [of "abs_session s" ?k "pinchState (fst (onPointerMove ed e s))"]
      show ?thesis by (simp add: map_has_def)
    next
      case False
      with has have "onPointerMove ed e s = (s\<lparr>activePointers := map_set ?k e ?m\<rparr>, no_reaction)"
        by (simp add: onPointerMove_def Let_def map_size_set)
      moreover from has have "abs_session (s\<lparr>activePointers := map_set ?k e ?m\<rparr>) = abs_session s"
        by (auto simp: abs_session_def map_has_def)
      ultimately show ?thesis using has False l mi spec_step.move_other [of "abs_session s" ?k]
        by (simp add: map_has_def)
    qed
  qed
qed

lemma sim_up:
  assumes inv: "canvas_inv s" and l: "listening s"
      and nd: "\<not> (\<not> map_has (pointerId e) (activePointers s) \<and> map_size (activePointers s) = 2)"
  shows "spec_step (abs_session s) (End (pointerId e)) (pinch_names (dispatched (snd (onPointerUp ed e s))))
           (abs_session (fst (onPointerUp ed e s)))"
proof -
  let ?m = "activePointers s" and ?k = "pointerId e"
  from inv have mi: "map_inv ?m" by (simp add: canvas_inv_def)
  then have keys: "fst ` set (map_delete ?k ?m) = fst ` set ?m - {?k}" by (simp add: map_inv_def)
  show ?thesis
  proof (cases "map_has ?k ?m")
    case False
    with nd have "map_size ?m \<noteq> 2" by simp
    moreover from False have "map_delete ?k ?m = ?m" by (simp add: map_has_def map_delete_absent)
    ultimately have "onPointerUp ed e s = (s, no_reaction)" by (simp add: onPointerUp_def)
    with False l spec_step.end_untracked [of "abs_session s" ?k] show ?thesis
      by (simp add: map_has_def)
  next
    case has: True
    then have k: "?k \<in> contacts (abs_session s)" using l by (simp add: map_has_def)
    show ?thesis
    proof (cases "map_size ?m = 2")
      case True
      have "abs_session (fst (onPointerUp ed e s)) =
              (abs_session s)\<lparr>contacts := contacts (abs_session s) - {?k}, amode := Not_sure,
                 pendingEnds := Suc (pendingEnds (abs_session s))\<rparr>"
        using True l keys by (simp add: onPointerUp_def abs_session_def)
      with True l k mi spec_step.end_session [of "abs_session s" ?k] show ?thesis
        by (simp add: onPointerUp_def)
    next
      case False
      have "abs_session (fst (onPointerUp ed e s)) =
              (abs_session s)\<lparr>contacts := contacts (abs_session s) - {?k}\<rparr>"
        using False l keys by (simp add: onPointerUp_def abs_session_def)
      with False l k mi spec_step.end_other [of "abs_session s" ?k] show ?thesis
        by (simp add: onPointerUp_def)
    qed
  qed
qed

lemma sim_wheel:
  "listening s \<Longrightarrow>
   spec_step (abs_session s) (Wheel (isFocused ed)) (pinch_names (dispatched (snd (onWheel nw ed e s))))
     (abs_session (fst (onWheel nw ed e s)))"
proof -
  assume l: "listening s"
  have names: "pinch_names (dispatched (snd (onWheel nw ed e s))) = []"
    by (rule pinch_names_none) (rule onWheel_no_pinch_event)
  show ?thesis
  proof (cases "isFocused ed")
    case True
    have "abs_session (fst (onWheel nw ed e s)) = (abs_session s)\<lparr>amode := Not_sure\<rparr>"
      using True by (simp add: onWheel_state abs_session_def)
    with True l names spec_step.wheel [of "abs_session s"] show ?thesis by simp
  next
    case False
    with l names spec_step.wheel_unfocused [of "abs_session s"] show ?thesis
      by (simp add: onWheel_unfocused)
  qed
qed

lemma sim_frame:
  "spec_step (abs_session s) Frame (pinch_names (dispatched (snd (onAnimationFrame ed s))))
     (abs_session (fst (onAnimationFrame ed s)))"
proof -
  have "abs_session (fst (onAnimationFrame ed s)) = (abs_session s)\<lparr>pendingEnds := 0\<rparr>"
   and "pinch_names (dispatched (snd (onAnimationFrame ed s))) = replicate (pendingEnds (abs_session s)) Pinch_end"
    by (simp_all add: onAnimationFrame_def abs_session_def)
  then show ?thesis by (simp only:) (rule spec_step.frame)
qed

lemma sim_teardown:
  "pendingFrames s = [] \<Longrightarrow>
   spec_step (abs_session s) Teardown [] (abs_session (useDomCanvasEvents_cleanup s))"
proof -
  assume "pendingFrames s = []"
  then have "abs_session (useDomCanvasEvents_cleanup s) =
               (abs_session s)\<lparr>contacts := {}, pendingEnds := 0, attached := False\<rparr>"
    by (simp add: useDomCanvasEvents_cleanup_def abs_session_def)
  then show ?thesis using spec_step.teardown [of "abs_session s"] by simp
qed

lemma sim_detached:
  "\<not> listening s \<Longrightarrow> surface_input l \<Longrightarrow> spec_step (abs_session s) l [] (abs_session s)"
  by (rule spec_step.detached) simp_all

lemma canvas_step_simulates:
  assumes inv: "canvas_inv s" and nd: "\<not> spec_divergent s i"
  shows "spec_step (abs_session s) (abs_input ed i) (pinch_names (dispatched (snd (canvas_step nw ed i s))))
           (abs_session (fst (canvas_step nw ed i s)))"
proof (cases "listening s \<or> i = AnimationFrame \<or> i = Unmount")
  case False
  then have "canvas_step nw ed i s = (s, no_reaction)" and "surface_input (abs_input ed i)"
    by (cases i; simp)+
  with False show ?thesis by (simp add: sim_detached)
next
  case True
  then show ?thesis
  proof (cases i)
    case (PointerDown e)
    with True inv nd show ?thesis by (simp add: sim_down)
  next
    case (PointerMove e)
    with True inv show ?thesis by (simp add: sim_move)
  next
    case (PointerUp e)
    with True inv nd show ?thesis by (simp add: sim_up)
  next
    case (PointerCancel e)
    with True inv nd show ?thesis by (simp add: sim_up)
  next
    case (WheelInput e)
    with True show ?thesis by (simp add: sim_wheel)
  next
    case AnimationFrame
    then show ?thesis by (simp add: sim_frame)
  next
    case Unmount
    with nd show ?thesis by (simp add: sim_teardown)
  qed
qed

subsection \<open>Refinement\<close>

lemma canvas_run_simulation:
  "canvas_inv s \<Longrightarrow> run_conforms nw is s \<Longrightarrow>
   spec_steps (abs_session s) (map (\<lambda>(ed, i). abs_input ed i) is) (pinch_names (snd (canvas_run nw is s)))
     (abs_session (fst (canvas_run nw is s)))"
proof (induction "is" arbitrary: s)
  case Nil
  then show ?case by (simp add: spec_steps.refl)
next
  case (Cons p "is")
  obtain ed i where p: "p = (ed, i)" by fastforce
  let ?s1 = "fst (canvas_step nw ed i s)"
  from Cons.prems p have nd: "\<not> spec_divergent s i" and rest: "run_conforms nw is ?s1" by simp_all
  have inv1: "canvas_inv ?s1" using Cons.prems(1) by (rule canvas_step_inv)
  have "spec_step (abs_session s) (abs_input ed i) (pinch_names (dispatched (snd (canvas_step nw ed i s)))) (abs_session ?s1)"
    using Cons.prems(1) nd by (rule canvas_step_simulates)
  moreover have "spec_steps (abs_session ?s1) (map (\<lambda>(ed, i). abs_input ed i) is)
      (pinch_names (snd (canvas_run nw is ?s1))) (abs_session (fst (canvas_run nw is ?s1)))"
    using inv1 rest by (rule Cons.IH)
  ultimately have "spec_steps (abs_session s) (abs_input ed i # map (\<lambda>(ed, i). abs_input ed i) is)
      (pinch_names (dispatched (snd (canvas_step nw ed i s))) @ pinch_names (snd (canvas_run nw is ?s1)))
      (abs_session (fst (canvas_run nw is ?s1)))"
    by (rule spec_steps.step)
  moreover have "canvas_run nw (p # is) s =
      (fst (canvas_run nw is ?s1), dispatched (snd (canvas_step nw ed i s)) @ snd (canvas_run nw is ?s1))"
    by (simp add: p split: prod.split)
  ultimately show ?case by (simp add: p)
qed

text \<open>
  C21: the hook refines the contract's session automaton: from a state satisfying the
  invariant, a run of DOM inputs none of which is one of the three divergent steps is
  matched by a run of the automaton on the corresponding contract inputs, emitting the
  same sequence of pinch events, from the abstraction of the start state to the
  abstraction of the final one.
\<close>

theorem canvas_run_refines_spec:
  "canvas_inv s \<Longrightarrow> run_conforms nw is s \<Longrightarrow>
   spec_steps (abs_session s) (map (\<lambda>(ed, i). abs_input ed i) is) (pinch_names (snd (canvas_run nw is s)))
     (abs_session (fst (canvas_run nw is s)))"
  by (rule canvas_run_simulation)

lemma canvas_run_refines_spec_witness:
  "spec_steps (abs_session (useDomCanvasEvents_mount True)) [Start 1, Start 2] [Pinch_start]
     (abs_session (fst (canvas_run (\<lambda>_. vec3_of 0 0 0)
        [(ed_example, PointerDown (pointer_at 1 0 0)), (ed_example, PointerDown (pointer_at 2 100 0))]
        (useDomCanvasEvents_mount True))))"
  using canvas_run_refines_spec [of "useDomCanvasEvents_mount True" "\<lambda>_. vec3_of 0 0 0"
      "[(ed_example, PointerDown (pointer_at 1 0 0)), (ed_example, PointerDown (pointer_at 2 100 0))]"]
  by (simp add: canvas_inv_mount onPointerDown_def Let_def map_empty_def map_has_def map_size_def)

subsection \<open>Where the hook departs from the contract\<close>

text \<open>
  C22: a \<open>pointerdown\<close> for a pointer that is already one of the two fingers of a session
  (the contract: a duplicate start for a live identity simply overwrites) makes the map's
  size 2 again, so the hook restarts the session: it emits a second \<open>pinch_start\<close>,
  resets the mode to undecided and takes the new span as the initial distance. No step of
  the contract's automaton emits \<open>pinch_start\<close> there.
\<close>

theorem duplicate_down_restarts_session:
  assumes "listening s" "map_has (pointerId e) (activePointers s)" "map_size (activePointers s) = 2"
      and "canvas_inv s"
  shows "pinch_names (dispatched (snd (canvas_step nw ed (PointerDown e) s))) = [Pinch_start] \<and>
         pinchState (fst (canvas_step nw ed (PointerDown e) s)) = Not_sure \<and>
         initDistanceBetweenFingers (fst (canvas_step nw ed (PointerDown e) s)) =
           getPointerDistance (fst (activePair (map_set (pointerId e) e (activePointers s))))
             (snd (activePair (map_set (pointerId e) e (activePointers s)))) \<and>
         (\<forall>a'. \<not> spec_step (abs_session s) (Start (pointerId e)) [Pinch_start] a')"
proof -
  from assms(2,3) have two: "map_size (map_set (pointerId e) e (activePointers s)) = 2"
    by (simp add: map_size_set)
  from assms(1,3,4) have "card (contacts (abs_session s)) = 2" by (simp add: canvas_inv_def)
  then have "\<forall>a'. \<not> spec_step (abs_session s) (Start (pointerId e)) [Pinch_start] a'"
    by (auto elim: spec_step_StartE)
  with assms(1) two show ?thesis
    by (simp add: onPointerDown_def Let_def split: prod.split)
qed

lemma duplicate_down_restarts_session_witness:
  "pinch_names (dispatched (snd (canvas_step (\<lambda>_. vec3_of 0 0 0) ed_example (PointerDown (pointer_at 2 120 0))
      (session_example Zooming)))) = [Pinch_start] \<and>
   pinchState (fst (canvas_step (\<lambda>_. vec3_of 0 0 0) ed_example (PointerDown (pointer_at 2 120 0))
      (session_example Zooming))) = Not_sure \<and>
   initDistanceBetweenFingers (fst (canvas_step (\<lambda>_. vec3_of 0 0 0) ed_example (PointerDown (pointer_at 2 120 0))
      (session_example Zooming))) = 120"
  using duplicate_down_restarts_session [of "session_example Zooming" "pointer_at 2 120 0" "\<lambda>_. vec3_of 0 0 0" ed_example]
  by (simp add: example_simps canvas_inv_def map_inv_def)

subsection \<open>The divergent steps are exactly the unsimulated ones\<close>

lemma onPointerDown_restart_names:
  assumes "map_size (map_set (pointerId e) e (activePointers s)) = 2"
  shows "pinch_names (dispatched (snd (onPointerDown ed e s))) = [Pinch_start]"
  using assms by (simp add: onPointerDown_def Let_def split: prod.split)

lemma spec_end_untracked_stays:
  "spec_step a (End i) out a' \<Longrightarrow> attached a \<Longrightarrow> i \<notin> contacts a \<Longrightarrow> a' = a"
  by (auto elim: spec_step_EndE)

lemma spec_teardown_cancels: "spec_step a Teardown out a' \<Longrightarrow> pendingEnds a' = 0"
  by (auto elim: spec_step_TeardownE)

lemma untracked_up_unsimulated:
  assumes l: "listening s" and u: "\<not> map_has (pointerId e) (activePointers s)"
      and two: "map_size (activePointers s) = 2"
  shows "\<not> spec_step (abs_session s) (End (pointerId e)) out (abs_session (fst (onPointerUp ed e s)))"
proof
  assume st: "spec_step (abs_session s) (End (pointerId e)) out (abs_session (fst (onPointerUp ed e s)))"
  have pe: "pendingEnds (abs_session (fst (onPointerUp ed e s))) = Suc (pendingEnds (abs_session s))"
    using two by (simp add: onPointerUp_def)
  have nc: "pointerId e \<notin> contacts (abs_session s)" using l u by (simp add: map_has_def)
  have "abs_session (fst (onPointerUp ed e s)) = abs_session s"
    using spec_end_untracked_stays [OF st] l nc by simp
  with pe show False by simp
qed

lemma teardown_pending_unsimulated:
  assumes "pendingFrames s \<noteq> []"
  shows "\<not> spec_step (abs_session s) Teardown out (abs_session (useDomCanvasEvents_cleanup s))"
proof
  assume "spec_step (abs_session s) Teardown out (abs_session (useDomCanvasEvents_cleanup s))"
  then have "pendingEnds (abs_session (useDomCanvasEvents_cleanup s)) = 0"
    by (rule spec_teardown_cancels)
  with assms show False by (simp add: useDomCanvasEvents_cleanup_def)
qed

text \<open>
  C26: for a state satisfying the invariant, a step of the hook is matched by the
  contract's automaton exactly when it is not one of the three divergent steps: a
  duplicate \<open>pointerdown\<close> in a session, an untracked \<open>pointerup\<close> or
  \<open>pointercancel\<close> in a session, or a teardown with a \<open>pinch_end\<close> queued.
\<close>

theorem divergence_exact:
  assumes inv: "canvas_inv s"
  shows "spec_divergent s i \<longleftrightarrow>
         \<not> spec_step (abs_session s) (abs_input ed i) (pinch_names (dispatched (snd (canvas_step nw ed i s))))
             (abs_session (fst (canvas_step nw ed i s)))"
proof
  assume d: "spec_divergent s i"
  show "\<not> spec_step (abs_session s) (abs_input ed i) (pinch_names (dispatched (snd (canvas_step nw ed i s))))
          (abs_session (fst (canvas_step nw ed i s)))"
  proof (cases i)
    case (PointerDown e)
    with d have l: "listening s" and h: "map_has (pointerId e) (activePointers s)"
      and two: "map_size (activePointers s) = 2" by simp_all
    from h two have "map_size (map_set (pointerId e) e (activePointers s)) = 2" by (simp add: map_size_set)
    then have "pinch_names (dispatched (snd (canvas_step nw ed i s))) = [Pinch_start]"
      using PointerDown l by (simp add: onPointerDown_restart_names)
    moreover from inv l two have "card (contacts (abs_session s)) = 2" by (simp add: canvas_inv_def)
    ultimately show ?thesis using PointerDown by (auto elim: spec_step_StartE)
  next
    case (PointerUp e)
    with d have "listening s" "\<not> map_has (pointerId e) (activePointers s)" "map_size (activePointers s) = 2"
      by simp_all
    with PointerUp show ?thesis by (simp add: untracked_up_unsimulated)
  next
    case (PointerCancel e)
    with d have "listening s" "\<not> map_has (pointerId e) (activePointers s)" "map_size (activePointers s) = 2"
      by simp_all
    with PointerCancel show ?thesis by (simp add: untracked_up_unsimulated)
  next
    case Unmount
    with d show ?thesis by (simp add: teardown_pending_unsimulated)
  qed (use d in simp_all)
next
  assume "\<not> spec_step (abs_session s) (abs_input ed i) (pinch_names (dispatched (snd (canvas_step nw ed i s))))
            (abs_session (fst (canvas_step nw ed i s)))"
  with inv show "spec_divergent s i" using canvas_step_simulates by blast
qed

lemma divergence_exact_witness:
  "\<not> spec_step (abs_session (session_example Zooming)) (End 3)
       (pinch_names (dispatched (snd (canvas_step (\<lambda>_. vec3_of 0 0 0) ed_example (PointerUp (pointer_at 3 0 0))
          (session_example Zooming)))))
       (abs_session (fst (canvas_step (\<lambda>_. vec3_of 0 0 0) ed_example (PointerUp (pointer_at 3 0 0))
          (session_example Zooming))))"
  using divergence_exact [of "session_example Zooming" "PointerUp (pointer_at 3 0 0)" ed_example "\<lambda>_. vec3_of 0 0 0"]
  by (simp add: canvas_inv_def map_inv_def map_has_def map_size_def)

end
