(* ===== verification/Hook_Lifecycle.thy ===== *)
theory Hook_Lifecycle
  imports Session_Spec
begin

text \<open>
  The hook as React runs it (lines 9--12, 19--21 and 246). \<open>useDomCanvasEvents\<close> takes
  \<open>{editor, container}\<close>, and its effect depends on \<open>[editor, container]\<close>. A render
  with the same dependencies keeps the running effect. A render with other dependencies
  runs the previous effect's cleanup, then the effect again with a fresh closure, so
  \<open>activePointers\<close> and the pinch variables start over. The editor's timers are not
  the effect's, so callbacks the previous closure queued stay queued and still fire with
  that closure's state. \<open>hook_instance\<close> holds the dependencies, the live closure and
  the retired closures. A DOM input reaches the live closure's listeners, and an animation
  frame fires the queued callbacks of every closure, oldest closure first. All of an old
  closure's callbacks were requested before the remount, so this is the timer's FIFO
  order.
\<close>

text \<open>\<open>DomDeps\<close>: the editor and the container, by identity; \<open>null\<close> is \<open>None\<close>.\<close>

record dom_deps =
  depEditor :: nat
  depContainer :: "nat option"

record hook_instance =
  deps :: dom_deps
  closure :: canvas_state
  retired :: "canvas_state list"

definition hook_mount :: "dom_deps \<Rightarrow> hook_instance" where
  "hook_mount d = \<lparr>deps = d, closure = useDomCanvasEvents_mount (depContainer d \<noteq> None), retired = []\<rparr>"

definition hook_render :: "dom_deps \<Rightarrow> hook_instance \<Rightarrow> hook_instance" where
  "hook_render d h =
     (if d = deps h then h
      else \<lparr>deps = d, closure = useDomCanvasEvents_mount (depContainer d \<noteq> None),
            retired = retired h @ [useDomCanvasEvents_cleanup (closure h)]\<rparr>)"

datatype hook_input = Render dom_deps | Dom dom_input

fun hook_step ::
  "wheel_normalizer \<Rightarrow> editor_view \<Rightarrow> hook_input \<Rightarrow> hook_instance \<Rightarrow> hook_instance \<times> canvas_event list" where
  "hook_step nw ed (Render d) h = (hook_render d h, [])"
| "hook_step nw ed (Dom AnimationFrame) h =
     (h\<lparr>retired := map (\<lambda>c. fst (onAnimationFrame ed c)) (retired h),
        closure := fst (onAnimationFrame ed (closure h))\<rparr>,
      concat (map (\<lambda>c. dispatched (snd (onAnimationFrame ed c))) (retired h)) @
      dispatched (snd (onAnimationFrame ed (closure h))))"
| "hook_step nw ed (Dom i) h =
     (let (c, r) = canvas_step nw ed i (closure h) in (h\<lparr>closure := c\<rparr>, dispatched r))"

fun hook_run ::
  "wheel_normalizer \<Rightarrow> (editor_view \<times> hook_input) list \<Rightarrow> hook_instance \<Rightarrow> hook_instance \<times> canvas_event list" where
  "hook_run nw [] h = (h, [])"
| "hook_run nw ((ed, i) # is) h =
     (let (h1, evs) = hook_step nw ed i h; (h2, evs') = hook_run nw is h1 in (h2, evs @ evs'))"

definition deps_example :: "nat \<Rightarrow> dom_deps" where
  "deps_example n = \<lparr>depEditor = n, depContainer = Some 1\<rparr>"

definition hook_session_example :: hook_instance where
  "hook_session_example = \<lparr>deps = deps_example 1, closure = session_example Zooming, retired = []\<rparr>"

subsection \<open>Rendering and frames\<close>

lemma hook_render_same [simp]: "hook_render (deps h) h = h"
  by (simp add: hook_render_def)

lemma hook_render_new:
  "d \<noteq> deps h \<Longrightarrow>
   hook_render d h = \<lparr>deps = d, closure = useDomCanvasEvents_mount (depContainer d \<noteq> None),
                      retired = retired h @ [useDomCanvasEvents_cleanup (closure h)]\<rparr>"
  by (simp add: hook_render_def)

lemma hook_step_dom:
  "i \<noteq> AnimationFrame \<Longrightarrow>
   hook_step nw ed (Dom i) h =
     (h\<lparr>closure := fst (canvas_step nw ed i (closure h))\<rparr>, dispatched (snd (canvas_step nw ed i (closure h))))"
  by (cases i) (simp_all split: prod.split)

lemma hook_run_Cons:
  "hook_run nw ((ed, i) # is) h =
     (fst (hook_run nw is (fst (hook_step nw ed i h))),
      snd (hook_step nw ed i h) @ snd (hook_run nw is (fst (hook_step nw ed i h))))"
  by (simp split: prod.split)

lemma frame_retired_silent:
  "\<forall>c\<in>set cs. pendingFrames c = [] \<Longrightarrow> concat (map (\<lambda>c. map (pinchEndInfo ed c) (pendingFrames c)) cs) = []"
  by (induction cs) simp_all

lemma frame_no_pending:
  assumes "pendingFrames (closure h) = []" "\<forall>c\<in>set (retired h). pendingFrames c = []"
  shows "snd (hook_step nw ed (Dom AnimationFrame) h) = []"
  using assms(1) by (simp add: onAnimationFrame_def frame_retired_silent [OF assms(2)])

lemma onPointerUp_empty: "activePointers s = [] \<Longrightarrow> onPointerUp ed e s = (s, no_reaction)"
proof -
  assume a: "activePointers s = []"
  then have d: "map_delete (pointerId e) (activePointers s) = activePointers s"
    and n: "map_size (activePointers s) \<noteq> 2" by (simp_all add: map_size_def)
  from d n show ?thesis by (simp add: onPointerUp_def)
qed

lemma mount_up_noop:
  "canvas_step nw ed (PointerUp e) (useDomCanvasEvents_mount c) = (useDomCanvasEvents_mount c, no_reaction)"
  by (simp add: onPointerUp_empty map_empty_def)

lemma up_fresh_closure:
  "closure h = useDomCanvasEvents_mount c \<Longrightarrow> hook_step nw ed (Dom (PointerUp e)) h = (h, [])"
proof -
  assume "closure h = useDomCanvasEvents_mount c"
  then have "canvas_step nw ed (PointerUp e) (closure h) = (closure h, no_reaction)"
    by (simp only: mount_up_noop)
  then show ?thesis by (simp del: hook_step.simps add: hook_step_dom)
qed

lemma frame_count_pinch_end:
  assumes "\<forall>c\<in>set (retired h). pendingFrames c = []"
  shows "count_pinch Pinch_end (snd (hook_step nw ed (Dom AnimationFrame) h)) = length (pendingFrames (closure h))"
  by (simp add: onAnimationFrame_def frame_retired_silent [OF assms])

subsection \<open>A remount in the middle of a pinch\<close>

text \<open>
  C27: when the dependencies change while two fingers are down, the session is lost
  without an end. The effect's cleanup detaches the listeners. The fresh closure tracks
  no pointer, so the releases that follow are untracked there and queue nothing. The next
  frame then dispatches no \<open>pinch_end\<close>, although the session's \<open>pinch_start\<close> was
  dispatched. Without the remount, the first release of a two-finger session queues
  exactly one \<open>pinch_end\<close> for that frame.
\<close>

theorem remount_mid_pinch_loses_pinch_end:
  assumes "pendingFrames (closure h) = []" "\<forall>c\<in>set (retired h). pendingFrames c = []"
  shows "(d \<noteq> deps h \<longrightarrow>
            count_pinch Pinch_end (snd (hook_run nw [(ed, Render d), (ed, Dom (PointerUp e1)),
               (ed, Dom (PointerUp e2)), (ed, Dom AnimationFrame)] h)) = 0) \<and>
         (listening (closure h) \<and> map_size (activePointers (closure h)) = 2 \<longrightarrow>
            count_pinch Pinch_end (snd (hook_run nw [(ed, Dom (PointerUp e1)), (ed, Dom AnimationFrame)] h)) = 1)"
proof (intro conjI impI)
  assume d: "d \<noteq> deps h"
  let ?h1 = "hook_render d h"
  have c1: "closure ?h1 = useDomCanvasEvents_mount (depContainer d \<noteq> None)"
    and r1: "\<forall>c\<in>set (retired ?h1). pendingFrames c = []"
    using d assms by (simp_all add: hook_render_new useDomCanvasEvents_cleanup_def)
  have ups: "hook_step nw ed (Dom (PointerUp e)) ?h1 = (?h1, [])" for e
    using c1 by (rule up_fresh_closure)
  moreover have "snd (hook_step nw ed (Dom AnimationFrame) ?h1) = []"
    using c1 r1 by (intro frame_no_pending) simp_all
  moreover have "hook_step nw ed (Render d) h = (?h1, [])" by simp
  ultimately show "count_pinch Pinch_end (snd (hook_run nw [(ed, Render d), (ed, Dom (PointerUp e1)),
      (ed, Dom (PointerUp e2)), (ed, Dom AnimationFrame)] h)) = 0"
    by (simp del: hook_step.simps hook_run.simps add: hook_run_Cons hook_run.simps(1))
next
  assume s: "listening (closure h) \<and> map_size (activePointers (closure h)) = 2"
  let ?h1 = "fst (hook_step nw ed (Dom (PointerUp e1)) h)"
  have up: "snd (hook_step nw ed (Dom (PointerUp e1)) h) = []"
    and p1: "length (pendingFrames (closure ?h1)) = 1"
    and r1: "retired ?h1 = retired h"
    using s assms(1) by (simp_all del: hook_step.simps add: hook_step_dom onPointerUp_def)
  have "count_pinch Pinch_end (snd (hook_step nw ed (Dom AnimationFrame) ?h1)) = 1"
    using assms(2) r1 p1 frame_count_pinch_end [of ?h1 nw ed] by simp
  with up show "count_pinch Pinch_end (snd (hook_run nw [(ed, Dom (PointerUp e1)), (ed, Dom AnimationFrame)] h)) = 1"
    by (simp del: hook_step.simps hook_run.simps add: hook_run_Cons hook_run.simps(1))
qed

lemma remount_mid_pinch_loses_pinch_end_witness:
  "count_pinch Pinch_end (snd (hook_run (\<lambda>_. vec3_of 0 0 0) [(ed_example, Render (deps_example 2)),
      (ed_example, Dom (PointerUp (pointer_at 1 0 0))), (ed_example, Dom (PointerUp (pointer_at 2 100 0))),
      (ed_example, Dom AnimationFrame)] hook_session_example)) = 0 \<and>
   count_pinch Pinch_end (snd (hook_run (\<lambda>_. vec3_of 0 0 0) [(ed_example, Dom (PointerUp (pointer_at 1 0 0))),
      (ed_example, Dom AnimationFrame)] hook_session_example)) = 1"
  using remount_mid_pinch_loses_pinch_end [of hook_session_example "deps_example 2" "\<lambda>_. vec3_of 0 0 0"
      ed_example "pointer_at 1 0 0" "pointer_at 2 100 0"]
  by (simp add: hook_session_example_def deps_example_def map_size_def)

end
