(* ===== verification/Wheel_Normalize.thy ===== *)
theory Wheel_Normalize
  imports Wheel
begin

text \<open>
  \<open>normalizeWheel\<close> of \<open>utils/normalizeWheel\<close>, which \<open>onWheel\<close> calls at line 214,
  is not among the sources; it is modelled from its contract (spec section 4.3). A raw
  wheel event reports its deltas in pixels, lines or pages (\<open>deltaMode\<close> 0, 1, 2 of the
  DOM); the normaliser turns them into one unit, pixels. The sizes of a line and a page in
  pixels are the device's and are parameters of the model (\<open>wheel_units\<close>), required to
  be positive. With this normaliser \<open>onWheel\<close> becomes a closed function of the DOM event,
  and the contract's two promises are theorems: the canonical delta does not depend on the
  unit the device chose, and an event is dropped exactly when its raw delta is zero.
\<close>

record wheel_units =
  pixelsPerLine :: real
  pixelsPerPage :: real

definition units_ok :: "wheel_units \<Rightarrow> bool" where
  "units_ok u \<longleftrightarrow> 0 < pixelsPerLine u \<and> 0 < pixelsPerPage u"

text \<open>\<open>WheelEvent.DOM_DELTA_PIXEL = 0\<close>, \<open>DOM_DELTA_LINE = 1\<close>, \<open>DOM_DELTA_PAGE = 2\<close>.\<close>

definition delta_unit :: "wheel_units \<Rightarrow> nat \<Rightarrow> real" where
  "delta_unit u m = (if m = 0 then 1 else if m = 1 then pixelsPerLine u else pixelsPerPage u)"

definition normalizeWheel :: "wheel_units \<Rightarrow> wheel_event \<Rightarrow> vec3" where
  "normalizeWheel u e =
     (let k = delta_unit u (deltaMode e)
      in vec3_of (deltaX e * k) (deltaY e * k) (deltaZ e * k))"

definition line_event :: "real \<Rightarrow> real \<Rightarrow> wheel_event" where
  "line_event dx dy =
     \<lparr>shiftKey = False, altKey = False, ctrlKey = False, metaKey = False, clientX = 10, clientY = 20,
      deltaX = dx, deltaY = dy, deltaZ = 0, deltaMode = 1\<rparr>"

definition units_example :: wheel_units where
  "units_example = \<lparr>pixelsPerLine = 16, pixelsPerPage = 800\<rparr>"

lemma delta_unit_pos: "units_ok u \<Longrightarrow> 0 < delta_unit u m"
  by (simp add: delta_unit_def units_ok_def)

lemma normalizeWheel_fields [simp]:
  "vx (normalizeWheel u e) = deltaX e * delta_unit u (deltaMode e)"
  "vy (normalizeWheel u e) = deltaY e * delta_unit u (deltaMode e)"
  "vz (normalizeWheel u e) = deltaZ e * delta_unit u (deltaMode e)"
  by (simp_all add: normalizeWheel_def vec3_of_def Let_def)

lemma normalizeWheel_zero_iff:
  "units_ok u \<Longrightarrow> vx (normalizeWheel u e) = 0 \<and> vy (normalizeWheel u e) = 0 \<longleftrightarrow> deltaX e = 0 \<and> deltaY e = 0"
proof -
  assume "units_ok u"
  then have "delta_unit u (deltaMode e) \<noteq> 0" using delta_unit_pos [of u "deltaMode e"] by simp
  then show ?thesis by simp
qed

lemma units_example_ok [simp]: "units_ok units_example"
  by (simp add: units_ok_def units_example_def)

text \<open>
  C25: with the contract's normaliser, a focused, non-exempt wheel event always prevents
  the browser's default, and dispatches one \<open>wheel\<close> info carrying the normalised delta
  exactly when its raw horizontal or vertical delta is non-zero; a zero delta is dropped
  silently.
\<close>

theorem normalized_wheel_dispatch:
  assumes "units_ok u" "isFocused ed" "\<not> scrollExempt ed"
  shows "defaultPrevented (snd (onWheel (normalizeWheel u) ed e s)) \<and>
         dispatched (snd (onWheel (normalizeWheel u) ed e s)) =
           (if deltaX e = 0 \<and> deltaY e = 0 then []
            else [WheelInfo (normalizeWheel u e) (vec3_of (clientX e) (clientY e) 1) (event_keys ed e)])"
proof (cases "deltaX e = 0 \<and> deltaY e = 0")
  case True
  with assms have "vx (normalizeWheel u e) = 0" "vy (normalizeWheel u e) = 0"
    by (simp_all add: normalizeWheel_zero_iff)
  with assms True show ?thesis by (simp add: onWheel_zero_delta)
next
  case False
  with assms(1) have "\<not> (vx (normalizeWheel u e) = 0 \<and> vy (normalizeWheel u e) = 0)"
    by (metis normalizeWheel_zero_iff)
  with assms False show ?thesis by (simp add: onWheel_dispatch)
qed

lemma normalized_wheel_dispatch_witness:
  "dispatched (snd (onWheel (normalizeWheel units_example) mac_editor (line_event 0 3) pinch_vars_init)) =
     [WheelInfo (vec3_of 0 48 0) (vec3_of 10 20 1) (event_keys mac_editor (line_event 0 3))] \<and>
   dispatched (snd (onWheel (normalizeWheel units_example) mac_editor (line_event 0 0) pinch_vars_init)) = []"
proof -
  have ex: "isFocused mac_editor" "\<not> scrollExempt mac_editor"
    by (simp_all add: mac_editor_def scrollExempt_def)
  show ?thesis
    using normalized_wheel_dispatch [OF units_example_ok ex, of "line_event 0 3" pinch_vars_init]
      normalized_wheel_dispatch [OF units_example_ok ex, of "line_event 0 0" pinch_vars_init]
    by (simp add: line_event_def normalizeWheel_def delta_unit_def units_example_def vec3_of_def)
qed

end
