(* ===== verification/Js_Number.thy ===== *)
theory Js_Number
  imports Pinch
begin

text \<open>
  TypeScript numbers with their special values. The rest of the development reads a
  \<open>number\<close> as a \<open>real\<close>. This theory justifies that reading and marks its limit, for
  the one computation of the hook where a special value can arise: the zoom
  \<open>initZoom * (currDistanceBetweenFingers / initDistanceBetweenFingers) ** zoomSpeed\<close>
  of lines 128--129 and 167--168. \<open>js_num\<close> is a number of ECMAScript at the level of
  values: a finite value, \<open>Infinity\<close>, \<open>-Infinity\<close> or \<open>NaN\<close>. Rounding is not modelled,
  and neither is the sign of zero. \<open>js_div\<close>, \<open>js_mul\<close> and \<open>js_exp\<close> follow the
  special-value cases of IEEE 754 division and multiplication and of
  \<open>Number::exponentiate\<close>. The exponent is the camera's \<open>zoomSpeed\<close>, a finite number.
  A zero divisor is \<open>+0\<close>: the hook divides by a distance, which is a square root and
  never \<open>-0\<close>.
\<close>

datatype js_num = Num real | PosInf | NegInf | NaN

fun js_div :: "js_num \<Rightarrow> js_num \<Rightarrow> js_num" where
  "js_div (Num a) (Num b) =
     (if b \<noteq> 0 then Num (a / b) else if 0 < a then PosInf else if a < 0 then NegInf else NaN)"
| "js_div (Num a) NaN = NaN"
| "js_div (Num a) _ = Num 0"
| "js_div NaN _ = NaN"
| "js_div PosInf (Num b) = (if 0 \<le> b then PosInf else NegInf)"
| "js_div NegInf (Num b) = (if 0 \<le> b then NegInf else PosInf)"
| "js_div _ _ = NaN"

fun js_mul :: "js_num \<Rightarrow> js_num \<Rightarrow> js_num" where
  "js_mul (Num a) (Num b) = Num (a * b)"
| "js_mul NaN _ = NaN"
| "js_mul _ NaN = NaN"
| "js_mul (Num a) PosInf = (if 0 < a then PosInf else if a < 0 then NegInf else NaN)"
| "js_mul (Num a) NegInf = (if 0 < a then NegInf else if a < 0 then PosInf else NaN)"
| "js_mul PosInf (Num b) = (if 0 < b then PosInf else if b < 0 then NegInf else NaN)"
| "js_mul NegInf (Num b) = (if 0 < b then NegInf else if b < 0 then PosInf else NaN)"
| "js_mul PosInf PosInf = PosInf"
| "js_mul NegInf NegInf = PosInf"
| "js_mul _ _ = NegInf"

text \<open>\<open>x ** y\<close> for a finite exponent \<open>y\<close> (ECMAScript \<open>Number::exponentiate\<close>).\<close>

fun js_exp :: "js_num \<Rightarrow> real \<Rightarrow> js_num" where
  "js_exp x y =
     (if y = 0 then Num 1
      else case x of
        NaN \<Rightarrow> NaN
      | PosInf \<Rightarrow> if 0 < y then PosInf else Num 0
      | NegInf \<Rightarrow>
          if 0 < y then (if y \<in> \<int> \<and> odd \<lfloor>y\<rfloor> then NegInf else PosInf) else Num 0
      | Num a \<Rightarrow>
          if a = 0 then (if 0 < y then Num 0 else PosInf)
          else if 0 < a then Num (a powr y)
          else if y \<in> \<int> then Num (if odd \<lfloor>y\<rfloor> then - (\<bar>a\<bar> powr y) else \<bar>a\<bar> powr y)
          else NaN)"

text \<open>The zoom of lines 128--129 and 167--168, evaluated with TypeScript numbers.\<close>

definition pinchZoom_js :: "editor_view \<Rightarrow> 'a pinch_vars_scheme \<Rightarrow> js_num" where
  "pinchZoom_js ed s =
     js_mul (Num (initZoom s))
       (js_exp (js_div (Num (currDistanceBetweenFingers s)) (Num (initDistanceBetweenFingers s))) (zoomSpeed ed))"

fun js_finite :: "js_num \<Rightarrow> bool" where
  "js_finite (Num _) = True"
| "js_finite _ = False"

subsection \<open>The real model is exact on non-degenerate inputs\<close>

lemma js_exp_num: "0 \<le> a \<Longrightarrow> (a = 0 \<Longrightarrow> 0 \<le> y) \<Longrightarrow> js_exp (Num a) y = Num (js_pow a y)"
  by (auto simp: js_pow_def)

text \<open>
  C28: when the initial distance is positive and the zoom speed is not negative, the zoom
  computed with TypeScript numbers is the finite number the real-valued model gives. So
  every theorem about \<open>pinchZoom\<close> under these conditions is a theorem about the code's
  arithmetic (rounding aside).
\<close>

theorem pinchZoom_js_exact:
  assumes "0 < initDistanceBetweenFingers s" "0 \<le> currDistanceBetweenFingers s" "0 \<le> zoomSpeed ed"
  shows "pinchZoom_js ed s = Num (pinchZoom ed s)"
proof -
  let ?r = "currDistanceBetweenFingers s / initDistanceBetweenFingers s"
  have "js_div (Num (currDistanceBetweenFingers s)) (Num (initDistanceBetweenFingers s)) = Num ?r"
    using assms(1) by simp
  moreover have "js_exp (Num ?r) (zoomSpeed ed) = Num (js_pow ?r (zoomSpeed ed))"
    using assms by (intro js_exp_num) simp_all
  ultimately show ?thesis by (simp add: pinchZoom_js_def pinchZoom_def)
qed

lemma pinchZoom_js_exact_witness:
  "pinchZoom_js mac_editor (pinch_vars_init\<lparr>initDistanceBetweenFingers := 100, currDistanceBetweenFingers := 150\<rparr>)
     = Num (3 / 2)"
  using pinchZoom_js_exact [of "pinch_vars_init\<lparr>initDistanceBetweenFingers := 100, currDistanceBetweenFingers := 150\<rparr>"
      mac_editor]
  by (simp add: pinch_vars_init_def mac_editor_def pinchZoom_def)

text \<open>
  C29: with an initial distance of 0, which is reachable (two fingers put down at one
  point), a positive initial zoom and a positive zoom speed, the code's zoom is not a finite
  number. It is \<open>Infinity\<close> once the fingers have moved apart and \<open>NaN\<close> while they are
  still together. In both cases the real-valued model gives 0 instead, so the model's
  zoom is exact only under the hypotheses of C28.
\<close>

theorem pinchZoom_js_zero_distance:
  assumes "initDistanceBetweenFingers s = 0" "0 \<le> currDistanceBetweenFingers s"
      and "0 < initZoom s" "0 < zoomSpeed ed"
  shows "pinchZoom_js ed s = (if currDistanceBetweenFingers s = 0 then NaN else PosInf) \<and>
         \<not> js_finite (pinchZoom_js ed s) \<and> pinchZoom ed s = 0"
  using assms by (auto simp: pinchZoom_js_def pinchZoom_def js_pow_def)

lemma pinchZoom_js_zero_distance_witness:
  "pinchZoom_js mac_editor (pinch_vars_init\<lparr>initDistanceBetweenFingers := 0, currDistanceBetweenFingers := 30\<rparr>)
     = PosInf"
  using pinchZoom_js_zero_distance [of "pinch_vars_init\<lparr>initDistanceBetweenFingers := 0, currDistanceBetweenFingers := 30\<rparr>"
      mac_editor]
  by (simp add: pinch_vars_init_def mac_editor_def)

end
