(* ===== verification/Session_Balance.thy ===== *)
theory Session_Balance
  imports Session_Spec
begin

text \<open>
  A conservation law of the contract's session automaton, carried to the hook through the
  refinement of \<open>Session_Spec\<close>. \<open>session_open\<close> is 1 while at least two contacts are
  tracked and 0 otherwise. Along every step of the automaton, the \<open>pinch-end\<close>s emitted
  plus the ends still pending plus the open session never exceed the \<open>pinch-start\<close>s
  emitted plus the same quantities before the step. Teardown is the only step where the
  inequality is strict: it closes a session without an end. From a freshly mounted hook,
  every run that avoids the divergent steps therefore dispatches at most as many
  \<open>pinch_end\<close>s as \<open>pinch_start\<close>s. If it does not unmount and ends idle, it
  dispatches exactly as many. An untracked release during a session, one of
  those steps, breaks this.
\<close>

definition session_open :: "session_abs \<Rightarrow> nat" where
  "session_open a = (if 2 \<le> card (contacts a) then 1 else 0)"

definition end_balance :: "session_abs \<Rightarrow> nat" where
  "end_balance a = pendingEnds a + session_open a"

definition untracked_release_run :: "(editor_view \<times> dom_input) list" where
  "untracked_release_run =
     [(ed_example, PointerDown (pointer_at 1 0 0)), (ed_example, PointerDown (pointer_at 2 100 0)),
      (ed_example, PointerUp (pointer_at 3 0 0)), (ed_example, AnimationFrame),
      (ed_example, PointerUp (pointer_at 1 0 0)), (ed_example, AnimationFrame)]"

lemma card_insert_cases: "card (insert i C) = card C \<or> card (insert i C) = Suc (card C) \<or> card (insert i C) = 0"
  by (cases "finite C") (auto simp: card_insert_if)

lemma card_remove_le: "card (C - {i}) \<le> card C"
  by (cases "finite C") (auto simp: card_Diff1_le)

lemma card_remove_two: "i \<in> C \<Longrightarrow> card C = 2 \<Longrightarrow> card (C - {i}) = 1"
  by (cases "finite C") (simp_all add: card_Diff_singleton)

lemma count_list_replicate_same [simp]: "count_list (replicate n x) x = n"
  by (induction n) simp_all

lemma spec_step_balance:
  "spec_step a l out a' \<Longrightarrow>
   count_list out Pinch_end + end_balance a' \<le> count_list out Pinch_start + end_balance a"
proof (induction rule: spec_step.induct)
  case (start_other a i)
  then show ?case
    using card_insert_cases [of i "contacts a"] by (auto simp: end_balance_def session_open_def)
next
  case (end_session a i)
  then show ?case by (simp add: end_balance_def session_open_def card_remove_two)
next
  case (end_other a i)
  then show ?case
    using card_remove_le [of "contacts a" i] by (auto simp: end_balance_def session_open_def)
qed (auto simp: end_balance_def session_open_def)

lemma spec_steps_balance:
  "spec_steps a ls outs a' \<Longrightarrow>
   count_list outs Pinch_end + end_balance a' \<le> count_list outs Pinch_start + end_balance a"
proof (induction rule: spec_steps.induct)
  case (refl a)
  then show ?case by simp
next
  case (step a l out a' ls outs a'')
  from spec_step_balance [OF step.hyps(1)] step.IH show ?case by simp
qed

lemma end_balance_mount [simp]: "end_balance (abs_session (useDomCanvasEvents_mount c)) = 0"
  by (simp add: end_balance_def session_open_def map_empty_def)

lemma spec_step_balance_eq:
  "spec_step a l out a' \<Longrightarrow> l \<noteq> Teardown \<Longrightarrow>
   count_list out Pinch_end + end_balance a' = count_list out Pinch_start + end_balance a"
proof (induction rule: spec_step.induct)
  case (start_other a i)
  then show ?case
    by (cases "finite (contacts a)") (auto simp: end_balance_def session_open_def card_insert_if)
next
  case (end_session a i)
  then show ?case by (simp add: end_balance_def session_open_def card_remove_two)
next
  case (end_other a i)
  then have "finite (contacts a) \<Longrightarrow> card (contacts a - {i}) = card (contacts a) - 1"
    by (simp add: card_Diff_singleton)
  with end_other show ?case by (cases "finite (contacts a)") (auto simp: end_balance_def session_open_def)
qed (auto simp: end_balance_def session_open_def)

lemma spec_steps_balance_eq:
  "spec_steps a ls outs a' \<Longrightarrow> Teardown \<notin> set ls \<Longrightarrow>
   count_list outs Pinch_end + end_balance a' = count_list outs Pinch_start + end_balance a"
proof (induction rule: spec_steps.induct)
  case (refl a)
  then show ?case by simp
next
  case (step a l out a' ls outs a'')
  then have "count_list out Pinch_end + end_balance a' = count_list out Pinch_start + end_balance a"
    by (intro spec_step_balance_eq) auto
  with step show ?case by simp
qed

lemma canvas_run_inv: "canvas_inv s \<Longrightarrow> canvas_inv (fst (canvas_run nw is s))"
proof (induction "is" arbitrary: s)
  case Nil
  then show ?case by simp
next
  case (Cons p "is")
  obtain ed i where p: "p = (ed, i)" by fastforce
  from Cons.prems have "canvas_inv (fst (canvas_step nw ed i s))" by (rule canvas_step_inv)
  moreover have "fst (canvas_run nw (p # is) s) = fst (canvas_run nw is (fst (canvas_step nw ed i s)))"
    by (simp add: p split: prod.split)
  ultimately show ?case using Cons.IH by simp
qed

lemma abs_input_teardown: "abs_input ed i = Teardown \<longleftrightarrow> i = Unmount" "Teardown = abs_input ed i \<longleftrightarrow> i = Unmount"
  by (cases i; simp)+

lemma end_balance_idle:
  "canvas_inv s \<Longrightarrow> pendingFrames s = [] \<Longrightarrow> map_size (activePointers s) < 2 \<Longrightarrow> end_balance (abs_session s) = 0"
  by (simp add: end_balance_def session_open_def canvas_inv_def)

lemmas concrete_run_defs = onPointerDown_def onPointerUp_def onAnimationFrame_def pinchEndInfo_def
  Let_def map_empty_def map_size_def map_has_def activePair_def map_values_def

text \<open>
  C30: from a freshly mounted hook, every run of DOM inputs that avoids the divergent
  steps dispatches at most as many \<open>pinch_end\<close>s as \<open>pinch_start\<close>s. The run that
  releases an untracked pointer during a session dispatches two \<open>pinch_end\<close>s for one
  \<open>pinch_start\<close>.
\<close>

theorem conforming_runs_balanced:
  "(run_conforms nw is (useDomCanvasEvents_mount c) \<longrightarrow>
     count_list (pinch_names (snd (canvas_run nw is (useDomCanvasEvents_mount c)))) Pinch_end \<le>
     count_list (pinch_names (snd (canvas_run nw is (useDomCanvasEvents_mount c)))) Pinch_start) \<and>
   count_list (pinch_names (snd (canvas_run nw untracked_release_run (useDomCanvasEvents_mount True)))) Pinch_end = 2 \<and>
   count_list (pinch_names (snd (canvas_run nw untracked_release_run (useDomCanvasEvents_mount True)))) Pinch_start = 1"
proof (intro conjI impI)
  assume "run_conforms nw is (useDomCanvasEvents_mount c)"
  then show "count_list (pinch_names (snd (canvas_run nw is (useDomCanvasEvents_mount c)))) Pinch_end \<le>
      count_list (pinch_names (snd (canvas_run nw is (useDomCanvasEvents_mount c)))) Pinch_start"
    using spec_steps_balance [OF canvas_run_simulation [OF canvas_inv_mount]] by fastforce
qed (simp_all add: untracked_release_run_def concrete_run_defs)

lemma conforming_runs_balanced_witness:
  "count_list (pinch_names (snd (canvas_run (\<lambda>_. vec3_of 0 0 0)
      [(ed_example, PointerDown (pointer_at 1 0 0)), (ed_example, PointerDown (pointer_at 2 100 0)),
       (ed_example, PointerUp (pointer_at 1 0 0)), (ed_example, AnimationFrame)]
      (useDomCanvasEvents_mount True)))) Pinch_end \<le> 1"
proof -
  let ?is = "[(ed_example, PointerDown (pointer_at 1 0 0)), (ed_example, PointerDown (pointer_at 2 100 0)),
       (ed_example, PointerUp (pointer_at 1 0 0)), (ed_example, AnimationFrame)]"
  have "run_conforms (\<lambda>_. vec3_of 0 0 0) ?is (useDomCanvasEvents_mount True)"
    by (simp add: concrete_run_defs)
  then show ?thesis
    using conforming_runs_balanced [of "\<lambda>_. vec3_of 0 0 0" ?is True] by (simp add: concrete_run_defs)
qed

text \<open>
  C31: from a freshly mounted hook, a run that avoids the divergent steps and does not
  unmount, and that ends with fewer than two fingers down and no frame pending, has
  dispatched exactly as many \<open>pinch_end\<close>s as \<open>pinch_start\<close>s. Every session that
  started has been closed by exactly one end.
\<close>

theorem idle_runs_pair_starts_and_ends:
  assumes "run_conforms nw is (useDomCanvasEvents_mount c)" "Unmount \<notin> snd ` set is"
      and "pendingFrames (fst (canvas_run nw is (useDomCanvasEvents_mount c))) = []"
      and "map_size (activePointers (fst (canvas_run nw is (useDomCanvasEvents_mount c)))) < 2"
  shows "count_list (pinch_names (snd (canvas_run nw is (useDomCanvasEvents_mount c)))) Pinch_end =
         count_list (pinch_names (snd (canvas_run nw is (useDomCanvasEvents_mount c)))) Pinch_start"
proof -
  let ?s = "useDomCanvasEvents_mount c"
  have steps: "spec_steps (abs_session ?s) (map (\<lambda>(ed, i). abs_input ed i) is)
      (pinch_names (snd (canvas_run nw is ?s))) (abs_session (fst (canvas_run nw is ?s)))"
    using canvas_inv_mount assms(1) by (rule canvas_run_simulation)
  have "Teardown \<notin> set (map (\<lambda>(ed, i). abs_input ed i) is)"
    using assms(2) by (force simp: abs_input_teardown)
  from spec_steps_balance_eq [OF steps this]
  have "count_list (pinch_names (snd (canvas_run nw is ?s))) Pinch_end + end_balance (abs_session (fst (canvas_run nw is ?s))) =
      count_list (pinch_names (snd (canvas_run nw is ?s))) Pinch_start" by simp
  moreover have "end_balance (abs_session (fst (canvas_run nw is ?s))) = 0"
    using canvas_run_inv [OF canvas_inv_mount] assms(3,4) by (rule end_balance_idle)
  ultimately show ?thesis by simp
qed

lemma idle_runs_pair_starts_and_ends_witness:
  "count_list (pinch_names (snd (canvas_run (\<lambda>_. vec3_of 0 0 0)
      [(ed_example, PointerDown (pointer_at 1 0 0)), (ed_example, PointerDown (pointer_at 2 100 0)),
       (ed_example, PointerUp (pointer_at 1 0 0)), (ed_example, AnimationFrame)]
      (useDomCanvasEvents_mount True)))) Pinch_end = 1"
proof -
  let ?is = "[(ed_example, PointerDown (pointer_at 1 0 0)), (ed_example, PointerDown (pointer_at 2 100 0)),
       (ed_example, PointerUp (pointer_at 1 0 0)), (ed_example, AnimationFrame)]"
  have "run_conforms (\<lambda>_. vec3_of 0 0 0) ?is (useDomCanvasEvents_mount True)"
    and "pendingFrames (fst (canvas_run (\<lambda>_. vec3_of 0 0 0) ?is (useDomCanvasEvents_mount True))) = []"
    and "map_size (activePointers (fst (canvas_run (\<lambda>_. vec3_of 0 0 0) ?is (useDomCanvasEvents_mount True)))) < 2"
    by (simp_all add: concrete_run_defs)
  moreover have "Unmount \<notin> snd ` set ?is" by auto
  ultimately show ?thesis
    using idle_runs_pair_starts_and_ends [of "\<lambda>_. vec3_of 0 0 0" ?is True] by (simp add: concrete_run_defs)
qed

end
