(* ===== verification/Event_Format.thy ===== *)
theory Event_Format
  imports Canvas_Events
begin

text \<open>
  The format of the canonical gesture events (spec sections 3 and 4.2) as a predicate on
  \<open>canvas_event\<close>, beyond what the datatype already fixes. A \<open>pinch_start\<close> has a zero
  delta. A \<open>pinch_end\<close> repeats its point as its delta. A \<open>wheel\<close> info never carries
  a zero delta and sits at \<open>z = 1\<close>. Every info reports the accelerator only with
  control held. The theorem of this theory shows that every event any listener or frame
  dispatches has this format, from every state.
\<close>

fun wf_event :: "canvas_event \<Rightarrow> bool" where
  "wf_event (PinchInfo Pinch_start p d k) = (d = vec2_of 0 0 \<and> (accelKey k \<longrightarrow> ctrlKey k))"
| "wf_event (PinchInfo Pinch p d k) = (accelKey k \<longrightarrow> ctrlKey k)"
| "wf_event (PinchInfo Pinch_end p d k) = (vx d = vx p \<and> vy d = vy p \<and> (accelKey k \<longrightarrow> ctrlKey k))"
| "wf_event (WheelInfo delta point k) =
     (\<not> (vx delta = 0 \<and> vy delta = 0) \<and> vz point = 1 \<and> (accelKey k \<longrightarrow> ctrlKey k))"

declare event_keys_accel_implies_ctrl [simp]

lemma onPointerDown_wf: "ev \<in> set (dispatched (snd (onPointerDown ed e s))) \<Longrightarrow> wf_event ev"
  by (auto simp: onPointerDown_def Let_def vec2_of_def split: prod.splits if_splits)

lemma onPointerMove_wf: "ev \<in> set (dispatched (snd (onPointerMove ed e s))) \<Longrightarrow> wf_event ev"
  by (auto simp: onPointerMove_def Let_def split: prod.splits if_splits pinch_state.splits)

lemma onPointerUp_silent [simp]: "dispatched (snd (onPointerUp ed e s)) = []"
  by (simp add: onPointerUp_def Let_def)

lemma onWheel_wf: "ev \<in> set (dispatched (snd (onWheel nw ed e s))) \<Longrightarrow> wf_event ev"
  by (auto simp: onWheel_def Let_def vec3_of_def split: if_splits)

lemma onAnimationFrame_wf: "ev \<in> set (dispatched (snd (onAnimationFrame ed s))) \<Longrightarrow> wf_event ev"
  by (auto simp: onAnimationFrame_def pinchEndInfo_def Let_def vec2_of_def vec3_of_def)

text \<open>
  C32: whatever the state and the input, every event the hook dispatches in one step has
  the canonical format: \<open>pinch_start\<close> with zero delta, \<open>pinch_end\<close> with its point as
  delta, \<open>wheel\<close> with a non-zero delta at \<open>z = 1\<close>, and never the accelerator without
  control.
\<close>

theorem dispatched_events_wf:
  "ev \<in> set (dispatched (snd (canvas_step nw ed i s))) \<Longrightarrow> wf_event ev"
  by (cases i) (auto intro: onPointerDown_wf onPointerMove_wf onWheel_wf onAnimationFrame_wf split: if_splits)

lemma dispatched_events_wf_witness:
  "wf_event (PinchInfo Pinch_start (vec3_of 50 0 1) (vec2_of 0 0)
     (event_keys ed_example (pointer_at 2 100 0)))"
proof -
  have "dispatched (snd (canvas_step (\<lambda>_. vec3_of 0 0 0) ed_example (PointerDown (pointer_at 2 100 0))
      ((useDomCanvasEvents_mount True)\<lparr>activePointers := [(1, pointer_at 1 0 0)]\<rparr>))) =
      [PinchInfo Pinch_start (vec3_of 50 0 1) (vec2_of 0 0) (event_keys ed_example (pointer_at 2 100 0))]"
    by (simp add: onPointerDown_def Let_def map_size_def activePair_def map_values_def getPointerCenter_def
        vec2_of_def vec3_of_def)
  then show ?thesis
    using dispatched_events_wf [of _ "\<lambda>_. vec3_of 0 0 0" ed_example "PointerDown (pointer_at 2 100 0)"
        "(useDomCanvasEvents_mount True)\<lparr>activePointers := [(1, pointer_at 1 0 0)]\<rparr>"]
    by simp
qed

end
