(* ===== verification/Release_All.thy ===== *)
theory Release_All
  imports Canvas_Events "HOL-Library.Multiset"
begin

text \<open>
  The end of a gesture: the user lifts every finger. The browser then sends one
  \<open>pointerup\<close> per tracked pointer, carrying that pointer's id, and each one runs
  \<open>onPointerUp\<close> (lines 164--189). \<open>release_all\<close> lifts the first pointer
  \<open>Array.from(activePointers.values())\<close> lists until the map is empty. The recursion is
  on the hook's state and not on a datatype, so it is a \<^theory_text>\<open>function\<close> with a
  termination proof. Its measure is the size of the map, which every release shrinks
  because \<open>activePointers.delete\<close> removes the released key. The first theorem of
  this theory shows that the gesture always ends idle, whatever the number of fingers. It
  also shows that exactly one \<open>pinch_end\<close> is queued if two or more fingers were
  down, and none otherwise. A third finger does not cause a second \<open>pinch_end\<close>. The
  second theorem drops the fixed order. The pointerups go through \<open>canvas_run\<close> in
  any order of the tracked ids, as a multiset equality, and one frame follows. The hook
  then always ends quiescent, with every queued \<open>pinch_end\<close> dispatched.
\<close>

function release_all :: "editor_view \<Rightarrow> canvas_state \<Rightarrow> canvas_state" where
  "release_all ed s =
     (case activePointers s of
        [] \<Rightarrow> s
      | (k, e) # _ \<Rightarrow> release_all ed (fst (onPointerUp ed (e\<lparr>pointerId := k\<rparr>) s)))"
  by pat_completeness auto

termination
  by (relation "measure (\<lambda>(ed, s). length (activePointers s))") (auto simp: onPointerUp_def)

declare release_all.simps [simp del]

definition three_finger_example :: canvas_state where
  "three_finger_example =
     (session_example Zooming)\<lparr>activePointers :=
        [(1, pointer_at 1 0 0), (2, pointer_at 2 100 0), (3, pointer_at 3 50 50)]\<rparr>"

lemma release_first:
  assumes "activePointers s = (k, e) # rest"
  shows "activePointers (fst (onPointerUp ed (e\<lparr>pointerId := k\<rparr>) s)) = rest \<and>
         length (pendingFrames (fst (onPointerUp ed (e\<lparr>pointerId := k\<rparr>) s))) =
           length (pendingFrames s) + (if map_size (activePointers s) = 2 then 1 else 0)"
  using assms by (simp add: onPointerUp_def)

lemma release_all_result:
  "canvas_inv s \<Longrightarrow>
   activePointers (release_all ed s) = [] \<and> canvas_inv (release_all ed s) \<and>
   length (pendingFrames (release_all ed s)) =
     length (pendingFrames s) + (if 2 \<le> map_size (activePointers s) then 1 else 0)"
proof (induction ed s rule: release_all.induct)
  case (1 ed s)
  show ?case
  proof (cases "activePointers s")
    case Nil
    with "1.prems" show ?thesis by (simp add: release_all.simps [of ed s] map_size_def)
  next
    case (Cons p rest)
    obtain k e where p: "p = (k, e)" by fastforce
    let ?s1 = "fst (onPointerUp ed (e\<lparr>pointerId := k\<rparr>) s)"
    have r: "release_all ed s = release_all ed ?s1"
      using Cons p by (simp add: release_all.simps [of ed s])
    have inv1: "canvas_inv ?s1" using "1.prems" by (rule onPointerUp_inv)
    have IH: "activePointers (release_all ed ?s1) = [] \<and> canvas_inv (release_all ed ?s1) \<and>
        length (pendingFrames (release_all ed ?s1)) =
          length (pendingFrames ?s1) + (if 2 \<le> map_size (activePointers ?s1) then 1 else 0)"
      using Cons p inv1 by (intro "1.IH") simp_all
    from release_first [of s k e rest ed] Cons p
    have "activePointers ?s1 = rest"
      "length (pendingFrames ?s1) = length (pendingFrames s) + (if length rest = 1 then 1 else 0)"
      by (simp_all add: map_size_def)
    with IH r Cons show ?thesis by (simp add: map_size_def)
  qed
qed

text \<open>
  The fingers may lift in any order. Each \<open>pointerup\<close> of a tracked pointer deletes its
  key, queues the \<open>pinch_end\<close> callback when it is the one that leaves the pair, and
  dispatches nothing.
\<close>

lemma mset_keys_delete:
  assumes "map_inv m" "k \<in> set (map fst m)"
  shows "mset (map fst (map_delete k m)) = mset (map fst m) - {#k#}"
  using assms by (simp add: map_inv_def keys_map_delete distinct_remove1_removeAll [symmetric])

lemma release_tracked:
  assumes "canvas_inv s" "pointerId u \<in> set (map fst (activePointers s))"
  shows "mset (map fst (activePointers (fst (onPointerUp ed u s)))) = mset (map fst (activePointers s)) - {#pointerId u#} \<and>
         map_size (activePointers (fst (onPointerUp ed u s))) = map_size (activePointers s) - 1 \<and>
         length (pendingFrames (fst (onPointerUp ed u s))) =
           length (pendingFrames s) + (if map_size (activePointers s) = 2 then 1 else 0) \<and>
         listening (fst (onPointerUp ed u s)) = listening s \<and> dispatched (snd (onPointerUp ed u s)) = []"
proof -
  have m: "map_inv (activePointers s)" using assms(1) by (simp add: canvas_inv_def)
  moreover have "map_has (pointerId u) (activePointers s)"
    using assms(2) by (simp add: map_has_def)
  ultimately show ?thesis
    using assms(2) mset_keys_delete [OF m assms(2)]
    by (simp add: onPointerUp_def Let_def map_size_delete)
qed

lemma release_in_any_order:
  assumes "canvas_inv s" "listening s" "mset (map pointerId ups) = mset (map fst (activePointers s))"
  shows "activePointers (fst (canvas_run nw (map (\<lambda>u. (ed, PointerUp u)) ups) s)) = [] \<and>
         canvas_inv (fst (canvas_run nw (map (\<lambda>u. (ed, PointerUp u)) ups) s)) \<and>
         snd (canvas_run nw (map (\<lambda>u. (ed, PointerUp u)) ups) s) = [] \<and>
         length (pendingFrames (fst (canvas_run nw (map (\<lambda>u. (ed, PointerUp u)) ups) s))) =
           length (pendingFrames s) + (if 2 \<le> map_size (activePointers s) then 1 else 0)"
  using assms
proof (induction ups arbitrary: s)
  case Nil
  then show ?case by (simp add: map_size_def)
next
  case (Cons u ups)
  let ?s1 = "fst (onPointerUp ed u s)"
  have tracked: "pointerId u \<in> set (map fst (activePointers s))"
    using Cons.prems(3) by (metis list.set_intros(1) list.simps(9) set_mset_mset)
  note r = release_tracked [OF Cons.prems(1) tracked, of ed]
  have "mset (map pointerId ups) = mset (map fst (activePointers s)) - {#pointerId u#}"
    using Cons.prems(3) by (metis add_mset_remove_trivial list.simps(9) mset.simps(2))
  then have ms: "mset (map pointerId ups) = mset (map fst (activePointers ?s1))"
    using r by simp
  have "canvas_inv ?s1" using Cons.prems(1) by (rule onPointerUp_inv)
  moreover have "listening ?s1" using Cons.prems(2) r by simp
  ultimately have IH: "activePointers (fst (canvas_run nw (map (\<lambda>u. (ed, PointerUp u)) ups) ?s1)) = [] \<and>
      canvas_inv (fst (canvas_run nw (map (\<lambda>u. (ed, PointerUp u)) ups) ?s1)) \<and>
      snd (canvas_run nw (map (\<lambda>u. (ed, PointerUp u)) ups) ?s1) = [] \<and>
      length (pendingFrames (fst (canvas_run nw (map (\<lambda>u. (ed, PointerUp u)) ups) ?s1))) =
        length (pendingFrames ?s1) + (if 2 \<le> map_size (activePointers ?s1) then 1 else 0)"
    using ms by (rule Cons.IH)
  have run: "canvas_run nw (map (\<lambda>u. (ed, PointerUp u)) (u # ups)) s =
      (fst (canvas_run nw (map (\<lambda>u. (ed, PointerUp u)) ups) ?s1),
       dispatched (snd (onPointerUp ed u s)) @ snd (canvas_run nw (map (\<lambda>u. (ed, PointerUp u)) ups) ?s1))"
    using Cons.prems(2) by (simp split: prod.split)
  have "0 < map_size (activePointers s)"
    using tracked by (auto simp: map_size_def)
  with IH r run show ?case by auto
qed

text \<open>
  C33: lifting every finger terminates, from any state satisfying the invariant and with
  no frame queued. Afterwards no pointer is tracked and the mode is undecided. The next
  animation frame dispatches exactly one \<open>pinch_end\<close> if two or more fingers were
  down, whatever their number, and none if fewer were.
\<close>

theorem release_all_ends_gesture:
  assumes "canvas_inv s" "pendingFrames s = []"
  shows "activePointers (release_all ed s) = [] \<and> pinchState (release_all ed s) = Not_sure \<and>
         count_pinch Pinch_end (dispatched (snd (onAnimationFrame ed' (release_all ed s)))) =
           (if 2 \<le> map_size (activePointers s) then 1 else 0)"
proof -
  from release_all_result [OF assms(1), of ed]
  have r: "activePointers (release_all ed s) = []" "canvas_inv (release_all ed s)"
      "length (pendingFrames (release_all ed s)) = (if 2 \<le> map_size (activePointers s) then 1 else 0)"
    using assms(2) by simp_all
  from r(1,2) have "pinchState (release_all ed s) = Not_sure"
    by (simp add: canvas_inv_def map_size_def)
  with r show ?thesis by (simp add: onAnimationFrame_def)
qed

lemma release_all_ends_gesture_witness:
  "count_pinch Pinch_end (dispatched (snd (onAnimationFrame ed_example (release_all ed_example three_finger_example)))) = 1"
proof -
  have "canvas_inv three_finger_example" "pendingFrames three_finger_example = []"
    by (simp_all add: three_finger_example_def canvas_inv_def map_inv_def map_size_def)
  then show ?thesis
    using release_all_ends_gesture [of three_finger_example ed_example ed_example]
    by (simp add: three_finger_example_def map_size_def)
qed

text \<open>
  C34: every gesture can be ended. From any state satisfying the invariant with the
  listeners attached, lifting every tracked finger, in any order, and then one animation
  frame leave the hook quiescent: no pointer tracked, the mode undecided, no callback
  queued. The frame dispatches one \<open>pinch_end\<close> for each callback queued before, plus
  exactly one if two or more fingers were down.
\<close>

theorem fingers_up_quiesce:
  assumes "canvas_inv s" "listening s" "mset (map pointerId ups) = mset (map fst (activePointers s))"
  shows "let run = canvas_run nw (map (\<lambda>u. (ed, PointerUp u)) ups @ [(ed', AnimationFrame)]) s in
         activePointers (fst run) = [] \<and> pinchState (fst run) = Not_sure \<and> pendingFrames (fst run) = [] \<and>
         count_pinch Pinch_end (snd run) =
           length (pendingFrames s) + (if 2 \<le> map_size (activePointers s) then 1 else 0)"
proof -
  define run where "run = canvas_run nw (map (\<lambda>u. (ed, PointerUp u)) ups @ [(ed', AnimationFrame)]) s"
  let ?s' = "fst (canvas_run nw (map (\<lambda>u. (ed, PointerUp u)) ups) s)"
  note r = release_in_any_order [OF assms(1-3), of nw ed]
  have split: "run = (fst (onAnimationFrame ed' ?s'), snd (canvas_run nw (map (\<lambda>u. (ed, PointerUp u)) ups) s) @
      dispatched (snd (onAnimationFrame ed' ?s')))"
    unfolding run_def by (simp add: canvas_run_append split: prod.split)
  from r have "pinchState ?s' = Not_sure" by (simp add: canvas_inv_def map_size_def)
  with r split show ?thesis by (simp add: onAnimationFrame_def Let_def flip: run_def)
qed

lemma fingers_up_quiesce_witness:
  "count_pinch Pinch_end (snd (canvas_run (\<lambda>_. vec3_of 0 0 0)
     [(ed_example, PointerUp (pointer_at 2 100 0)), (ed_example, PointerUp (pointer_at 1 0 0)),
      (ed_example, AnimationFrame)] (session_example Zooming))) = 1"
proof -
  have "canvas_inv (session_example Zooming)"
    by (simp add: canvas_inv_def map_inv_def map_size_def)
  then show ?thesis
    using fingers_up_quiesce [of "session_example Zooming" "[pointer_at 2 100 0, pointer_at 1 0 0]"
        "\<lambda>_. vec3_of 0 0 0" ed_example ed_example]
    by (simp add: map_size_def Let_def del: canvas_run.simps)
qed

end
