(* ===== verification/Spec2Isabelle.thy ===== *)
theory Spec2Isabelle
  imports Pinch_Session Hook_Lifecycle Wheel_Normalize Js_Number Session_Balance Event_Format Release_All
begin

text \<open>
  \<^bold>\<open>A verified model of tldraw's pinch and wheel gesture hook.\<close>

  The program is \<open>src/packages/editor/src/lib/hooks/useDomCanvasEvents.ts\<close>, the React
  hook \<open>useDomCanvasEvents\<close>. Its effect attaches five DOM listeners to the canvas
  container. Three of them (\<open>pointerdown\<close>, \<open>pointermove\<close>, and \<open>pointerup\<close>, which
  also serves \<open>pointercancel\<close>) track contacts in a \<open>Map\<close> and turn two-finger
  motion into \<open>pinch_start\<close>/\<open>pinch\<close>/\<open>pinch_end\<close> infos. The fifth, \<open>wheel\<close>,
  turns wheel ticks into \<open>wheel\<close> infos. All of them are handed to
  \<open>editor.dispatch\<close>. The parts interact through the closure's shared state. The
  pointer listeners share \<open>activePointers\<close> and the pinch variables. The wheel listener
  resets \<open>pinchState\<close>. \<open>pinch_end\<close> is deferred through
  \<open>editor.timers.requestAnimationFrame\<close>, and its callback reads the shared
  \<open>prevPointBetweenFingers\<close> when the frame fires.

  \<^bold>\<open>Theories and what they model.\<close>
  \<^item> \<open>Canvas_Prelude\<close>: the \<open>{x, y}\<close> literals and \<open>Vec\<close> as the records \<open>vec2\<close>
    and \<open>vec3\<close>, \<open>Vec.Dist\<close> as \<open>vec_dist\<close>, and TypeScript's \<open>**\<close> as
    \<open>js_pow\<close>. It also holds the shared lemma collections \<open>handler_defs\<close> and
    \<open>geometry_simps\<close>, and list and sqrt helper lemmas.
  \<^item> \<open>Canvas_Interface\<close>: the DOM events as a record hierarchy (\<open>key_state\<close>,
    \<open>mouse_event\<close>, \<open>pointer_event\<close>, \<open>wheel_event\<close>). The dispatched infos are the
    datatype \<open>canvas_event\<close>. The shared key block of every info is \<open>event_keys\<close>
    (lines 99--103 and their copies). \<open>isAccelKey\<close> comes from \<open>utils/keyboard\<close>.
    The editor as the hook reads it is the record \<open>editor_view\<close>, and \<open>reaction\<close>
    records what a listener dispatches and whether it prevents the browser default.
  \<^item> \<open>Pointer_Map\<close>: the contact tracker \<open>activePointers\<close>. The JavaScript \<open>Map\<close>
    is an insertion-ordered association list, with \<open>map_set\<close>, \<open>map_delete\<close>,
    \<open>map_has\<close>, \<open>map_values\<close> and \<open>map_size\<close> for \<open>set\<close>, \<open>delete\<close>,
    \<open>has\<close>, \<open>values\<close> and \<open>size\<close>. The lemmas prove the map contract (the
    refinement to \<open>map_of\<close>) and the iteration order.
  \<^item> \<open>Pinch\<close>: the pinch classifier. The mode datatype \<open>pinch_state\<close> (line 31) is
    ordered \<open>Not_sure < Panning < Zooming\<close> by a \<open>linorder\<close> instance. The closure
    variables (lines 31--36) are the record \<open>pinch_vars\<close>. It also holds
    \<open>getPointerDistance\<close> and \<open>getPointerCenter\<close> (lines 39--51),
    \<open>updatePinchState\<close> (lines 54--76) with its table and monotonicity, and the zoom
    power law \<open>pinchZoom\<close> (lines 128--129 and 167--168).
  \<^item> \<open>Wheel\<close>: \<open>onWheel\<close> (lines 192--230) with the scroll exemption
    \<open>scrollExempt\<close> (lines 197--210) and \<open>Box.containsPoint\<close>.
  \<^item> \<open>Canvas_Events\<close>: the whole hook. Its state \<open>canvas_state\<close> extends
    \<open>pinch_vars\<close> with the tracker, the queue of frame callbacks, whether the listeners
    are attached, and the container's \<open>touchAction\<close> flag. It defines
    \<open>onPointerDown\<close> (79--107), \<open>onPointerMove\<close> (109--162), \<open>onPointerUp\<close>
    (164--189), the callback body \<open>pinchEndInfo\<close> (172--185), mounting and cleanup
    (19--37, 233--245), and the step function \<open>canvas_step\<close> over the datatype of DOM
    inputs. \<open>canvas_run\<close> runs a list of inputs, each paired with the editor as it is
    when the input arrives. \<open>canvas_reachable\<close> is the set of states reachable from
    mounting. The theory proves the invariant \<open>canvas_inv\<close>, the classification of a
    move inside a two-finger session, and the behaviour of the mode across steps.
  \<^item> \<open>Pinch_Session\<close>: properties of runs. These are the protocol of one session,
    session start and end, untracked pointers, the wheel inside a session, teardown, and
    the scenarios where the code and the spec part ways.
  \<^item> \<open>Session_Spec\<close>: the contract's pinch-session automaton (spec sections 3, 4.1,
    4.2 and 5). It is the inductive \<open>spec_step\<close> over an abstract state of contact
    identities, mode, pending \<open>pinch-end\<close>s and liveness, with \<open>spec_steps\<close> for
    runs. It also holds the abstraction \<open>abs_session\<close>/\<open>abs_input\<close>/\<open>pinch_names\<close>,
    one simulation lemma per listener, and the refinement of whole runs. The steps the
    automaton does not allow are named by \<open>spec_divergent\<close>.
  \<^item> \<open>Wheel_Normalize\<close>: \<open>normalizeWheel\<close>, which is not among the sources, modelled
    from its contract (spec 4.3) as the conversion of pixel, line and page deltas to
    pixels, and \<open>onWheel\<close> composed with it.
  \<^item> \<open>Hook_Lifecycle\<close>: the hook as React runs it. This is \<open>DomDeps\<close> and the
    dependency array \<open>[editor, container]\<close> (lines 9--12, 19--21 and 246). A render with
    changed dependencies runs the cleanup and then the effect with a fresh closure. The
    callbacks of retired closures still fire on the editor's timer.
  \<^item> \<open>Js_Number\<close>: TypeScript numbers with \<open>Infinity\<close>, \<open>-Infinity\<close> and \<open>NaN\<close>, and
    division, multiplication and \<open>**\<close> following the special-value cases of IEEE 754 and
    ECMAScript. \<open>pinchZoom_js\<close> is the zoom of lines 128--129 computed with them.
  \<^item> \<open>Session_Balance\<close>: a conservation law of the contract's automaton, carried to the
    hook's runs through the refinement.
  \<^item> \<open>Event_Format\<close>: the canonical format of the dispatched infos (\<open>wf_event\<close>) and its
    proof for every step.
  \<^item> \<open>Release_All\<close>: the end of a gesture, \<open>release_all\<close>. When every finger lifts,
    the browser sends one \<open>pointerup\<close> per tracked pointer, each running
    \<open>onPointerUp\<close>. The theory shows that this loop terminates idle and queues
    exactly one \<open>pinch_end\<close> if two or more fingers were down. It also shows the same
    through \<open>canvas_run\<close> for pointerups in any order followed by one frame: the hook
    always returns to quiescence (liveness).

  \<^bold>\<open>How state and effects correspond to the code.\<close>
  Each listener is a function from the editor view, the DOM event and the state to the
  new state and its reaction. Field updates follow the statement order of the source.
  \<open>editor.dispatch\<close> calls become the list \<open>dispatched\<close>.
  \<open>preventDefault\<close>/\<open>stopEventPropagation\<close> become \<open>defaultPrevented\<close>.
  \<open>requestAnimationFrame\<close> appends a \<open>frame_callback\<close> holding what the closure
  captures (\<open>finalZoom\<close> and the event). The \<open>AnimationFrame\<close> input runs all
  queued callbacks in order against the state at that moment. Listeners removed by the
  cleanup ignore DOM inputs, while the frame queue belongs to the editor's timers and keeps
  running.

  \<^bold>\<open>What the lemma groups show.\<close>
  \<^item> The invariant: every reachable state has a duplicate-free tracker keyed by pointer
    id and non-negative distances, and no classification runs with fewer than two
    contacts.
  \<^item> The classifier's thresholds (24 to zoom and 16 to pan from undecided, 64 from
    panning to zooming), the emitted zoom \<open>initZoom * scale ** zoomSpeed\<close>, and the
    frozen zoom of a pan, stated at the level of the \<open>pointermove\<close> handler.
  \<^item> Zooming is sticky under moves. The mode falls back only at a session boundary or on
    a focused wheel event.
  \<^item> The session protocol: exactly one \<open>pinch_start\<close>, first, and one
    \<open>pinch_end\<close>, last. Session start and end are also given field by field.
  \<^item> Robustness: untracked moves and releases are no-ops, except for the release
    described next.
  \<^item> The tracker refines a finite map and keeps \<open>pointerdown\<close> order. A new pointer's
    down followed by its up restores the tracker, and outside a pair the whole state.
  \<^item> Refinement: from any state satisfying the invariant, every run that avoids the three
    divergent steps is simulated by the contract's automaton with the same sequence of
    pinch events. The proof is by one simulation lemma per listener, lifted to runs by
    induction on the run. Conversely, each of the three divergent steps has no matching
    step of the automaton, so they are exactly where the hook leaves its contract.
  \<^item> Bounds: with positive initial zoom, distances and zoom speed, the reported zoom is
    positive. It is at least \<open>initZoom\<close> exactly when the fingers have spread, and it
    does not decrease as they spread further.
  \<^item> Conservation: from mounting, every run that avoids the divergent steps dispatches at
    most as many \<open>pinch_end\<close>s as \<open>pinch_start\<close>s. A release of an untracked pointer
    in a session breaks this (two ends for one start). If such a run does not unmount
    and ends idle (fewer than two fingers, no frame pending), the counts are equal, so
    every started session got exactly one end.
  \<^item> Format: every dispatched event is well formed. A \<open>pinch_start\<close> has zero delta, a
    \<open>pinch_end\<close> repeats its point as delta, and a \<open>wheel\<close> has a non-zero delta at
    \<open>z = 1\<close>. The accelerator is never reported without control.
  \<^item> Wheel with the contract's normaliser: a focused, non-exempt event is dispatched
    exactly when its raw delta is non-zero.
  \<^item> Liveness: from every state satisfying the invariant, lifting the tracked fingers in
    any order and one animation frame leave no pointer, no mode and no queued callback.
  \<^item> Findings, each a theorem.
    \<^enum> A release of an untracked pointer during a session ends the pinch while the
      session continues.
    \<^enum> A session ended without a move reports a stale zoom (0 in the first session),
      because \<open>currDistanceBetweenFingers\<close> is never reset.
    \<^enum> A deferred \<open>pinch_end\<close> that fires after a new session started carries the new
      centre.
    \<^enum> The cleanup does not cancel a queued \<open>pinch_end\<close>.
    \<^enum> A wheel tick inside a session can turn a zoom into a pan.
    \<^enum> Two fingers put down at one point lead to a division by a zero initial distance.
    \<^enum> A third finger silently takes over a session without a new \<open>pinch_start\<close>.
    \<^enum> A repeated \<open>pointerdown\<close> for a pointer already in a session restarts the
      session: a second \<open>pinch_start\<close> is dispatched and the baseline is reset.
    \<^enum> A change of \<open>editor\<close> or \<open>container\<close> during a pinch drops the session: no
      \<open>pinch_end\<close> follows its \<open>pinch_start\<close>.

  \<^bold>\<open>Numbers, bounds and termination.\<close>
  TypeScript numbers are modelled as \<open>real\<close>: no rounding, no \<open>NaN\<close>, no
  \<open>Infinity\<close>. \<open>Js_Number\<close> justifies this reading for the only computation where a
  special value can arise, the zoom. With a positive initial distance and a non-negative
  zoom speed, the TypeScript value is exactly the real model's. With an initial distance
  of 0, which is reachable, it is \<open>Infinity\<close> or \<open>NaN\<close>, where HOL's \<open>x / 0 = 0\<close>
  gives 0. HOL's \<open>powr\<close> also gives \<open>0 ** y = 0\<close> for a negative \<open>y\<close>, where
  TypeScript gives \<open>Infinity\<close>. Theorems that state a computed zoom therefore assume a
  positive initial distance and non-negative current distance and zoom speed, the domain
  on which \<open>Js_Number\<close> proves the two readings equal. The one exception is the
  first-session zoom of 0 after a release without a move. It assumes a positive initial
  distance and a positive zoom speed, where TypeScript's \<open>0 ** zoomSpeed\<close> is 0 as
  well. Distances,
  centres and comparisons with the thresholds involve no division, so they are exact.
  Rounding of doubles and the sign of zero are not modelled. No handler of the hook loops.
  Every recursive definition of the model except one is structural (over lists of inputs,
  of map entries or of queued callbacks), so it terminates by construction and needs no
  fuel. The exception is \<open>release_all\<close>, which recurses on the hook's state: it releases
  the first tracked pointer until the tracker is empty. It is a \<^theory_text>\<open>function\<close>
  whose termination is proved with the measure \<open>length (activePointers s)\<close>, which
  every \<open>onPointerUp\<close> of a tracked pointer decreases by one.

  \<^bold>\<open>Not modelled.\<close>
  \<open>normalizeWheel\<close> (in \<open>utils/normalizeWheel\<close>, not among the sources) is a parameter
  of \<open>onWheel\<close>, and the wheel theorems of \<open>Wheel\<close> hold for any normaliser. Its model in
  \<open>Wheel_Normalize\<close> follows the spec's contract. The pixel sizes of a line and a page
  are parameters, since the spec fixes none. Device- or modifier-specific adjustments
  of the real utility are not described by the spec and are not modelled. What
  \<open>editor.dispatch\<close> does with the infos is not modelled, nor are the camera and shape
  store behind the queries. React's scheduling beyond the dependency comparison (when
  renders happen, strict-mode double effects) is not modelled. \<open>webkitUserSelect\<close> is not
  modelled.
\<close>

end
